theory Spec2Isabelle
  imports Main "HOL-Library.Word"
begin

unbundle bit_operations_syntax

section \<open>Machine integers\<close>

text \<open>
  Go's \<open>int32\<close> and \<open>int64\<close> are modelled as \<open>int\<close> with the two's complement
  wrap-around written out: \<open>i32\<close> is the conversion \<open>int32(x)\<close> (and the result of every
  32-bit operation), \<open>i64\<close> the same at 64 bits.
\<close>

definition i32 :: "int \<Rightarrow> int" where
  "i32 x = (x + 2147483648) mod 4294967296 - 2147483648"

definition i64 :: "int \<Rightarrow> int" where
  "i64 x = (x + 9223372036854775808) mod 18446744073709551616 - 9223372036854775808"

definition in_i32 :: "int \<Rightarrow> bool" where
  "in_i32 x = (- 2147483648 \<le> x \<and> x \<le> 2147483647)"

definition in_i64 :: "int \<Rightarrow> bool" where
  "in_i64 x = (- 9223372036854775808 \<le> x \<and> x \<le> 9223372036854775807)"

section \<open>Constants of the appender\<close>

definition AppenderTripped :: int where
  "AppenderTripped = - 1"

definition AppenderFailed :: int where
  "AppenderFailed = - 2"

definition beginFrag :: int where
  "beginFrag = 128"

definition endFrag :: int where
  "endFrag = 64"

definition unfragmented :: int where
  "unfragmented = 128 OR 64"

text \<open>
  Modelled from the spec: \<open>logbuffer.DataFrameHeader\<close> and \<open>logbuffer.FrameAlignment\<close> are
  declared outside \<open>appender.go\<close>. The field offsets and the header length are the frame
  layout of the spec (frame length at 0, version at 4, flags at 5, type at 6, term offset
  at 8, session ID at 12, stream ID at 16, term ID at 20, reserved value at 24, payload
  at 32); the alignment is the one of the spec's scenario (32). The spec names the
  version and the two frame types without their encodings; they are fixed here as
  version 0, data 1 and pad 0, and the theorems below name them symbolically.
\<close>

definition Header_Length :: int where
  "Header_Length = 32"

definition FrameAlignment :: int where
  "FrameAlignment = 32"

definition FrameLengthFieldOffset :: int where
  "FrameLengthFieldOffset = 0"

definition VersionFieldOffset :: int where
  "VersionFieldOffset = 4"

definition FlagsFieldOffset :: int where
  "FlagsFieldOffset = 5"

definition TypeFieldOffset :: int where
  "TypeFieldOffset = 6"

definition TermOffsetFieldOffset :: int where
  "TermOffsetFieldOffset = 8"

definition SessionIDFieldOffset :: int where
  "SessionIDFieldOffset = 12"

definition StreamIDFieldOffset :: int where
  "StreamIDFieldOffset = 16"

definition TermIDFieldOffset :: int where
  "TermIDFieldOffset = 20"

definition ReservedValueFieldOffset :: int where
  "ReservedValueFieldOffset = 24"

definition CurrentVersion :: int where
  "CurrentVersion = 0"

definition TypeData :: int where
  "TypeData = 1"

definition TypePad :: int where
  "TypePad = 0"

text \<open>
  Modelled from the spec: \<open>util.AlignInt32\<close> is not among the sources. It rounds a 32-bit
  value up to the next multiple of the alignment (a power of two), in 32-bit arithmetic.
\<close>

definition AlignInt32 :: "int \<Rightarrow> int \<Rightarrow> int" where
  "AlignInt32 v alignment = i32 ((i32 (v + (alignment - 1)) div alignment) * alignment)"

text \<open>
  Modelled from the spec: \<open>logbuffer.TermID\<close> is not among the sources. The tail position
  holds the term ID in its high 32 bits.
\<close>

definition TermID :: "int \<Rightarrow> int" where
  "TermID rawTail = i32 (rawTail div 4294967296)"

section \<open>The term buffer\<close>

text \<open>
  Every call that \<open>appender.go\<close> makes on the term buffer is recorded, in program order,
  under the name the source calls it by; the address of a call through the header view
  (\<open>header.buffer\<close>, wrapped at the frame's offset) is the offset in the term buffer.
\<close>

datatype call =
    Call_PutInt32Ordered int int
  | Call_PutInt8 int int
  | Call_PutUInt8 int int
  | Call_PutUInt16 int int
  | Call_PutInt32 int int
  | Call_PutInt64 int int
  | Call_PutBytes int "8 word list"
  | Call_FrameFlags int int
  | Call_SetFrameType int int
  | Call_FrameLengthOrdered int int

record buffer =
  capacity :: int
  mem :: "int \<Rightarrow> 8 word"
  calls :: "call list"

text \<open>Little-endian bytes of an integer, and the unsigned value of \<open>n\<close> bytes of memory.\<close>

definition le_bytes :: "nat \<Rightarrow> int \<Rightarrow> 8 word list" where
  "le_bytes n v = map (\<lambda>i. word_of_int (v div 256 ^ i)) [0..<n]"

definition load_le :: "nat \<Rightarrow> (int \<Rightarrow> 8 word) \<Rightarrow> int \<Rightarrow> int" where
  "load_le n m a = (\<Sum>i\<leftarrow>[0..<n]. uint (m (a + int i)) * 256 ^ i)"

definition store :: "(int \<Rightarrow> 8 word) \<Rightarrow> int \<Rightarrow> 8 word list \<Rightarrow> (int \<Rightarrow> 8 word)" where
  "store m a bs = (\<lambda>x. if a \<le> x \<and> x < a + int (length bs) then bs ! nat (x - a) else m x)"

text \<open>
  Modelled from the spec: \<open>atomic.Buffer\<close> is not among the sources. A put stores the
  value's bytes at the given offset; the spec gives the header codec no error condition
  (offsets are validated by the reservation), so every put succeeds. The byte order is
  fixed as little-endian. The ordered put stores the same bytes as the plain one.
\<close>

definition put :: "buffer \<Rightarrow> call \<Rightarrow> int \<Rightarrow> 8 word list \<Rightarrow> buffer" where
  "put b c a bs = b\<lparr>mem := store (mem b) a bs, calls := calls b @ [c]\<rparr>"

definition PutInt32Ordered :: "buffer \<Rightarrow> int \<Rightarrow> int \<Rightarrow> buffer" where
  "PutInt32Ordered b a v = put b (Call_PutInt32Ordered a v) a (le_bytes 4 v)"

definition PutInt8 :: "buffer \<Rightarrow> int \<Rightarrow> int \<Rightarrow> buffer" where
  "PutInt8 b a v = put b (Call_PutInt8 a v) a (le_bytes 1 v)"

definition PutUInt8 :: "buffer \<Rightarrow> int \<Rightarrow> int \<Rightarrow> buffer" where
  "PutUInt8 b a v = put b (Call_PutUInt8 a v) a (le_bytes 1 v)"

definition PutUInt16 :: "buffer \<Rightarrow> int \<Rightarrow> int \<Rightarrow> buffer" where
  "PutUInt16 b a v = put b (Call_PutUInt16 a v) a (le_bytes 2 v)"

definition PutInt32 :: "buffer \<Rightarrow> int \<Rightarrow> int \<Rightarrow> buffer" where
  "PutInt32 b a v = put b (Call_PutInt32 a v) a (le_bytes 4 v)"

definition PutInt64 :: "buffer \<Rightarrow> int \<Rightarrow> int \<Rightarrow> buffer" where
  "PutInt64 b a v = put b (Call_PutInt64 a v) a (le_bytes 8 v)"

text \<open>
  \<open>PutBytes(index, srcBuffer, srcOffset, length)\<close> copies \<open>length\<close> bytes of the source; a
  length that is not positive copies nothing.
\<close>

definition src_bytes :: "(int \<Rightarrow> 8 word) \<Rightarrow> int \<Rightarrow> int \<Rightarrow> 8 word list" where
  "src_bytes src srcOffset len = map (\<lambda>i. src (srcOffset + int i)) [0..<nat len]"

definition PutBytes :: "buffer \<Rightarrow> int \<Rightarrow> (int \<Rightarrow> 8 word) \<Rightarrow> int \<Rightarrow> int \<Rightarrow> buffer" where
  "PutBytes b a src srcOffset len =
     put b (Call_PutBytes a (src_bytes src srcOffset len)) a (src_bytes src srcOffset len)"

text \<open>
  Modelled from the spec: the frame accessors of package \<open>logbuffer\<close> are not among the
  sources. Each stores one field of the frame at \<open>frameOffset\<close>, at the field's offset of
  the frame layout; the frame length is stored with the ordered put.
\<close>

definition FrameFlags :: "buffer \<Rightarrow> int \<Rightarrow> int \<Rightarrow> buffer" where
  "FrameFlags b frameOffset flags =
     put b (Call_FrameFlags frameOffset flags) (frameOffset + FlagsFieldOffset) (le_bytes 1 flags)"

definition SetFrameType :: "buffer \<Rightarrow> int \<Rightarrow> int \<Rightarrow> buffer" where
  "SetFrameType b frameOffset typ =
     put b (Call_SetFrameType frameOffset typ) (frameOffset + TypeFieldOffset) (le_bytes 2 typ)"

definition FrameLengthOrdered :: "buffer \<Rightarrow> int \<Rightarrow> int \<Rightarrow> buffer" where
  "FrameLengthOrdered b frameOffset frameLength =
     put b (Call_FrameLengthOrdered frameOffset frameLength)
       (frameOffset + FrameLengthFieldOffset) (le_bytes 4 frameLength)"

text \<open>Reading a frame's fields back from memory, by the same layout.\<close>

definition GetInt32 :: "(int \<Rightarrow> 8 word) \<Rightarrow> int \<Rightarrow> int" where
  "GetInt32 m a = i32 (load_le 4 m a)"

definition GetInt64 :: "(int \<Rightarrow> 8 word) \<Rightarrow> int \<Rightarrow> int" where
  "GetInt64 m a = i64 (load_le 8 m a)"

definition frame_length :: "(int \<Rightarrow> 8 word) \<Rightarrow> int \<Rightarrow> int" where
  "frame_length m frameOffset = GetInt32 m (frameOffset + FrameLengthFieldOffset)"

definition frame_version :: "(int \<Rightarrow> 8 word) \<Rightarrow> int \<Rightarrow> int" where
  "frame_version m frameOffset = load_le 1 m (frameOffset + VersionFieldOffset)"

definition frame_flags :: "(int \<Rightarrow> 8 word) \<Rightarrow> int \<Rightarrow> int" where
  "frame_flags m frameOffset = load_le 1 m (frameOffset + FlagsFieldOffset)"

definition frame_type :: "(int \<Rightarrow> 8 word) \<Rightarrow> int \<Rightarrow> int" where
  "frame_type m frameOffset = load_le 2 m (frameOffset + TypeFieldOffset)"

definition frame_term_offset :: "(int \<Rightarrow> 8 word) \<Rightarrow> int \<Rightarrow> int" where
  "frame_term_offset m frameOffset = GetInt32 m (frameOffset + TermOffsetFieldOffset)"

definition frame_session_id :: "(int \<Rightarrow> 8 word) \<Rightarrow> int \<Rightarrow> int" where
  "frame_session_id m frameOffset = GetInt32 m (frameOffset + SessionIDFieldOffset)"

definition frame_stream_id :: "(int \<Rightarrow> 8 word) \<Rightarrow> int \<Rightarrow> int" where
  "frame_stream_id m frameOffset = GetInt32 m (frameOffset + StreamIDFieldOffset)"

definition frame_term_id :: "(int \<Rightarrow> 8 word) \<Rightarrow> int \<Rightarrow> int" where
  "frame_term_id m frameOffset = GetInt32 m (frameOffset + TermIDFieldOffset)"

section \<open>The header writer\<close>

record headerWriter =
  sessionID :: int
  streamID :: int

definition headerWriter_write :: "headerWriter \<Rightarrow> buffer \<Rightarrow> int \<Rightarrow> int \<Rightarrow> int \<Rightarrow> buffer" where
  "headerWriter_write header termBuffer offset len termID =
     (let b0 = PutInt32Ordered termBuffer offset (i32 (- len));
          b1 = PutInt8 b0 (offset + VersionFieldOffset) CurrentVersion;
          b2 = PutUInt8 b1 (offset + FlagsFieldOffset) unfragmented;
          b3 = PutUInt16 b2 (offset + TypeFieldOffset) TypeData;
          b4 = PutInt32 b3 (offset + TermOffsetFieldOffset) offset;
          b5 = PutInt32 b4 (offset + SessionIDFieldOffset) (sessionID header);
          b6 = PutInt32 b5 (offset + StreamIDFieldOffset) (streamID header)
      in PutInt32 b6 (offset + TermIDFieldOffset) termID)"

section \<open>The end of the term\<close>

definition handleEndOfLogCondition ::
  "int \<Rightarrow> buffer \<Rightarrow> int \<Rightarrow> headerWriter \<Rightarrow> int \<Rightarrow> buffer \<times> int" where
  "handleEndOfLogCondition termID termBuffer termOffset header termLength =
     (if termOffset \<le> termLength then
        (if termOffset < termLength then
           (let paddingLength = i32 (termLength - termOffset);
                b1 = headerWriter_write header termBuffer termOffset paddingLength termID;
                b2 = SetFrameType b1 termOffset TypePad;
                b3 = FrameLengthOrdered b2 termOffset paddingLength
            in (b3, AppenderTripped))
         else (termBuffer, AppenderTripped))
      else (termBuffer, AppenderFailed))"

section \<open>The appender\<close>

text \<open>
  The tail counter is a 64-bit counter; every call of \<open>appender.go\<close> that changes it is
  recorded, in program order, under the name the source calls it by.
\<close>

datatype tail_call =
    Call_GetAndAddInt64 int
  | Call_Set int

record Appender =
  termBuffer :: buffer
  tailCounter :: int
  headerWriter :: headerWriter
  tailCalls :: "tail_call list"

record AppenderResult =
  result_termOffset :: int
  result_termID :: int

text \<open>
  Modelled from the spec: \<open>logbuffer.Claim\<close> is not among the sources. \<open>Wrap\<close> makes the
  claim a view of \<open>length\<close> bytes of the term buffer at \<open>offset\<close>.
\<close>

record claim =
  claim_offset :: int
  claim_length :: int

definition Claim_Wrap :: "int \<Rightarrow> int \<Rightarrow> claim" where
  "Claim_Wrap offset len = \<lparr>claim_offset = offset, claim_length = len\<rparr>"

text \<open>
  A reserved value supplier computes a 64-bit value from the term buffer, the frame's
  offset and its length; \<open>None\<close> is Go's \<open>nil\<close> function value.
\<close>

type_synonym ReservedValueSupplier = "buffer \<Rightarrow> int \<Rightarrow> int \<Rightarrow> int"

definition DefaultReservedValueSupplier :: ReservedValueSupplier where
  "DefaultReservedValueSupplier tb tOff len = 0"

text \<open>Go's run-time panics: an integer division by zero, a call of a nil function.\<close>

datatype panic = DivideByZero | NilDereference

text \<open>
  Go's \<open>/\<close> and \<open>%\<close> on \<open>int32\<close> truncate towards zero (and wrap at
  \<open>MinInt32 / -1\<close>); the caller checks for a zero divisor.
\<close>

definition quo32 :: "int \<Rightarrow> int \<Rightarrow> int" where
  "quo32 a b = i32 (sgn a * sgn b * (\<bar>a\<bar> div \<bar>b\<bar>))"

definition rem32 :: "int \<Rightarrow> int \<Rightarrow> int" where
  "rem32 a b = i32 (a - b * (sgn a * sgn b * (\<bar>a\<bar> div \<bar>b\<bar>)))"

definition RawTail :: "Appender \<Rightarrow> int" where
  "RawTail appender = tailCounter appender"

text \<open>
  Modelled from the spec: \<open>flyweight.Int64Field\<close> is not among the sources.
  \<open>GetAndAddInt64\<close> adds to the 64-bit counter and returns the value before the addition.
\<close>

definition getAndAddRawTail :: "Appender \<Rightarrow> int \<Rightarrow> Appender \<times> int" where
  "getAndAddRawTail appender alignedLength =
     (appender\<lparr>tailCounter := i64 (tailCounter appender + alignedLength),
               tailCalls := tailCalls appender @ [Call_GetAndAddInt64 alignedLength]\<rparr>,
      tailCounter appender)"

definition SetTailTermID :: "Appender \<Rightarrow> int \<Rightarrow> Appender" where
  "SetTailTermID appender termID =
     appender\<lparr>tailCounter := i64 (termID * 4294967296),
              tailCalls := tailCalls appender @ [Call_Set (i64 (termID * 4294967296))]\<rparr>"

definition Claim :: "Appender \<Rightarrow> int \<Rightarrow> claim \<Rightarrow> Appender \<times> AppenderResult \<times> claim" where
  "Claim appender len claim =
     (let frameLength = i32 (len + Header_Length);
          alignedLength = AlignInt32 frameLength FrameAlignment;
          (appender1, rawTail) = getAndAddRawTail appender alignedLength;
          termOffset = rawTail AND 4294967295;
          termLength = capacity (termBuffer appender1);
          resultTermID = TermID rawTail;
          resultTermOffset = i64 (termOffset + alignedLength)
      in if resultTermOffset > termLength then
           (let (b, newOffset) = handleEndOfLogCondition resultTermID (termBuffer appender1)
                  (i32 termOffset) (headerWriter appender1) termLength
            in (appender1\<lparr>termBuffer := b\<rparr>,
                \<lparr>result_termOffset = newOffset, result_termID = resultTermID\<rparr>, claim))
         else
           (let offset = i32 termOffset;
                b = headerWriter_write (headerWriter appender1) (termBuffer appender1) offset
                      frameLength resultTermID
            in (appender1\<lparr>termBuffer := b\<rparr>,
                \<lparr>result_termOffset = resultTermOffset, result_termID = resultTermID\<rparr>,
                Claim_Wrap offset frameLength)))"

definition AppendUnfragmentedMessage ::
  "Appender \<Rightarrow> (int \<Rightarrow> 8 word) \<Rightarrow> int \<Rightarrow> int \<Rightarrow> ReservedValueSupplier option
     \<Rightarrow> Appender \<times> AppenderResult" where
  "AppendUnfragmentedMessage appender srcBuffer srcOffset len reservedValueSupplier =
     (let frameLength = i32 (len + Header_Length);
          alignedLength = AlignInt32 frameLength FrameAlignment;
          (appender1, rawTail) = getAndAddRawTail appender alignedLength;
          termOffset = rawTail AND 4294967295;
          termLength = capacity (termBuffer appender1);
          resultTermID = TermID rawTail;
          resultTermOffset = i64 (termOffset + alignedLength)
      in if resultTermOffset > termLength then
           (let (b, newOffset) = handleEndOfLogCondition resultTermID (termBuffer appender1)
                  (i32 termOffset) (headerWriter appender1) termLength
            in (appender1\<lparr>termBuffer := b\<rparr>,
                \<lparr>result_termOffset = newOffset, result_termID = resultTermID\<rparr>))
         else
           (let offset = i32 termOffset;
                b1 = headerWriter_write (headerWriter appender1) (termBuffer appender1) offset
                       frameLength (TermID rawTail);
                b2 = PutBytes b1 (i32 (offset + Header_Length)) srcBuffer srcOffset len;
                b3 = (case reservedValueSupplier of
                        None \<Rightarrow> b2
                      | Some supplier \<Rightarrow>
                          (let reservedValue = i64 (supplier b2 offset frameLength)
                           in PutInt64 b2 (i32 (offset + ReservedValueFieldOffset)) reservedValue));
                b4 = FrameLengthOrdered b3 offset frameLength
            in (appender1\<lparr>termBuffer := b4\<rparr>,
                \<lparr>result_termOffset = resultTermOffset, result_termID = resultTermID\<rparr>)))"

text \<open>
  The loop of \<open>AppendFragmentedMessage\<close>, one fragment per iteration. \<open>math.Min\<close> on the
  \<open>float64\<close> of two \<open>int32\<close> values is exact, so \<open>bytesToWrite\<close> is their minimum. The
  loop returns the buffer, or the panic of calling a nil supplier with the buffer as it
  was then; \<open>None\<close> is a loop that never ends.
\<close>

partial_function (option) fragment_loop ::
  "headerWriter \<Rightarrow> (int \<Rightarrow> 8 word) \<Rightarrow> int \<Rightarrow> int \<Rightarrow> int \<Rightarrow> ReservedValueSupplier option \<Rightarrow> int
     \<Rightarrow> buffer \<Rightarrow> int \<Rightarrow> int \<Rightarrow> int \<Rightarrow> (panic \<times> buffer + buffer) option" where
  "fragment_loop header srcBuffer srcOffset len maxPayloadLength reservedValueSupplier termID
       b flags remaining offset =
     (if remaining > 0 then
        (let bytesToWrite = min remaining maxPayloadLength;
             frameLength = i32 (bytesToWrite + Header_Length);
             alignedLength = AlignInt32 frameLength FrameAlignment;
             b1 = headerWriter_write header b offset frameLength termID;
             b2 = PutBytes b1 (i32 (offset + Header_Length)) srcBuffer
                    (i32 (srcOffset + i32 (len - remaining))) bytesToWrite;
             flags1 = (if remaining \<le> maxPayloadLength then flags OR endFrag else flags);
             b3 = FrameFlags b2 offset flags1
         in case reservedValueSupplier of
              None \<Rightarrow> Some (Inl (NilDereference, b3))
            | Some supplier \<Rightarrow>
                (let reservedValue = i64 (supplier b3 offset frameLength);
                     b4 = PutInt64 b3 (i32 (offset + ReservedValueFieldOffset)) reservedValue;
                     b5 = FrameLengthOrdered b4 offset frameLength
                 in fragment_loop header srcBuffer srcOffset len maxPayloadLength
                      reservedValueSupplier termID b5 0 (i32 (remaining - bytesToWrite))
                      (i32 (offset + alignedLength))))
      else Some (Inr b))"

declare fragment_loop.simps [code]

text \<open>
  The length \<open>AppendFragmentedMessage\<close> reserves (its first lines, up to \<open>requiredLength\<close>);
  the division is reached with a divisor that is not zero.
\<close>

definition fragmented_requiredLength :: "int \<Rightarrow> int \<Rightarrow> int" where
  "fragmented_requiredLength len maxPayloadLength =
     (let numMaxPayloads = quo32 len maxPayloadLength;
          remainingPayload = rem32 len maxPayloadLength;
          lastFrameLength =
            (if remainingPayload > 0
             then AlignInt32 (i32 (remainingPayload + Header_Length)) FrameAlignment
             else 0)
      in i32 (i32 (numMaxPayloads * i32 (maxPayloadLength + Header_Length)) + lastFrameLength))"

definition AppendFragmentedMessage ::
  "Appender \<Rightarrow> (int \<Rightarrow> 8 word) \<Rightarrow> int \<Rightarrow> int \<Rightarrow> int \<Rightarrow> ReservedValueSupplier option
     \<Rightarrow> (panic \<times> Appender + Appender \<times> AppenderResult) option" where
  "AppendFragmentedMessage appender srcBuffer srcOffset len maxPayloadLength reservedValueSupplier =
     (if maxPayloadLength = 0 then Some (Inl (DivideByZero, appender))
      else
        (let requiredLength = fragmented_requiredLength len maxPayloadLength;
             (appender1, rawTail) = getAndAddRawTail appender requiredLength;
             termOffset = rawTail AND 4294967295;
             termLength = capacity (termBuffer appender1);
             resultTermID = TermID rawTail;
             resultTermOffset = i64 (termOffset + requiredLength)
         in if resultTermOffset > termLength then
              (let (b, newOffset) = handleEndOfLogCondition resultTermID (termBuffer appender1)
                     (i32 termOffset) (headerWriter appender1) termLength
               in Some (Inr (appender1\<lparr>termBuffer := b\<rparr>,
                    \<lparr>result_termOffset = newOffset, result_termID = resultTermID\<rparr>)))
            else
              (case fragment_loop (headerWriter appender1) srcBuffer srcOffset len maxPayloadLength
                      reservedValueSupplier resultTermID (termBuffer appender1) beginFrag len
                      (i32 termOffset) of
                 None \<Rightarrow> None
               | Some (Inl (p, b)) \<Rightarrow> Some (Inl (p, appender1\<lparr>termBuffer := b\<rparr>))
               | Some (Inr b) \<Rightarrow>
                   Some (Inr (appender1\<lparr>termBuffer := b\<rparr>,
                     \<lparr>result_termOffset = resultTermOffset, result_termID = resultTermID\<rparr>)))))"

section \<open>Observing the calls\<close>

text \<open>The calls of one header write, in program order.\<close>

definition header_calls :: "headerWriter \<Rightarrow> int \<Rightarrow> int \<Rightarrow> int \<Rightarrow> call list" where
  "header_calls header offset len termID =
     [Call_PutInt32Ordered offset (i32 (- len)),
      Call_PutInt8 (offset + VersionFieldOffset) CurrentVersion,
      Call_PutUInt8 (offset + FlagsFieldOffset) unfragmented,
      Call_PutUInt16 (offset + TypeFieldOffset) TypeData,
      Call_PutInt32 (offset + TermOffsetFieldOffset) offset,
      Call_PutInt32 (offset + SessionIDFieldOffset) (sessionID header),
      Call_PutInt32 (offset + StreamIDFieldOffset) (streamID header),
      Call_PutInt32 (offset + TermIDFieldOffset) termID]"

text \<open>
  One turn of the loop of \<open>AppendFragmentedMessage\<close>, cut where the supplier is called:
  the buffer after the header, the payload and the flags of the fragment at \<open>offset\<close>
  (the supplier's argument), and the buffer after the whole fragment.
\<close>

definition fragment_before_supplier ::
  "headerWriter \<Rightarrow> (int \<Rightarrow> 8 word) \<Rightarrow> int \<Rightarrow> int \<Rightarrow> int \<Rightarrow> int \<Rightarrow> buffer \<Rightarrow> int \<Rightarrow> int \<Rightarrow> int \<Rightarrow> buffer" where
  "fragment_before_supplier header srcBuffer srcOffset len maxPayloadLength termID b flags remaining offset =
     FrameFlags
       (PutBytes
          (headerWriter_write header b offset (i32 (min remaining maxPayloadLength + Header_Length)) termID)
          (i32 (offset + Header_Length)) srcBuffer (i32 (srcOffset + i32 (len - remaining)))
          (min remaining maxPayloadLength))
       offset (if remaining \<le> maxPayloadLength then flags OR endFrag else flags)"

definition fragment_written ::
  "headerWriter \<Rightarrow> (int \<Rightarrow> 8 word) \<Rightarrow> int \<Rightarrow> int \<Rightarrow> int \<Rightarrow> ReservedValueSupplier \<Rightarrow> int \<Rightarrow> buffer \<Rightarrow> int \<Rightarrow> int \<Rightarrow> int \<Rightarrow> buffer" where
  "fragment_written header srcBuffer srcOffset len maxPayloadLength supplier termID b flags remaining offset =
     (let b3 = fragment_before_supplier header srcBuffer srcOffset len maxPayloadLength termID b flags
                 remaining offset;
          frameLength = i32 (min remaining maxPayloadLength + Header_Length)
      in FrameLengthOrdered
           (PutInt64 b3 (i32 (offset + ReservedValueFieldOffset)) (i64 (supplier b3 offset frameLength)))
           offset frameLength)"

text \<open>
  An appender on an empty term buffer of the given capacity, with the given raw tail; the
  concrete appends below start from it.
\<close>

definition scenario_appender :: "int \<Rightarrow> int \<Rightarrow> Appender" where
  "scenario_appender cap tail =
     \<lparr>termBuffer = \<lparr>capacity = cap, mem = (\<lambda>a. 0), calls = []\<rparr>,
      tailCounter = tail,
      headerWriter = \<lparr>sessionID = 11, streamID = 22\<rparr>,
      tailCalls = []\<rparr>"

text \<open>
  The buffer of \<open>AppendUnfragmentedMessage\<close> after the header and the payload are written,
  which is what the supplier is called with.
\<close>

definition frame_with_payload ::
  "headerWriter \<Rightarrow> buffer \<Rightarrow> (int \<Rightarrow> 8 word) \<Rightarrow> int \<Rightarrow> int \<Rightarrow> int \<Rightarrow> int \<Rightarrow> buffer" where
  "frame_with_payload header tb src srcOffset len offset termID =
     PutBytes (headerWriter_write header tb offset (i32 (len + Header_Length)) termID)
       (i32 (offset + Header_Length)) src srcOffset len"

text \<open>
  What a sequence of calls shows: the frame lengths published by \<open>FrameLengthOrdered\<close>
  (offset and length), the flags set by \<open>FrameFlags\<close>, and the payloads copied by
  \<open>PutBytes\<close>, each in program order.
\<close>

fun published :: "call list \<Rightarrow> (int \<times> int) list" where
  "published [] = []"
| "published (Call_FrameLengthOrdered a l # cs) = (a, l) # published cs"
| "published (c # cs) = published cs"

fun flag_calls :: "call list \<Rightarrow> (int \<times> int) list" where
  "flag_calls [] = []"
| "flag_calls (Call_FrameFlags a v # cs) = (a, v) # flag_calls cs"
| "flag_calls (c # cs) = flag_calls cs"

fun payload_calls :: "call list \<Rightarrow> (int \<times> 8 word list) list" where
  "payload_calls [] = []"
| "payload_calls (Call_PutBytes a bs # cs) = (a, bs) # payload_calls cs"
| "payload_calls (c # cs) = payload_calls cs"

text \<open>
  The twelve calls of one fragment: the ordered store of the negated length, the seven
  other header fields, the payload copy, the flags, the reserved value and the ordered
  store of the length, all of the same frame. \<open>frames_in_order\<close> holds of a sequence made of
  such blocks only.
\<close>

definition frame_block :: "call list \<Rightarrow> bool" where
  "frame_block cs =
     (case cs of
        [Call_PutInt32Ordered a n, Call_PutInt8 a1 ver, Call_PutUInt8 a2 fl0,
         Call_PutUInt16 a3 ty, Call_PutInt32 a4 tOff, Call_PutInt32 a5 sid,
         Call_PutInt32 a6 stid, Call_PutInt32 a7 tid, Call_PutBytes pa bs,
         Call_FrameFlags a8 fl, Call_PutInt64 ra rv, Call_FrameLengthOrdered a9 l] \<Rightarrow>
          n = i32 (- l) \<and> a1 = a + VersionFieldOffset \<and> a2 = a + FlagsFieldOffset
          \<and> a3 = a + TypeFieldOffset \<and> a4 = a + TermOffsetFieldOffset
          \<and> a5 = a + SessionIDFieldOffset \<and> a6 = a + StreamIDFieldOffset
          \<and> a7 = a + TermIDFieldOffset \<and> a8 = a \<and> a9 = a
      | _ \<Rightarrow> False)"

function frames_in_order :: "call list \<Rightarrow> bool" where
  "frames_in_order cs =
     (if cs = [] then True
      else if frame_block (take 12 cs) then frames_in_order (drop 12 cs) else False)"
  by pat_completeness auto
termination
  by (relation "measure length") auto

text \<open>
  The flags of \<open>n\<close> fragments when the first carries \<open>flags\<close>: the end bit is added to the
  last, and every fragment after the first starts from 0. \<open>fragment_count\<close> is the number of
  turns of the loop, \<open>remaining\<close> over \<open>maxPL\<close> rounded up.
\<close>

fun expected_flags :: "int \<Rightarrow> nat \<Rightarrow> int list" where
  "expected_flags flags 0 = []"
| "expected_flags flags (Suc n) = (if n = 0 then [flags OR endFrag] else flags # expected_flags 0 n)"

definition fragment_count :: "int \<Rightarrow> int \<Rightarrow> nat" where
  "fragment_count remaining maxPL =
     (if remaining \<le> 0 then 0 else nat ((remaining + maxPL - 1) div maxPL))"

text \<open>The calls of one turn of the loop, in program order.\<close>

definition fragment_calls ::
  "headerWriter \<Rightarrow> (int \<Rightarrow> 8 word) \<Rightarrow> int \<Rightarrow> int \<Rightarrow> int \<Rightarrow> ReservedValueSupplier \<Rightarrow> int \<Rightarrow> buffer \<Rightarrow> int \<Rightarrow> int \<Rightarrow> int \<Rightarrow> call list" where
  "fragment_calls header src srcOffset len maxPL f termID b flags remaining offset =
     header_calls header offset (i32 (min remaining maxPL + Header_Length)) termID
     @ [Call_PutBytes (i32 (offset + Header_Length))
          (src_bytes src (i32 (srcOffset + i32 (len - remaining))) (min remaining maxPL)),
        Call_FrameFlags offset (if remaining \<le> maxPL then flags OR endFrag else flags),
        Call_PutInt64 (i32 (offset + ReservedValueFieldOffset))
          (i64 (f (fragment_before_supplier header src srcOffset len maxPL termID b flags
                     remaining offset)
                  offset (i32 (min remaining maxPL + Header_Length)))),
        Call_FrameLengthOrdered offset (i32 (min remaining maxPL + Header_Length))]"

text \<open>
  The required length as the specification words it, over the unbounded integers:
  \<open>requiredLength_spec\<close> is compared below with \<open>fragmented_requiredLength\<close>, which is the
  computation of the source in 32-bit arithmetic.
\<close>

definition align_up :: "int \<Rightarrow> int \<Rightarrow> int" where
  "align_up v alignment = (v + alignment - 1) div alignment * alignment"

definition requiredLength_spec :: "int \<Rightarrow> int \<Rightarrow> int" where
  "requiredLength_spec len maxPayloadLength =
     (let numMaxPayloads = len div maxPayloadLength;
          remainder = len mod maxPayloadLength;
          lastFrameAlignedLength =
            (if remainder = 0 then 0 else align_up (remainder + Header_Length) FrameAlignment)
      in numMaxPayloads * (maxPayloadLength + Header_Length) + lastFrameAlignedLength)"

text \<open>
  The offset after the last frame of a list of published frames (offset and length) that
  lie one after the other from \<open>start\<close>, each taking its aligned length; \<open>None\<close> when a frame
  does not begin where the one before it ends.
\<close>

fun frames_end :: "int \<Rightarrow> (int \<times> int) list \<Rightarrow> int option" where
  "frames_end start [] = Some start"
| "frames_end start ((a, l) # fs) =
     (if a = start then frames_end (start + AlignInt32 l FrameAlignment) fs else None)"

text \<open>
  The bytes that the frames of the loop take when \<open>remaining\<close> bytes are left: the frames
  before the last, each with a full payload, and the last one, all at their aligned lengths.
\<close>

definition frames_span :: "int \<Rightarrow> int \<Rightarrow> int" where
  "frames_span remaining maxPayloadLength =
     (if remaining \<le> 0 then 0
      else (remaining - 1) div maxPayloadLength
             * align_up (maxPayloadLength + Header_Length) FrameAlignment
           + align_up ((remaining - 1) mod maxPayloadLength + 1 + Header_Length) FrameAlignment)"

section \<open>Integers and memory\<close>

lemma i32_id: "in_i32 x \<Longrightarrow> i32 x = x"
  by (simp add: i32_def in_i32_def)

lemma i64_id: "in_i64 x \<Longrightarrow> i64 x = x"
  by (simp add: i64_def in_i64_def)

lemma in_i32_i32: "in_i32 (i32 x)"
  unfolding i32_def in_i32_def
  using pos_mod_bound [of 4294967296 "x + 2147483648"] pos_mod_sign [of 4294967296 "x + 2147483648"]
  by linarith

lemma low32: "x AND 4294967295 = x mod 4294967296" for x :: int
proof -
  have "x AND mask 32 = x mod 2 ^ 32" by (simp only: take_bit_eq_mask [symmetric] take_bit_eq_mod)
  then show ?thesis by (simp add: mask_eq_exp_minus_1)
qed

lemma length_le_bytes: "length (le_bytes n v) = n"
  by (simp add: le_bytes_def)

lemma store_outside: "x < a \<or> a + int (length bs) \<le> x \<Longrightarrow> store m a bs x = m x"
  by (auto simp: store_def)

lemma load_le_cong:
  "(\<And>i. a \<le> i \<Longrightarrow> i < a + int n \<Longrightarrow> m i = m' i) \<Longrightarrow> load_le n m a = load_le n m' a"
  unfolding load_le_def by (rule arg_cong [where f = sum_list]) simp

lemma load_le_store_outside:
  "a' + int n \<le> a \<or> a + int (length bs) \<le> a' \<Longrightarrow> load_le n (store m a bs) a' = load_le n m a'"
  by (rule load_le_cong) (auto simp: store_outside)

lemma le_digits: "(\<Sum>i\<leftarrow>[0..<n]. (v div 256 ^ i mod 256) * 256 ^ i) = v mod 256 ^ n" for v :: int
proof (induction n)
  case 0
  then show ?case by simp
next
  case (Suc n)
  have "v mod (256 ^ n * 256) = v mod 256 ^ n + 256 ^ n * (v div 256 ^ n mod 256)"
    using zmod_zmult2_eq [of 256 v "256 ^ n"] by simp
  with Suc show ?case by (simp add: mult.commute)
qed

lemma load_le_store_same: "load_le n (store m a (le_bytes n v)) a = v mod 256 ^ n"
proof -
  have "load_le n (store m a (le_bytes n v)) a = (\<Sum>i\<leftarrow>[0..<n]. (v div 256 ^ i mod 256) * 256 ^ i)"
    unfolding load_le_def
    by (rule arg_cong [where f = sum_list])
      (simp add: store_def le_bytes_def uint_word_of_int)
  then show ?thesis by (simp add: le_digits)
qed

lemmas put_defs = PutInt32Ordered_def PutInt8_def PutUInt8_def PutUInt16_def PutInt32_def
  PutInt64_def PutBytes_def FrameFlags_def SetFrameType_def FrameLengthOrdered_def

lemma put_simps:
  "mem (put b c a bs) = store (mem b) a bs"
  "calls (put b c a bs) = calls b @ [c]"
  "capacity (put b c a bs) = capacity b"
  by (simp_all add: put_def)

lemma calls_headerWriter_write:
  "calls (headerWriter_write header b offset len termID) = calls b @ header_calls header offset len termID"
  by (simp add: headerWriter_write_def header_calls_def put_defs put_simps Let_def)

lemma capacity_headerWriter_write:
  "capacity (headerWriter_write header b offset len termID) = capacity b"
  by (simp add: headerWriter_write_def put_defs put_simps Let_def)

lemmas field_offsets = FrameLengthFieldOffset_def VersionFieldOffset_def FlagsFieldOffset_def
  TypeFieldOffset_def TermOffsetFieldOffset_def SessionIDFieldOffset_def StreamIDFieldOffset_def
  TermIDFieldOffset_def ReservedValueFieldOffset_def Header_Length_def

lemma load1: "load_le (Suc 0) (store m a (le_bytes (Suc 0) v)) a = v mod 256"
  using load_le_store_same [of "Suc 0" m a v] by simp

lemma load2: "load_le 2 (store m a (le_bytes 2 v)) a = v mod 65536"
  using load_le_store_same [of 2 m a v] by simp

lemma load4: "load_le 4 (store m a (le_bytes 4 v)) a = v mod 4294967296"
  using load_le_store_same [of 4 m a v] by simp

lemma load8: "load_le 8 (store m a (le_bytes 8 v)) a = v mod 18446744073709551616"
  using load_le_store_same [of 8 m a v] by simp

lemma i32_mod: "i32 (v mod 4294967296) = i32 v"
  by (simp add: i32_def mod_add_left_eq)

lemma i64_mod: "i64 (v mod 18446744073709551616) = i64 v"
  by (simp add: i64_def mod_add_left_eq)

lemma i32_idem: "i32 (i32 x) = i32 x"
  by (simp add: i32_id in_i32_i32)

lemma GetInt32_store: "GetInt32 (store m a (le_bytes 4 v)) a = i32 v"
  by (simp add: GetInt32_def load4 i32_mod)

lemma GetInt32_store_outside:
  "a' + 4 \<le> a \<or> a + int (length bs) \<le> a' \<Longrightarrow> GetInt32 (store m a bs) a' = GetInt32 m a'"
  by (simp add: GetInt32_def load_le_store_outside)

text \<open>The header as memory holds it after the header write.\<close>

lemma mem_headerWriter_write:
  fixes header b offset len termID
  defines "m \<equiv> mem (headerWriter_write header b offset len termID)"
  shows "frame_length m offset = i32 (- len)"
    and "frame_version m offset = CurrentVersion mod 256"
    and "frame_flags m offset = unfragmented mod 256"
    and "frame_type m offset = TypeData mod 65536"
    and "frame_term_offset m offset = i32 offset"
    and "frame_session_id m offset = i32 (sessionID header)"
    and "frame_stream_id m offset = i32 (streamID header)"
    and "frame_term_id m offset = i32 termID"
  unfolding m_def
  by (simp_all add: headerWriter_write_def put_defs put_simps Let_def field_offsets
      frame_length_def frame_version_def frame_flags_def frame_type_def frame_term_offset_def
      frame_session_id_def frame_stream_id_def frame_term_id_def
      GetInt32_store GetInt32_store_outside load_le_store_outside length_le_bytes load1 load2
      i32_mod i32_idem)

lemma mem_SetFrameType_FrameLengthOrdered:
  fixes b offset ty len
  defines "m \<equiv> mem (FrameLengthOrdered (SetFrameType b offset ty) offset len)"
  shows "frame_length m offset = i32 len"
    and "frame_type m offset = ty mod 65536"
    and "frame_version m offset = frame_version (mem b) offset"
    and "frame_flags m offset = frame_flags (mem b) offset"
    and "frame_term_offset m offset = frame_term_offset (mem b) offset"
    and "frame_session_id m offset = frame_session_id (mem b) offset"
    and "frame_stream_id m offset = frame_stream_id (mem b) offset"
    and "frame_term_id m offset = frame_term_id (mem b) offset"
  unfolding m_def
  by (simp_all add: put_defs put_simps field_offsets
      frame_length_def frame_version_def frame_flags_def frame_type_def frame_term_offset_def
      frame_session_id_def frame_stream_id_def frame_term_id_def
      GetInt32_store GetInt32_store_outside load_le_store_outside length_le_bytes load2)

lemma i32_wrap_high: "2147483648 \<le> x \<Longrightarrow> x \<le> 6442450943 \<Longrightarrow> i32 x = x - 4294967296"
proof -
  assume a: "2147483648 \<le> x" "x \<le> 6442450943"
  have "(x + 2147483648) mod 4294967296 = (x + 2147483648 - 4294967296) mod 4294967296"
    by (simp only: minus_mod_self2)
  also have "\<dots> = x + 2147483648 - 4294967296"
    using a by (intro mod_pos_pos_trivial) simp_all
  finally show ?thesis by (simp add: i32_def)
qed

section \<open>The fragment loop returns\<close>

lemma fragment_loop_done:
  "remaining \<le> 0 \<Longrightarrow>
   fragment_loop header src srcOffset len maxPL rvs termID b flags remaining offset = Some (Inr b)"
  by (subst fragment_loop.simps) simp

lemma fragment_loop_nil:
  "0 < remaining \<Longrightarrow>
   fragment_loop header src srcOffset len maxPL None termID b flags remaining offset
     = Some (Inl (NilDereference,
         fragment_before_supplier header src srcOffset len maxPL termID b flags remaining offset))"
  by (subst fragment_loop.simps) (simp add: Let_def fragment_before_supplier_def)

lemma fragment_loop_step:
  "0 < remaining \<Longrightarrow>
   fragment_loop header src srcOffset len maxPL (Some f) termID b flags remaining offset
     = fragment_loop header src srcOffset len maxPL (Some f) termID
         (fragment_written header src srcOffset len maxPL f termID b flags remaining offset) 0
         (i32 (remaining - min remaining maxPL))
         (i32 (offset + AlignInt32 (i32 (min remaining maxPL + Header_Length)) FrameAlignment))"
  by (subst fragment_loop.simps)
    (simp add: Let_def fragment_before_supplier_def fragment_written_def)

lemma fragment_loop_total_pos:
  "0 < maxPL \<Longrightarrow> in_i32 remaining \<Longrightarrow>
   \<exists>b'. fragment_loop header src srcOffset len maxPL (Some f) termID b flags remaining offset
          = Some (Inr b')"
proof (induction "nat remaining" arbitrary: remaining b flags offset rule: less_induct)
  case less
  show ?case
  proof (cases "0 < remaining")
    case False
    then show ?thesis by (simp add: fragment_loop_done)
  next
    case True
    let ?r = "remaining - min remaining maxPL"
    have r: "0 \<le> ?r" "?r < remaining" using True less.prems by auto
    then have i: "in_i32 ?r" using less.prems unfolding in_i32_def by linarith
    then have "i32 ?r = ?r" by (rule i32_id)
    with r i less.hyps [of ?r] less.prems(1) show ?thesis
      by (simp add: fragment_loop_step [OF True])
  qed
qed

lemma fragment_loop_total_neg:
  "maxPL < 0 \<Longrightarrow> in_i32 maxPL \<Longrightarrow> in_i32 remaining \<Longrightarrow>
   \<exists>b'. fragment_loop header src srcOffset len maxPL (Some f) termID b flags remaining offset
          = Some (Inr b')"
proof (induction "nat (2147483648 - remaining)" arbitrary: remaining b flags offset rule: less_induct)
  case less
  show ?case
  proof (cases "0 < remaining")
    case False
    then show ?thesis by (simp add: fragment_loop_done)
  next
    case True
    have m: "min remaining maxPL = maxPL" using True less.prems by simp
    let ?r = "i32 (remaining - maxPL)"
    have i: "in_i32 ?r" by (rule in_i32_i32)
    show ?thesis
    proof (cases "remaining - maxPL \<le> 2147483647")
      case True
      then have "?r = remaining - maxPL"
        using less.prems \<open>0 < remaining\<close> by (intro i32_id) (simp add: in_i32_def)
      then have "nat (2147483648 - ?r) < nat (2147483648 - remaining)"
        using less.prems True by (simp add: in_i32_def)
      with less.hyps [of ?r] i less.prems(1,2) show ?thesis
        by (simp add: fragment_loop_step [OF \<open>0 < remaining\<close>] m)
    next
      case False
      then have "?r = remaining - maxPL - 4294967296"
        using less.prems by (intro i32_wrap_high) (simp_all add: in_i32_def)
      then have "?r \<le> 0" using less.prems by (simp add: in_i32_def)
      then show ?thesis
        by (simp add: fragment_loop_step [OF \<open>0 < remaining\<close>] m fragment_loop_done)
    qed
  qed
qed

lemma fragment_loop_total:
  assumes "maxPL \<noteq> 0" "in_i32 maxPL" "in_i32 remaining"
  shows "\<exists>res. fragment_loop header src srcOffset len maxPL rvs termID b flags remaining offset
          = Some res"
proof (cases rvs)
  case None
  then show ?thesis
    by (cases "0 < remaining") (simp_all add: fragment_loop_nil fragment_loop_done)
next
  case (Some f)
  show ?thesis
  proof (cases "0 < maxPL")
    case True
    from fragment_loop_total_pos [OF True assms(3)] Some show ?thesis by blast
  next
    case False
    with assms(1) have "maxPL < 0" by simp
    from fragment_loop_total_neg [OF this assms(2,3)] Some show ?thesis by blast
  qed
qed

lemma fragment_loop_returns:
  assumes "maxPL \<noteq> 0" "in_i32 maxPL" "in_i32 remaining"
  shows "\<exists>b'. fragment_loop header src srcOffset len maxPL (Some f) termID b flags remaining offset
          = Some (Inr b')"
proof (cases "0 < maxPL")
  case True
  from fragment_loop_total_pos [OF True assms(3)] show ?thesis .
next
  case False
  with assms(1) have "maxPL < 0" by simp
  from fragment_loop_total_neg [OF this assms(2,3)] show ?thesis .
qed

section \<open>The three appends, case by case\<close>

lemma low32_range: "0 \<le> x mod 4294967296 \<and> x mod 4294967296 \<le> 4294967295" for x :: int
  using pos_mod_bound [of 4294967296 x] pos_mod_sign [of 4294967296 x] by linarith

lemma i64_low_plus: "in_i32 a \<Longrightarrow> i64 (x mod 4294967296 + a) = x mod 4294967296 + a"
proof -
  assume "in_i32 a"
  with low32_range [of x] have "in_i64 (x mod 4294967296 + a)"
    unfolding in_i32_def in_i64_def by linarith
  then show ?thesis by (rule i64_id)
qed

lemma in_i32_AlignInt32: "in_i32 (AlignInt32 v a)"
  by (simp add: AlignInt32_def in_i32_i32)

lemma in_i32_fragmented_requiredLength: "in_i32 (fragmented_requiredLength len maxPL)"
  by (simp add: fragmented_requiredLength_def Let_def in_i32_i32)

lemma TermID_high: "in_i64 t \<Longrightarrow> TermID t = t div 4294967296"
proof -
  assume "in_i64 t"
  then have "(- 9223372036854775808) div 4294967296 \<le> t div 4294967296"
      "t div 4294967296 \<le> 9223372036854775807 div (4294967296 :: int)"
    unfolding in_i64_def by (simp_all only: zdiv_mono1)
  then have "in_i32 (t div 4294967296)" by (simp add: in_i32_def)
  then show ?thesis unfolding TermID_def by (rule i32_id)
qed

lemma Claim_fits:
  assumes "tailCounter ap mod 4294967296 + AlignInt32 (i32 (len + Header_Length)) FrameAlignment
             \<le> capacity (termBuffer ap)"
  shows "Claim ap len c =
     (ap\<lparr>tailCounter := i64 (tailCounter ap + AlignInt32 (i32 (len + Header_Length)) FrameAlignment),
         tailCalls := tailCalls ap @ [Call_GetAndAddInt64 (AlignInt32 (i32 (len + Header_Length)) FrameAlignment)],
         termBuffer := headerWriter_write (headerWriter ap) (termBuffer ap)
            (i32 (tailCounter ap mod 4294967296)) (i32 (len + Header_Length)) (TermID (tailCounter ap))\<rparr>,
      \<lparr>result_termOffset = tailCounter ap mod 4294967296
           + AlignInt32 (i32 (len + Header_Length)) FrameAlignment,
        result_termID = TermID (tailCounter ap)\<rparr>,
      Claim_Wrap (i32 (tailCounter ap mod 4294967296)) (i32 (len + Header_Length)))"
  using assms
  by (simp add: Claim_def Let_def getAndAddRawTail_def low32 i64_low_plus in_i32_AlignInt32)

lemma Claim_overrun:
  assumes "capacity (termBuffer ap)
             < tailCounter ap mod 4294967296 + AlignInt32 (i32 (len + Header_Length)) FrameAlignment"
  shows "Claim ap len c =
     (ap\<lparr>tailCounter := i64 (tailCounter ap + AlignInt32 (i32 (len + Header_Length)) FrameAlignment),
         tailCalls := tailCalls ap @ [Call_GetAndAddInt64 (AlignInt32 (i32 (len + Header_Length)) FrameAlignment)],
         termBuffer := fst (handleEndOfLogCondition (TermID (tailCounter ap)) (termBuffer ap)
            (i32 (tailCounter ap mod 4294967296)) (headerWriter ap) (capacity (termBuffer ap)))\<rparr>,
      \<lparr>result_termOffset = snd (handleEndOfLogCondition (TermID (tailCounter ap)) (termBuffer ap)
            (i32 (tailCounter ap mod 4294967296)) (headerWriter ap) (capacity (termBuffer ap))),
        result_termID = TermID (tailCounter ap)\<rparr>,
      c)"
  using assms
  by (simp add: Claim_def Let_def getAndAddRawTail_def low32 i64_low_plus in_i32_AlignInt32
      split_beta)

lemma AppendUnfragmentedMessage_fits:
  assumes "tailCounter ap mod 4294967296 + AlignInt32 (i32 (len + Header_Length)) FrameAlignment
             \<le> capacity (termBuffer ap)"
  shows "AppendUnfragmentedMessage ap src srcOffset len rvs =
     (ap\<lparr>tailCounter := i64 (tailCounter ap + AlignInt32 (i32 (len + Header_Length)) FrameAlignment),
         tailCalls := tailCalls ap @ [Call_GetAndAddInt64 (AlignInt32 (i32 (len + Header_Length)) FrameAlignment)],
         termBuffer :=
           FrameLengthOrdered
             (case rvs of
                None \<Rightarrow> PutBytes (headerWriter_write (headerWriter ap) (termBuffer ap)
                    (i32 (tailCounter ap mod 4294967296)) (i32 (len + Header_Length))
                    (TermID (tailCounter ap)))
                  (i32 (i32 (tailCounter ap mod 4294967296) + Header_Length)) src srcOffset len
              | Some supplier \<Rightarrow>
                  PutInt64
                    (PutBytes (headerWriter_write (headerWriter ap) (termBuffer ap)
                        (i32 (tailCounter ap mod 4294967296)) (i32 (len + Header_Length))
                        (TermID (tailCounter ap)))
                      (i32 (i32 (tailCounter ap mod 4294967296) + Header_Length)) src srcOffset len)
                    (i32 (i32 (tailCounter ap mod 4294967296) + ReservedValueFieldOffset))
                    (i64 (supplier
                      (PutBytes (headerWriter_write (headerWriter ap) (termBuffer ap)
                          (i32 (tailCounter ap mod 4294967296)) (i32 (len + Header_Length))
                          (TermID (tailCounter ap)))
                        (i32 (i32 (tailCounter ap mod 4294967296) + Header_Length)) src srcOffset len)
                      (i32 (tailCounter ap mod 4294967296)) (i32 (len + Header_Length)))))
             (i32 (tailCounter ap mod 4294967296)) (i32 (len + Header_Length))\<rparr>,
      \<lparr>result_termOffset = tailCounter ap mod 4294967296
           + AlignInt32 (i32 (len + Header_Length)) FrameAlignment,
        result_termID = TermID (tailCounter ap)\<rparr>)"
  using assms
  by (simp add: AppendUnfragmentedMessage_def Let_def getAndAddRawTail_def low32 i64_low_plus
      in_i32_AlignInt32 split: option.split)

lemma AppendUnfragmentedMessage_overrun:
  assumes "capacity (termBuffer ap)
             < tailCounter ap mod 4294967296 + AlignInt32 (i32 (len + Header_Length)) FrameAlignment"
  shows "AppendUnfragmentedMessage ap src srcOffset len rvs =
     (ap\<lparr>tailCounter := i64 (tailCounter ap + AlignInt32 (i32 (len + Header_Length)) FrameAlignment),
         tailCalls := tailCalls ap @ [Call_GetAndAddInt64 (AlignInt32 (i32 (len + Header_Length)) FrameAlignment)],
         termBuffer := fst (handleEndOfLogCondition (TermID (tailCounter ap)) (termBuffer ap)
            (i32 (tailCounter ap mod 4294967296)) (headerWriter ap) (capacity (termBuffer ap)))\<rparr>,
      \<lparr>result_termOffset = snd (handleEndOfLogCondition (TermID (tailCounter ap)) (termBuffer ap)
            (i32 (tailCounter ap mod 4294967296)) (headerWriter ap) (capacity (termBuffer ap))),
        result_termID = TermID (tailCounter ap)\<rparr>)"
  using assms
  by (simp add: AppendUnfragmentedMessage_def Let_def getAndAddRawTail_def low32 i64_low_plus
      in_i32_AlignInt32 split_beta)

lemma AppendFragmentedMessage_fits:
  assumes "maxPL \<noteq> 0"
    and "tailCounter ap mod 4294967296 + fragmented_requiredLength len maxPL
             \<le> capacity (termBuffer ap)"
  shows "AppendFragmentedMessage ap src srcOffset len maxPL rvs =
     (case fragment_loop (headerWriter ap) src srcOffset len maxPL rvs (TermID (tailCounter ap))
             (termBuffer ap) beginFrag len (i32 (tailCounter ap mod 4294967296)) of
        None \<Rightarrow> None
      | Some (Inl (p, b)) \<Rightarrow>
          Some (Inl (p, ap\<lparr>tailCounter := i64 (tailCounter ap + fragmented_requiredLength len maxPL),
              tailCalls := tailCalls ap @ [Call_GetAndAddInt64 (fragmented_requiredLength len maxPL)],
                             termBuffer := b\<rparr>))
      | Some (Inr b) \<Rightarrow>
          Some (Inr (ap\<lparr>tailCounter := i64 (tailCounter ap + fragmented_requiredLength len maxPL),
              tailCalls := tailCalls ap @ [Call_GetAndAddInt64 (fragmented_requiredLength len maxPL)],
                        termBuffer := b\<rparr>,
            \<lparr>result_termOffset = tailCounter ap mod 4294967296 + fragmented_requiredLength len maxPL,
              result_termID = TermID (tailCounter ap)\<rparr>)))"
  using assms
  by (simp add: AppendFragmentedMessage_def Let_def getAndAddRawTail_def low32 i64_low_plus
      in_i32_fragmented_requiredLength split: option.split sum.split prod.split)

lemma AppendFragmentedMessage_overrun:
  assumes "maxPL \<noteq> 0"
    and "capacity (termBuffer ap)
             < tailCounter ap mod 4294967296 + fragmented_requiredLength len maxPL"
  shows "AppendFragmentedMessage ap src srcOffset len maxPL rvs =
     Some (Inr
      (ap\<lparr>tailCounter := i64 (tailCounter ap + fragmented_requiredLength len maxPL),
          tailCalls := tailCalls ap @ [Call_GetAndAddInt64 (fragmented_requiredLength len maxPL)],
         termBuffer := fst (handleEndOfLogCondition (TermID (tailCounter ap)) (termBuffer ap)
            (i32 (tailCounter ap mod 4294967296)) (headerWriter ap) (capacity (termBuffer ap)))\<rparr>,
      \<lparr>result_termOffset = snd (handleEndOfLogCondition (TermID (tailCounter ap)) (termBuffer ap)
            (i32 (tailCounter ap mod 4294967296)) (headerWriter ap) (capacity (termBuffer ap))),
        result_termID = TermID (tailCounter ap)\<rparr>))"
  using assms
  by (simp add: AppendFragmentedMessage_def Let_def getAndAddRawTail_def low32 i64_low_plus
      in_i32_fragmented_requiredLength split_beta)

lemmas scenario_simps = scenario_appender_def Header_Length_def FrameAlignment_def
  AlignInt32_def i32_id i64_id in_i32_def in_i64_def

section \<open>Aligned frame lengths\<close>

lemma AlignInt32_32:
  assumes "0 \<le> v" "v \<le> 2147483616"
  shows "AlignInt32 v FrameAlignment = (v + 31) div 32 * 32"
proof -
  have a: "i32 (v + 31) = v + 31"
    using assms by (intro i32_id) (simp add: in_i32_def)
  have "0 \<le> (v + 31) div 32 * 32" "(v + 31) div 32 * 32 \<le> v + 31"
    using assms by simp_all
  then have "in_i32 ((v + 31) div 32 * 32)"
    using assms by (simp add: in_i32_def)
  then show ?thesis
    by (simp add: AlignInt32_def FrameAlignment_def a i32_id)
qed

lemma AlignInt32_bounds:
  assumes "0 \<le> v" "v \<le> 2147483616"
  shows "v \<le> AlignInt32 v FrameAlignment" "AlignInt32 v FrameAlignment \<le> v + 31"
    "AlignInt32 v FrameAlignment mod 32 = 0"
  unfolding AlignInt32_32 [OF assms] by presburger+

lemma frame_align_bounds:
  assumes "0 \<le> len" "len \<le> 2147483584"
  shows "i32 (len + Header_Length) = len + 32"
    and "len + 32 \<le> AlignInt32 (i32 (len + Header_Length)) FrameAlignment"
    and "AlignInt32 (i32 (len + Header_Length)) FrameAlignment \<le> len + 63"
proof -
  show a: "i32 (len + Header_Length) = len + 32"
    using assms by (simp add: Header_Length_def i32_id in_i32_def)
  show "len + 32 \<le> AlignInt32 (i32 (len + Header_Length)) FrameAlignment"
    "AlignInt32 (i32 (len + Header_Length)) FrameAlignment \<le> len + 63"
    using AlignInt32_bounds [of "len + 32"] assms unfolding a by simp_all
qed

lemma calls_frame_with_payload:
  "calls (frame_with_payload header tb src srcOffset len offset termID)
     = calls tb @ header_calls header offset (i32 (len + Header_Length)) termID
       @ [Call_PutBytes (i32 (offset + Header_Length)) (src_bytes src srcOffset len)]"
  by (simp add: frame_with_payload_def PutBytes_def put_simps calls_headerWriter_write)

lemma AppendUnfragmentedMessage_fits_buffer:
  assumes "tailCounter ap mod 4294967296 + AlignInt32 (i32 (len + Header_Length)) FrameAlignment
             \<le> capacity (termBuffer ap)"
  shows "termBuffer (fst (AppendUnfragmentedMessage ap src srcOffset len rvs)) =
     (let offset = i32 (tailCounter ap mod 4294967296);
          frameLength = i32 (len + Header_Length);
          b2 = frame_with_payload (headerWriter ap) (termBuffer ap) src srcOffset len offset
                 (TermID (tailCounter ap))
      in FrameLengthOrdered
           (case rvs of
              None \<Rightarrow> b2
            | Some supplier \<Rightarrow>
                PutInt64 b2 (i32 (offset + ReservedValueFieldOffset))
                  (i64 (supplier b2 offset frameLength)))
           offset frameLength)"
  by (simp add: AppendUnfragmentedMessage_fits [OF assms] frame_with_payload_def Let_def
      split: option.split)

lemma calls_AppendUnfragmentedMessage_fits:
  assumes "tailCounter ap mod 4294967296 + AlignInt32 (i32 (len + Header_Length)) FrameAlignment
             \<le> capacity (termBuffer ap)"
  shows "calls (termBuffer (fst (AppendUnfragmentedMessage ap src srcOffset len rvs))) =
     calls (termBuffer ap)
     @ header_calls (headerWriter ap) (i32 (tailCounter ap mod 4294967296))
         (i32 (len + Header_Length)) (TermID (tailCounter ap))
     @ [Call_PutBytes (i32 (i32 (tailCounter ap mod 4294967296) + Header_Length))
          (src_bytes src srcOffset len)]
     @ (case rvs of
          None \<Rightarrow> []
        | Some supplier \<Rightarrow>
            [Call_PutInt64 (i32 (i32 (tailCounter ap mod 4294967296) + ReservedValueFieldOffset))
               (i64 (supplier
                  (frame_with_payload (headerWriter ap) (termBuffer ap) src srcOffset len
                     (i32 (tailCounter ap mod 4294967296)) (TermID (tailCounter ap)))
                  (i32 (tailCounter ap mod 4294967296)) (i32 (len + Header_Length))))])
     @ [Call_FrameLengthOrdered (i32 (tailCounter ap mod 4294967296)) (i32 (len + Header_Length))]"
  by (simp add: AppendUnfragmentedMessage_fits_buffer [OF assms] Let_def FrameLengthOrdered_def
      PutInt64_def put_simps calls_frame_with_payload split: option.split)

lemma frame_length_FrameLengthOrdered:
  "frame_length (mem (FrameLengthOrdered b offset len)) offset = i32 len"
  by (simp add: frame_length_def FrameLengthOrdered_def put_simps GetInt32_store)

lemma i32_zero: "i32 0 = 0"
  by (simp add: i32_def)

lemma handleEndOfLogCondition_padding:
  "termOffset < termLength \<Longrightarrow>
   handleEndOfLogCondition termID tb termOffset header termLength
     = (FrameLengthOrdered
          (SetFrameType
             (headerWriter_write header tb termOffset (i32 (termLength - termOffset)) termID)
             termOffset TypePad)
          termOffset (i32 (termLength - termOffset)),
        AppenderTripped)"
  by (simp add: handleEndOfLogCondition_def Let_def)

lemma mem_headerWriter_write_outside:
  "x < offset \<or> offset + 24 \<le> x \<Longrightarrow>
   mem (headerWriter_write header b offset len termID) x = mem b x"
  by (auto simp: headerWriter_write_def put_defs put_simps Let_def field_offsets
      store_outside length_le_bytes)

lemma load_le_headerWriter_write_outside:
  "a + int n \<le> offset \<or> offset + 24 \<le> a \<Longrightarrow>
   load_le n (mem (headerWriter_write header b offset len termID)) a = load_le n (mem b) a"
  by (rule load_le_cong) (auto simp: mem_headerWriter_write_outside)

lemma length_src_bytes: "length (src_bytes src srcOffset len) = nat len"
  by (simp add: src_bytes_def)

lemma GetInt64_store: "GetInt64 (store m a (le_bytes 8 v)) a = i64 v"
  by (simp add: GetInt64_def load8 i64_mod)

lemma i64_idem: "i64 (i64 x) = i64 x"
proof -
  have "in_i64 (i64 x)"
    unfolding i64_def in_i64_def
    using pos_mod_bound [of 18446744073709551616 "x + 9223372036854775808"]
      pos_mod_sign [of 18446744073709551616 "x + 9223372036854775808"]
    by linarith
  then show ?thesis by (rule i64_id)
qed

lemma fitting_offsets:
  assumes "tailCounter ap mod 4294967296 + AlignInt32 (i32 (len + Header_Length)) FrameAlignment
             \<le> capacity (termBuffer ap)"
    and "0 \<le> len" "len \<le> 2147483584" "in_i32 (capacity (termBuffer ap))"
  shows "i32 (tailCounter ap mod 4294967296) = tailCounter ap mod 4294967296"
    and "i32 (len + Header_Length) = len + Header_Length"
    and "i32 (tailCounter ap mod 4294967296 + Header_Length)
           = tailCounter ap mod 4294967296 + Header_Length"
    and "i32 (tailCounter ap mod 4294967296 + ReservedValueFieldOffset)
           = tailCounter ap mod 4294967296 + ReservedValueFieldOffset"
proof -
  let ?low = "tailCounter ap mod 4294967296"
  have l: "0 \<le> ?low" using low32_range [of "tailCounter ap"] by simp
  have "?low + (len + 32) \<le> capacity (termBuffer ap)"
    using assms(1) frame_align_bounds(2) [OF assms(2,3)] by linarith
  then have u: "?low + 32 \<le> 2147483647"
    using assms(2,4) unfolding in_i32_def by linarith
  show "i32 ?low = ?low" using l u by (intro i32_id) (simp add: in_i32_def)
  show "i32 (len + Header_Length) = len + Header_Length"
    using frame_align_bounds(1) [OF assms(2,3)] by (simp add: Header_Length_def)
  show "i32 (?low + Header_Length) = ?low + Header_Length"
    using l u by (intro i32_id) (simp add: in_i32_def Header_Length_def)
  show "i32 (?low + ReservedValueFieldOffset) = ?low + ReservedValueFieldOffset"
    using l u by (intro i32_id) (simp add: in_i32_def ReservedValueFieldOffset_def)
qed

section \<open>The calls of the fragment loop\<close>

lemma published_append: "published (xs @ ys) = published xs @ published ys"
  by (induction xs rule: published.induct) simp_all

lemma flag_calls_append: "flag_calls (xs @ ys) = flag_calls xs @ flag_calls ys"
  by (induction xs rule: flag_calls.induct) simp_all

lemma payload_calls_append: "payload_calls (xs @ ys) = payload_calls xs @ payload_calls ys"
  by (induction xs rule: payload_calls.induct) simp_all

lemma calls_fragment_written:
  "calls (fragment_written header src srcOffset len maxPL f termID b flags remaining offset)
     = calls b @ fragment_calls header src srcOffset len maxPL f termID b flags remaining offset"
  by (simp add: fragment_written_def fragment_before_supplier_def fragment_calls_def Let_def
      FrameLengthOrdered_def PutInt64_def FrameFlags_def PutBytes_def put_simps
      calls_headerWriter_write)

lemma observe_fragment_calls:
  "published (fragment_calls header src srcOffset len maxPL f termID b flags remaining offset @ cs)
     = (offset, i32 (min remaining maxPL + Header_Length)) # published cs"
  "flag_calls (fragment_calls header src srcOffset len maxPL f termID b flags remaining offset @ cs)
     = (offset, if remaining \<le> maxPL then flags OR endFrag else flags) # flag_calls cs"
  "payload_calls (fragment_calls header src srcOffset len maxPL f termID b flags remaining offset @ cs)
     = (i32 (offset + Header_Length),
        src_bytes src (i32 (srcOffset + i32 (len - remaining))) (min remaining maxPL))
       # payload_calls cs"
  by (simp_all add: fragment_calls_def header_calls_def)

lemma frames_in_order_fragment_calls:
  "frames_in_order cs \<Longrightarrow>
   frames_in_order
     (fragment_calls header src srcOffset len maxPL f termID b flags remaining offset @ cs)"
  by (subst frames_in_order.simps)
    (simp add: fragment_calls_def header_calls_def frame_block_def)

lemma ceil_div_step: "0 < m \<Longrightarrow> (r + m - 1) div m = (r - 1) div m + 1" for r m :: int
proof -
  assume "0 < m"
  have "(r + m - 1) div m = (r - 1 + m) div m" by (simp add: algebra_simps)
  also have "\<dots> = (r - 1) div m + 1"
    using div_add_self2 [of m "r - 1"] \<open>0 < m\<close> by simp
  finally show ?thesis .
qed

lemma fragment_count_pos:
  assumes "0 < maxPL" "0 < remaining"
  shows "fragment_count remaining maxPL = Suc (nat ((remaining - 1) div maxPL))"
proof -
  have "0 \<le> (remaining - 1) div maxPL"
    using assms by (simp add: pos_imp_zdiv_nonneg_iff)
  then show ?thesis
    using assms by (simp add: fragment_count_def ceil_div_step nat_add_distrib)
qed

lemma fragment_count_step:
  assumes "0 < maxPL" "0 < remaining"
  shows "fragment_count remaining maxPL = Suc (fragment_count (remaining - min remaining maxPL) maxPL)"
proof (cases "remaining \<le> maxPL")
  case True
  then have "(remaining - 1) div maxPL = 0"
    using assms by (intro div_pos_pos_trivial) simp_all
  with True assms show ?thesis
    by (simp add: fragment_count_def ceil_div_step)
next
  case False
  then have r: "0 < remaining - maxPL" by simp
  have "(remaining - maxPL + maxPL - 1) div maxPL = (remaining - maxPL - 1) div maxPL + 1"
    using assms(1) by (rule ceil_div_step)
  then have "(remaining - 1) div maxPL = (remaining - maxPL - 1) div maxPL + 1" by simp
  moreover have "0 \<le> (remaining - maxPL - 1) div maxPL"
    using assms(1) r by (simp add: pos_imp_zdiv_nonneg_iff)
  ultimately show ?thesis
    using False fragment_count_pos [OF assms] fragment_count_pos [OF assms(1) r]
    by (simp add: nat_add_distrib)
qed

lemma expected_flags_zero: "0 < n \<Longrightarrow> expected_flags 0 n = replicate (n - 1) 0 @ [endFrag]"
proof (induction n)
  case 0
  then show ?case by simp
next
  case (Suc n)
  then show ?case by (cases n) simp_all
qed

lemma expected_flags_many:
  "2 \<le> n \<Longrightarrow> expected_flags flags n = flags # replicate (n - 2) 0 @ [endFrag]"
proof -
  assume "2 \<le> n"
  then obtain k where k: "n = Suc (Suc k)" by (metis Suc_le_D numeral_2_eq_2 Suc_le_mono)
  have "0 < m \<Longrightarrow> (0::int) # replicate (m - Suc 0) 0 = replicate m 0" for m
    by (cases m) simp_all
  with k show ?thesis by (simp add: expected_flags_zero)
qed

lemma fragment_count_zero: "fragment_count 0 maxPL = 0"
  by (simp add: fragment_count_def)

lemma fragment_count_one:
  assumes "0 < maxPL" "0 < remaining"
  shows "fragment_count (remaining - min remaining maxPL) maxPL = 0 \<longleftrightarrow> remaining \<le> maxPL"
proof (cases "remaining \<le> maxPL")
  case True
  then show ?thesis by (simp add: fragment_count_def)
next
  case False
  then have "0 < remaining - maxPL" by simp
  from fragment_count_pos [OF assms(1) this] False show ?thesis by simp
qed

lemma fragment_loop_run:
  assumes "0 < maxPL" "in_i32 remaining"
  shows "\<exists>b' new.
      fragment_loop header src srcOffset len maxPL (Some f) termID b flags remaining offset
        = Some (Inr b')
      \<and> calls b' = calls b @ new
      \<and> frames_in_order new
      \<and> length (published new) = fragment_count remaining maxPL
      \<and> map fst (payload_calls new) = map (\<lambda>p. i32 (fst p + Header_Length)) (published new)
      \<and> map snd (published new)
          = map (\<lambda>p. i32 (int (length (snd p)) + Header_Length)) (payload_calls new)
      \<and> (maxPL \<le> 2147483615 \<longrightarrow> (\<forall>p\<in>set (published new). 0 < snd p))
      \<and> (\<Sum>p\<leftarrow>payload_calls new. int (length (snd p))) = max remaining 0
      \<and> map fst (flag_calls new) = map fst (published new)
      \<and> map snd (flag_calls new) = expected_flags flags (fragment_count remaining maxPL)"
  using assms
proof (induction "nat remaining" arbitrary: remaining b flags offset rule: less_induct)
  case less
  show ?case
  proof (cases "0 < remaining")
    case False
    then have "fragment_loop header src srcOffset len maxPL (Some f) termID b flags remaining offset
        = Some (Inr b)"
      by (simp add: fragment_loop_done)
    moreover have "fragment_count remaining maxPL = 0"
      using False by (simp add: fragment_count_def)
    ultimately show ?thesis
      using False by simp
  next
    case True
    let ?n = "min remaining maxPL"
    let ?r = "remaining - ?n"
    let ?b1 = "fragment_written header src srcOffset len maxPL f termID b flags remaining offset"
    let ?fc = "fragment_calls header src srcOffset len maxPL f termID b flags remaining offset"
    let ?o1 = "i32 (offset + AlignInt32 (i32 (?n + Header_Length)) FrameAlignment)"
    have n: "0 < ?n" using True less.prems by simp
    have r: "0 \<le> ?r" "?r < remaining" using True less.prems by auto
    then have i: "in_i32 ?r" using less.prems unfolding in_i32_def by linarith
    then have e: "i32 ?r = ?r" by (rule i32_id)
    from r have "nat ?r < nat remaining" by simp
    from less.hyps [OF this less.prems(1) i, of ?b1 0 ?o1]
    obtain b' new where
      l: "fragment_loop header src srcOffset len maxPL (Some f) termID ?b1 0 ?r ?o1 = Some (Inr b')"
      and c: "calls b' = calls ?b1 @ new"
      and o: "frames_in_order new"
      and p: "length (published new) = fragment_count ?r maxPL"
      and q: "map fst (payload_calls new) = map (\<lambda>p. i32 (fst p + Header_Length)) (published new)"
      and u: "map snd (published new)
          = map (\<lambda>p. i32 (int (length (snd p)) + Header_Length)) (payload_calls new)"
      and w: "maxPL \<le> 2147483615 \<longrightarrow> (\<forall>p\<in>set (published new). 0 < snd p)"
      and s: "(\<Sum>p\<leftarrow>payload_calls new. int (length (snd p))) = max ?r 0"
      and a: "map fst (flag_calls new) = map fst (published new)"
      and g: "map snd (flag_calls new) = expected_flags 0 (fragment_count ?r maxPL)"
      by blast
    have l': "fragment_loop header src srcOffset len maxPL (Some f) termID b flags remaining offset
        = Some (Inr b')"
      using l by (simp add: fragment_loop_step [OF True] e)
    have c': "calls b' = calls b @ (?fc @ new)"
      using c by (simp add: calls_fragment_written)
    have o': "frames_in_order (?fc @ new)"
      using o by (rule frames_in_order_fragment_calls)
    have q': "map fst (payload_calls (?fc @ new))
        = map (\<lambda>p. i32 (fst p + Header_Length)) (published (?fc @ new))"
      using q by (simp add: observe_fragment_calls)
    have u': "map snd (published (?fc @ new))
        = map (\<lambda>p. i32 (int (length (snd p)) + Header_Length)) (payload_calls (?fc @ new))"
      using u n by (simp add: observe_fragment_calls length_src_bytes)
    have w': "maxPL \<le> 2147483615 \<longrightarrow> (\<forall>p\<in>set (published (?fc @ new)). 0 < snd p)"
    proof
      assume m: "maxPL \<le> 2147483615"
      have "i32 (?n + Header_Length) = ?n + Header_Length"
        using n m by (intro i32_id) (simp add: in_i32_def Header_Length_def)
      moreover have "0 < ?n + Header_Length"
        using n unfolding Header_Length_def by linarith
      ultimately show "\<forall>p\<in>set (published (?fc @ new)). 0 < snd p"
        using m w by (simp add: observe_fragment_calls)
    qed
    have p': "length (published (?fc @ new)) = fragment_count remaining maxPL"
      using p by (simp add: observe_fragment_calls fragment_count_step [OF less.prems(1) True])
    have s': "(\<Sum>p\<leftarrow>payload_calls (?fc @ new). int (length (snd p))) = max remaining 0"
      using s n r by (simp add: observe_fragment_calls length_src_bytes)
    have a': "map fst (flag_calls (?fc @ new)) = map fst (published (?fc @ new))"
      using a by (simp add: observe_fragment_calls)
    have g': "map snd (flag_calls (?fc @ new)) = expected_flags flags (fragment_count remaining maxPL)"
      using g fragment_count_one [OF less.prems(1) True]
      by (simp add: observe_fragment_calls fragment_count_step [OF less.prems(1) True]
          fragment_count_zero)
    from l' c' o' p' q' u' w' s' a' g' show ?thesis by blast
  qed
qed

lemma ceil_div_bounds:
  fixes r m :: int
  assumes "0 < m"
  shows "((r + m - 1) div m - 1) * m < r" "r \<le> ((r + m - 1) div m) * m"
proof -
  let ?q = "(r - 1) div m"
  have e: "(r + m - 1) div m = ?q + 1" using assms by (rule ceil_div_step)
  have d: "?q * m + (r - 1) mod m = r - 1" by simp
  have b: "0 \<le> (r - 1) mod m" "(r - 1) mod m < m" using assms by simp_all
  have "(r + m - 1) div m - 1 = ?q" using e by simp
  with d b show "((r + m - 1) div m - 1) * m < r" by (simp only:)
  have "(?q + 1) * m = ?q * m + m" by (simp add: algebra_simps)
  with d b show "r \<le> ((r + m - 1) div m) * m" unfolding e by linarith
qed

lemma fragment_count_many:
  assumes "0 < maxPL" "maxPL < len"
  shows "2 \<le> fragment_count len maxPL"
    and "int (fragment_count len maxPL) = (len + maxPL - 1) div maxPL"
proof -
  have l: "0 < len" using assms by simp
  have "maxPL div maxPL \<le> (len - 1) div maxPL"
    using assms by (intro zdiv_mono1) simp_all
  then have q: "1 \<le> (len - 1) div maxPL" using assms by simp
  then show "2 \<le> fragment_count len maxPL"
    by (simp add: fragment_count_pos [OF assms(1) l])
  from q show "int (fragment_count len maxPL) = (len + maxPL - 1) div maxPL"
    using assms by (simp add: fragment_count_pos [OF assms(1) l] ceil_div_step)
qed

section \<open>The required length\<close>

lemma align_up_32: "align_up v FrameAlignment = (v + 31) div 32 * 32"
  by (simp add: align_up_def FrameAlignment_def)

lemma align_up_bounds: "v \<le> align_up v FrameAlignment" "align_up v FrameAlignment \<le> v + 31"
  "align_up v FrameAlignment mod 32 = 0"
  unfolding align_up_32 by presburger+

lemma quo32_nonneg: "0 \<le> a \<Longrightarrow> 0 < b \<Longrightarrow> a \<le> 2147483647 \<Longrightarrow> quo32 a b = a div b"
proof -
  assume a: "0 \<le> a" "0 < b" "a \<le> 2147483647"
  have "0 \<le> a div b" using a by (simp add: pos_imp_zdiv_nonneg_iff)
  moreover have "a div b \<le> a div 1" using a by (intro zdiv_mono2) simp_all
  ultimately have "in_i32 (a div b)" using a unfolding in_i32_def by simp
  then have "i32 (a div b) = a div b" by (rule i32_id)
  then show ?thesis
    using a by (cases "a = 0") (simp_all add: quo32_def)
qed

lemma rem32_nonneg: "0 \<le> a \<Longrightarrow> 0 < b \<Longrightarrow> a \<le> 2147483647 \<Longrightarrow> rem32 a b = a mod b"
proof -
  assume a: "0 \<le> a" "0 < b" "a \<le> 2147483647"
  have m: "a - b * (a div b) = a mod b" by (simp add: minus_mult_div_eq_mod)
  have "0 \<le> a mod b" "a mod b \<le> a"
    using a by (simp_all add: zmod_le_nonneg_dividend)
  then have "in_i32 (a mod b)" using a unfolding in_i32_def by linarith
  then have "i32 (a mod b) = a mod b" by (rule i32_id)
  then show ?thesis
    using a m by (cases "a = 0") (simp_all add: rem32_def)
qed

lemma fragmented_requiredLength_spec:
  assumes "0 \<le> len" "len \<le> 2147483647" "0 < maxPL"
    and "requiredLength_spec len maxPL \<le> 2147483647"
  shows "fragmented_requiredLength len maxPL = requiredLength_spec len maxPL"
proof -
  let ?q = "len div maxPL"
  let ?r = "len mod maxPL"
  define lastLen where "lastLen = (if ?r = 0 then 0 else align_up (?r + Header_Length) FrameAlignment)"
  define P where "P = ?q * (maxPL + 32)"
  have q: "0 \<le> ?q" using assms by (simp add: pos_imp_zdiv_nonneg_iff)
  have r: "0 \<le> ?r" "?r < maxPL" using assms by simp_all
  have l0: "0 \<le> lastLen"
    using r align_up_bounds(1) [of "?r + Header_Length"] by (simp add: lastLen_def Header_Length_def)
  have p0: "0 \<le> P" using q assms(3) by (simp add: P_def)
  have s: "P + lastLen \<le> 2147483647"
    using assms(4) by (simp add: requiredLength_spec_def Let_def Header_Length_def P_def lastLen_def)
  have p: "i32 (?q * i32 (maxPL + Header_Length)) = P"
  proof (cases "?q = 0")
    case True
    then show ?thesis by (simp add: i32_zero P_def)
  next
    case False
    with q have "1 \<le> ?q" by simp
    then have "1 * (maxPL + 32) \<le> P"
      unfolding P_def using assms(3) by (intro mult_right_mono) simp_all
    then have "maxPL + 32 \<le> 2147483647" using s l0 by simp
    then have "i32 (maxPL + Header_Length) = maxPL + 32"
      using assms(3) by (simp add: Header_Length_def i32_id in_i32_def)
    moreover have "in_i32 P"
      using p0 s l0 unfolding in_i32_def by linarith
    ultimately show ?thesis by (simp add: i32_id P_def)
  qed
  have l: "(if 0 < ?r then AlignInt32 (i32 (?r + Header_Length)) FrameAlignment else 0) = lastLen"
  proof (cases "?r = 0")
    case True
    then show ?thesis by (simp add: lastLen_def)
  next
    case False
    with r have rp: "0 < ?r" by simp
    define v where "v = ?r + 32"
    have la: "lastLen = align_up v FrameAlignment"
      using False by (simp add: lastLen_def v_def Header_Length_def)
    then have "align_up v FrameAlignment \<le> 2147483647" using s p0 by linarith
    moreover have "align_up v FrameAlignment mod 32 = 0" by (rule align_up_bounds)
    ultimately have "align_up v FrameAlignment \<le> 2147483616" by presburger
    then have "(v + 31) div 32 * 32 \<le> 2147483616" by (simp add: align_up_32)
    then have v: "v \<le> 2147483616" by presburger
    have vp: "0 \<le> v" using rp by (simp add: v_def)
    have "i32 v = v" using v vp by (intro i32_id) (simp add: in_i32_def)
    moreover have "AlignInt32 v FrameAlignment = align_up v FrameAlignment"
      using v vp by (simp add: AlignInt32_32 align_up_32)
    ultimately show ?thesis using rp la by (simp add: Header_Length_def v_def)
  qed
  have "in_i32 (P + lastLen)"
    using p0 l0 s unfolding in_i32_def by linarith
  then have "i32 (P + lastLen) = P + lastLen" by (rule i32_id)
  moreover have "requiredLength_spec len maxPL = P + lastLen"
    by (simp add: requiredLength_spec_def Let_def P_def lastLen_def Header_Length_def)
  ultimately show ?thesis
    using assms(1-3) p l
    by (simp add: fragmented_requiredLength_def Let_def quo32_nonneg rem32_nonneg)
qed

section \<open>The frames of a reservation\<close>

lemma requiredLength_spec_zero: "requiredLength_spec 0 maxPL = 0"
  by (simp add: requiredLength_spec_def)

lemma requiredLength_spec_small:
  assumes "0 < remaining" "remaining < maxPL"
  shows "requiredLength_spec remaining maxPL = align_up (remaining + 32) FrameAlignment"
  using assms by (simp add: requiredLength_spec_def Header_Length_def)

lemma requiredLength_spec_step:
  assumes "0 < maxPL" "maxPL \<le> remaining"
  shows "requiredLength_spec remaining maxPL
           = (maxPL + 32) + requiredLength_spec (remaining - maxPL) maxPL"
proof -
  have d: "(remaining - maxPL) div maxPL = remaining div maxPL - 1"
    using assms(1) div_add_self2 [of maxPL "remaining - maxPL"] by simp
  have m: "(remaining - maxPL) mod maxPL = remaining mod maxPL"
    using mod_add_self2 [of "remaining - maxPL" maxPL] by simp
  show ?thesis
    by (simp add: requiredLength_spec_def Let_def d m Header_Length_def algebra_simps)
qed

lemma requiredLength_spec_nonneg:
  assumes "0 < maxPL" "0 \<le> remaining"
  shows "0 \<le> requiredLength_spec remaining maxPL"
proof -
  have "0 \<le> remaining div maxPL" using assms by (simp add: pos_imp_zdiv_nonneg_iff)
  then have "0 \<le> remaining div maxPL * (maxPL + 32)" using assms(1) by simp
  moreover have "0 \<le> remaining mod maxPL" using assms(1) by simp
  then have "0 \<le> align_up (remaining mod maxPL + 32) FrameAlignment"
    using align_up_bounds(1) [of "remaining mod maxPL + 32"] by linarith
  ultimately show ?thesis
    by (simp add: requiredLength_spec_def Let_def Header_Length_def)
qed

lemma requiredLength_spec_ge:
  assumes "0 < maxPL" "0 \<le> remaining"
  shows "remaining \<le> requiredLength_spec remaining maxPL"
proof -
  define q where "q = remaining div maxPL"
  define m where "m = remaining mod maxPL"
  have q: "0 \<le> q" using assms by (simp add: q_def pos_imp_zdiv_nonneg_iff)
  have e: "remaining = q * maxPL + m" by (simp add: q_def m_def)
  have "q * (maxPL + 32) = q * maxPL + q * 32" by (simp add: algebra_simps)
  then have p: "q * maxPL \<le> q * (maxPL + 32)" using q by simp
  define t where "t = (if m = 0 then 0 else align_up (m + 32) FrameAlignment)"
  have "m \<le> t"
    using align_up_bounds(1) [of "m + 32"] by (simp add: t_def)
  moreover have "requiredLength_spec remaining maxPL = q * (maxPL + 32) + t"
    by (simp add: requiredLength_spec_def Let_def Header_Length_def q_def m_def t_def)
  ultimately show ?thesis using p e by linarith
qed

lemma align_up_aligned: "v mod 32 = 0 \<Longrightarrow> align_up v FrameAlignment = v"
  unfolding align_up_32 by presburger

lemma fragment_loop_tiles:
  assumes "0 < maxPL" "maxPL mod 32 = 0" "0 \<le> remaining" "0 \<le> offset"
    and "offset + requiredLength_spec remaining maxPL \<le> 2147483647"
  shows "\<exists>b' new.
      fragment_loop header src srcOffset len maxPL (Some f) termID b flags remaining offset
        = Some (Inr b')
      \<and> calls b' = calls b @ new
      \<and> frames_end offset (published new)
          = Some (offset + requiredLength_spec remaining maxPL)"
  using assms
proof (induction "nat remaining" arbitrary: remaining b flags offset rule: less_induct)
  case less
  show ?case
  proof (cases "0 < remaining")
    case False
    with less.prems(3) have z: "remaining = 0" by simp
    then show ?thesis
      by (simp add: fragment_loop_done requiredLength_spec_zero)
  next
    case True
    let ?n = "min remaining maxPL"
    let ?r = "remaining - ?n"
    let ?A = "align_up (?n + 32) FrameAlignment"
    let ?b1 = "fragment_written header src srcOffset len maxPL f termID b flags remaining offset"
    let ?fc = "fragment_calls header src srcOffset len maxPL f termID b flags remaining offset"
    have n: "0 < ?n" using True less.prems(1) by simp
    have r: "0 \<le> ?r" "?r < remaining" using True less.prems(1) by auto
    have rq: "0 \<le> requiredLength_spec ?r maxPL"
      using less.prems(1) r(1) by (rule requiredLength_spec_nonneg)
    have split: "requiredLength_spec remaining maxPL = ?A + requiredLength_spec ?r maxPL"
    proof (cases "remaining < maxPL")
      case True
      with \<open>0 < remaining\<close> show ?thesis
        by (simp add: requiredLength_spec_small requiredLength_spec_zero)
    next
      case False
      then have m: "?n = maxPL" by simp
      have "(maxPL + 32) mod 32 = 0" using less.prems(2) by presburger
      then have "align_up (maxPL + 32) FrameAlignment = maxPL + 32" by (rule align_up_aligned)
      with False requiredLength_spec_step [OF less.prems(1), of remaining] show ?thesis
        by (simp add: m)
    qed
    have A: "?n + 32 \<le> ?A" "?A mod 32 = 0" by (rule align_up_bounds)+
    have "?A \<le> 2147483647" using split rq less.prems(4,5) by linarith
    with A(2) have "?A \<le> 2147483616" by presburger
    then have "(?n + 32 + 31) div 32 * 32 \<le> 2147483616" by (simp add: align_up_32)
    then have v: "?n + 32 \<le> 2147483616" by presburger
    have fl: "i32 (?n + Header_Length) = ?n + 32"
      using n v by (simp add: Header_Length_def i32_id in_i32_def)
    have al: "AlignInt32 (?n + 32) FrameAlignment = ?A"
      using n v by (simp add: AlignInt32_32 align_up_32)
    have "in_i32 (offset + ?A)"
      using less.prems(4,5) split rq A(1) n unfolding in_i32_def by linarith
    then have o1: "i32 (offset + ?A) = offset + ?A" by (rule i32_id)
    have "remaining \<le> requiredLength_spec remaining maxPL"
      using less.prems(1,3) by (rule requiredLength_spec_ge)
    then have "in_i32 ?r" using r True less.prems(4,5)
      unfolding in_i32_def by linarith
    then have e: "i32 ?r = ?r" by (rule i32_id)
    have p5: "offset + ?A + requiredLength_spec ?r maxPL \<le> 2147483647"
      using less.prems(5) split by simp
    have p4: "0 \<le> offset + ?A" using less.prems(4) A(1) n by linarith
    from r have "nat ?r < nat remaining" by simp
    from less.hyps [OF this less.prems(1,2) r(1) p4 p5, of ?b1 0]
    obtain b' new where
      l: "fragment_loop header src srcOffset len maxPL (Some f) termID ?b1 0 ?r (offset + ?A)
            = Some (Inr b')"
      and c: "calls b' = calls ?b1 @ new"
      and t: "frames_end (offset + ?A) (published new)
            = Some (offset + ?A + requiredLength_spec ?r maxPL)"
      by blast
    have l': "fragment_loop header src srcOffset len maxPL (Some f) termID b flags remaining offset
        = Some (Inr b')"
      using l by (simp add: fragment_loop_step [OF True] e fl al o1)
    have c': "calls b' = calls b @ (?fc @ new)"
      using c by (simp add: calls_fragment_written)
    have t': "frames_end offset (published (?fc @ new))
        = Some (offset + requiredLength_spec remaining maxPL)"
      using t by (simp add: observe_fragment_calls fl al split)
    from l' c' t' show ?thesis by blast
  qed
qed

lemma fragments_fill_reservation:
  assumes "0 < maxPL" "maxPL mod 32 = 0" "0 \<le> len"
    and "in_i32 (capacity (termBuffer ap))"
    and "requiredLength_spec len maxPL \<le> 2147483647"
    and "tailCounter ap mod 4294967296 + fragmented_requiredLength len maxPL
           \<le> capacity (termBuffer ap)"
  shows "\<exists>ap' r new.
      AppendFragmentedMessage ap src srcOffset len maxPL (Some f) = Some (Inr (ap', r))
      \<and> calls (termBuffer ap') = calls (termBuffer ap) @ new
      \<and> frames_end (tailCounter ap mod 4294967296) (published new) = Some (result_termOffset r)
      \<and> result_termOffset r \<le> capacity (termBuffer ap)"
proof -
  let ?low = "tailCounter ap mod 4294967296"
  let ?S = "requiredLength_spec len maxPL"
  have g: "len \<le> ?S" using assms(1,3) by (rule requiredLength_spec_ge)
  then have R: "fragmented_requiredLength len maxPL = ?S"
    using assms(1,3,5) by (intro fragmented_requiredLength_spec) simp_all
  have l0: "0 \<le> ?low" using low32_range [of "tailCounter ap"] by simp
  have s0: "0 \<le> ?S" using assms(1,3) by (rule requiredLength_spec_nonneg)
  have u: "?low + ?S \<le> 2147483647"
    using assms(4,6) unfolding R in_i32_def by linarith
  then have "in_i32 ?low" using l0 s0 unfolding in_i32_def by linarith
  then have e: "i32 ?low = ?low" by (rule i32_id)
  from fragment_loop_tiles [OF assms(1,2,3) l0 u, of "headerWriter ap" src srcOffset len f
      "TermID (tailCounter ap)" "termBuffer ap" beginFrag]
  obtain b' new where
    l: "fragment_loop (headerWriter ap) src srcOffset len maxPL (Some f) (TermID (tailCounter ap))
          (termBuffer ap) beginFrag len ?low = Some (Inr b')"
    and c: "calls b' = calls (termBuffer ap) @ new"
    and t: "frames_end ?low (published new) = Some (?low + ?S)"
    by blast
  have m: "maxPL \<noteq> 0" using assms(1) by simp
  have "AppendFragmentedMessage ap src srcOffset len maxPL (Some f)
      = Some (Inr (ap\<lparr>tailCounter := i64 (tailCounter ap + ?S),
          tailCalls := tailCalls ap @ [Call_GetAndAddInt64 ?S], termBuffer := b'\<rparr>,
           \<lparr>result_termOffset = ?low + ?S, result_termID = TermID (tailCounter ap)\<rparr>))"
    using l assms(6) by (simp add: AppendFragmentedMessage_fits [OF m] e R)
  with c t assms(6) show ?thesis by (simp add: R)
qed

lemma published_fragment_calls:
  "published (fragment_calls header src srcOffset len maxPL f termID b flags remaining offset)
     = [(offset, i32 (min remaining maxPL + Header_Length))]"
  using observe_fragment_calls(1)
    [of header src srcOffset len maxPL f termID b flags remaining offset "[]"]
  by simp

lemma published_header_calls: "published (header_calls header offset len termID) = []"
  by (simp add: header_calls_def)

lemma published_AppendUnfragmentedMessage_fits:
  assumes "tailCounter ap mod 4294967296 + AlignInt32 (i32 (len + Header_Length)) FrameAlignment
             \<le> capacity (termBuffer ap)"
  shows "\<exists>new. calls (termBuffer (fst (AppendUnfragmentedMessage ap src srcOffset len rvs)))
             = calls (termBuffer ap) @ new
     \<and> published new = [(i32 (tailCounter ap mod 4294967296), i32 (len + Header_Length))]"
proof -
  let ?new = "header_calls (headerWriter ap) (i32 (tailCounter ap mod 4294967296))
         (i32 (len + Header_Length)) (TermID (tailCounter ap))
     @ [Call_PutBytes (i32 (i32 (tailCounter ap mod 4294967296) + Header_Length))
          (src_bytes src srcOffset len)]
     @ (case rvs of
          None \<Rightarrow> []
        | Some supplier \<Rightarrow>
            [Call_PutInt64 (i32 (i32 (tailCounter ap mod 4294967296) + ReservedValueFieldOffset))
               (i64 (supplier
                  (frame_with_payload (headerWriter ap) (termBuffer ap) src srcOffset len
                     (i32 (tailCounter ap mod 4294967296)) (TermID (tailCounter ap)))
                  (i32 (tailCounter ap mod 4294967296)) (i32 (len + Header_Length))))])
     @ [Call_FrameLengthOrdered (i32 (tailCounter ap mod 4294967296)) (i32 (len + Header_Length))]"
  have "calls (termBuffer (fst (AppendUnfragmentedMessage ap src srcOffset len rvs)))
      = calls (termBuffer ap) @ ?new"
    using calls_AppendUnfragmentedMessage_fits [OF assms, of src srcOffset rvs] by simp
  moreover have "published ?new
      = [(i32 (tailCounter ap mod 4294967296), i32 (len + Header_Length))]"
    by (cases rvs) (simp_all add: published_append published_header_calls)
  ultimately show ?thesis by blast
qed

section \<open>The frames in memory\<close>

lemma frames_span_zero: "frames_span 0 maxPL = 0"
  by (simp add: frames_span_def)

lemma frames_span_step:
  assumes "0 < maxPL" "0 < remaining"
  shows "frames_span remaining maxPL
      = align_up (min remaining maxPL + 32) FrameAlignment
        + frames_span (remaining - min remaining maxPL) maxPL"
proof (cases "remaining \<le> maxPL")
  case True
  then have "(remaining - 1) div maxPL = 0" "(remaining - 1) mod maxPL = remaining - 1"
    using assms by simp_all
  with True assms show ?thesis
    by (simp add: frames_span_def Header_Length_def)
next
  case False
  then have r: "0 < remaining - maxPL" by simp
  have "(remaining - maxPL + maxPL - 1) div maxPL = (remaining - maxPL - 1) div maxPL + 1"
    using assms(1) by (rule ceil_div_step)
  then have d: "(remaining - 1) div maxPL = (remaining - maxPL - 1) div maxPL + 1" by simp
  have "(remaining - 1) mod maxPL = (remaining - 1 - maxPL) mod maxPL"
    by (simp only: minus_mod_self2)
  then have m: "(remaining - 1) mod maxPL = (remaining - maxPL - 1) mod maxPL"
    by (simp add: algebra_simps)
  from False r assms show ?thesis
    by (simp add: frames_span_def d m Header_Length_def algebra_simps)
qed

lemma frames_span_nonneg:
  assumes "0 < maxPL"
  shows "0 \<le> frames_span remaining maxPL"
proof (cases "0 < remaining")
  case False
  then show ?thesis by (simp add: frames_span_def)
next
  case True
  then have "0 \<le> (remaining - 1) div maxPL"
    using assms by (simp add: pos_imp_zdiv_nonneg_iff)
  moreover have "0 \<le> align_up (maxPL + Header_Length) FrameAlignment"
    using align_up_bounds(1) [of "maxPL + Header_Length"] assms
    by (simp add: Header_Length_def)
  moreover have "0 \<le> (remaining - 1) mod maxPL" using assms by simp
  then have "0 \<le> align_up ((remaining - 1) mod maxPL + 1 + Header_Length) FrameAlignment"
    using align_up_bounds(1) [of "(remaining - 1) mod maxPL + 1 + Header_Length"]
    by (simp add: Header_Length_def)
  ultimately show ?thesis using True by (simp add: frames_span_def)
qed

lemma mem_fragment_written:
  assumes "0 \<le> offset" "offset + 32 \<le> 2147483647"
  shows "x < offset \<Longrightarrow>
      mem (fragment_written header src srcOffset len maxPL f termID b flags remaining offset) x
        = mem b x"
    and "frame_flags
        (mem (fragment_written header src srcOffset len maxPL f termID b flags remaining offset))
        offset = (if remaining \<le> maxPL then flags OR endFrag else flags) mod 256"
    and "frame_length
        (mem (fragment_written header src srcOffset len maxPL f termID b flags remaining offset))
        offset = i32 (min remaining maxPL + Header_Length)"
proof -
  have o: "i32 (offset + 32) = offset + 32" "i32 (offset + 24) = offset + 24"
    using assms by (simp_all add: i32_id in_i32_def)
  show "x < offset \<Longrightarrow>
      mem (fragment_written header src srcOffset len maxPL f termID b flags remaining offset) x
        = mem b x"
    by (simp add: fragment_written_def fragment_before_supplier_def Let_def o
        FrameLengthOrdered_def PutInt64_def FrameFlags_def PutBytes_def put_simps field_offsets
        store_outside length_le_bytes mem_headerWriter_write_outside)
  show "frame_flags
        (mem (fragment_written header src srcOffset len maxPL f termID b flags remaining offset))
        offset = (if remaining \<le> maxPL then flags OR endFrag else flags) mod 256"
    by (simp add: fragment_written_def fragment_before_supplier_def Let_def o frame_flags_def
        FrameLengthOrdered_def PutInt64_def FrameFlags_def PutBytes_def put_simps field_offsets
        load_le_store_outside length_le_bytes load1)
  show "frame_length
        (mem (fragment_written header src srcOffset len maxPL f termID b flags remaining offset))
        offset = i32 (min remaining maxPL + Header_Length)"
    by (simp add: fragment_written_def fragment_before_supplier_def Let_def o frame_length_def
        FrameLengthOrdered_def put_simps field_offsets GetInt32_store i32_idem)
qed

lemma fragment_loop_memory:
  assumes "0 < maxPL" "0 \<le> remaining" "in_i32 remaining" "0 \<le> offset"
    and "offset + frames_span remaining maxPL \<le> 2147483647"
    and "flags = beginFrag \<or> flags = 0"
  shows "\<exists>b' new.
      fragment_loop header src srcOffset len maxPL (Some f) termID b flags remaining offset
        = Some (Inr b')
      \<and> calls b' = calls b @ new
      \<and> (\<forall>x. x < offset \<longrightarrow> mem b' x = mem b x)
      \<and> map (\<lambda>p. frame_flags (mem b') (fst p)) (published new)
          = expected_flags flags (fragment_count remaining maxPL)
      \<and> map (\<lambda>p. frame_length (mem b') (fst p)) (published new) = map snd (published new)
      \<and> frames_end offset (published new) = Some (offset + frames_span remaining maxPL)"
  using assms
proof (induction "nat remaining" arbitrary: remaining b flags offset rule: less_induct)
  case less
  show ?case
  proof (cases "0 < remaining")
    case False
    with less.prems(2) have z: "remaining = 0" by simp
    then show ?thesis
      by (simp add: fragment_loop_done fragment_count_zero frames_span_zero)
  next
    case True
    let ?n = "min remaining maxPL"
    let ?r = "remaining - ?n"
    let ?A = "align_up (?n + 32) FrameAlignment"
    let ?fl = "if remaining \<le> maxPL then flags OR endFrag else flags"
    let ?b1 = "fragment_written header src srcOffset len maxPL f termID b flags remaining offset"
    let ?fc = "fragment_calls header src srcOffset len maxPL f termID b flags remaining offset"
    have n: "0 < ?n" using True less.prems(1) by simp
    have r: "0 \<le> ?r" "?r < remaining" using True less.prems(1) by auto
    have rq: "0 \<le> frames_span ?r maxPL"
      using less.prems(1) by (rule frames_span_nonneg)
    have split: "frames_span remaining maxPL = ?A + frames_span ?r maxPL"
      using less.prems(1) True by (rule frames_span_step)
    have A: "?n + 32 \<le> ?A" "?A mod 32 = 0" by (rule align_up_bounds)+
    have "?A \<le> 2147483647" using split rq less.prems(4,5) by linarith
    with A(2) have "?A \<le> 2147483616" by presburger
    then have "(?n + 32 + 31) div 32 * 32 \<le> 2147483616" by (simp add: align_up_32)
    then have v: "?n + 32 \<le> 2147483616" by presburger
    have fl: "i32 (?n + Header_Length) = ?n + 32"
      using n v by (simp add: Header_Length_def i32_id in_i32_def)
    have al: "AlignInt32 (?n + 32) FrameAlignment = ?A"
      using n v by (simp add: AlignInt32_32 align_up_32)
    have "in_i32 (offset + ?A)"
      using less.prems(4,5) split rq A(1) n unfolding in_i32_def by linarith
    then have o1: "i32 (offset + ?A) = offset + ?A" by (rule i32_id)
    have "in_i32 ?r" using r less.prems(3) unfolding in_i32_def by linarith
    then have i: "in_i32 ?r" and e: "i32 ?r = ?r" by (simp_all add: i32_id)
    have p5: "offset + ?A + frames_span ?r maxPL \<le> 2147483647"
      using less.prems(5) split by simp
    have p4: "0 \<le> offset + ?A" using less.prems(4) A(1) n by linarith
    have o32: "offset + 32 \<le> 2147483647" using p5 rq A(1) n by linarith
    have z: "(0::int) = beginFrag \<or> (0::int) = 0" by simp
    from r have "nat ?r < nat remaining" by simp
    from less.hyps [OF this less.prems(1) r(1) i p4 p5 z, of ?b1]
    obtain b' new where
      l: "fragment_loop header src srcOffset len maxPL (Some f) termID ?b1 0 ?r (offset + ?A)
            = Some (Inr b')"
      and c: "calls b' = calls ?b1 @ new"
      and m: "\<forall>x. x < offset + ?A \<longrightarrow> mem b' x = mem ?b1 x"
      and g: "map (\<lambda>p. frame_flags (mem b') (fst p)) (published new)
          = expected_flags 0 (fragment_count ?r maxPL)"
      and d: "map (\<lambda>p. frame_length (mem b') (fst p)) (published new) = map snd (published new)"
      and t: "frames_end (offset + ?A) (published new)
          = Some (offset + ?A + frames_span ?r maxPL)"
      by (elim exE conjE) (rule that)
    have l': "fragment_loop header src srcOffset len maxPL (Some f) termID b flags remaining offset
        = Some (Inr b')"
      using l by (simp add: fragment_loop_step [OF True] e fl al o1)
    have c': "calls b' = calls b @ (?fc @ new)"
      using c by (simp add: calls_fragment_written)
    have m': "\<forall>x. x < offset \<longrightarrow> mem b' x = mem b x"
    proof (intro allI impI)
      fix x assume x: "x < offset"
      then have "x < offset + ?A" using A(1) n by linarith
      with m have "mem b' x = mem ?b1 x" by simp
      also have "\<dots> = mem b x" using x by (rule mem_fragment_written(1) [OF less.prems(4) o32])
      finally show "mem b' x = mem b x" .
    qed
    have k: "?fl mod 256 = ?fl"
      using less.prems(6) by (auto simp: beginFrag_def endFrag_def)
    have m32: "mem b' x = mem ?b1 x" if "x < offset + 32" for x
    proof -
      from that have "x < offset + ?A" using A(1) n by linarith
      with m show ?thesis by simp
    qed
    have "frame_flags (mem b') offset = frame_flags (mem ?b1) offset"
      unfolding frame_flags_def
      by (rule load_le_cong) (simp add: FlagsFieldOffset_def m32)
    then have g0: "frame_flags (mem b') offset = ?fl"
      using mem_fragment_written(2) [OF less.prems(4) o32, of header src srcOffset len maxPL f
          termID b flags remaining] k
      by simp
    have "frame_length (mem b') offset = frame_length (mem ?b1) offset"
      unfolding frame_length_def GetInt32_def
      by (rule arg_cong [where f = i32], rule load_le_cong)
        (simp add: FrameLengthFieldOffset_def m32)
    then have d0: "frame_length (mem b') offset = ?n + 32"
      using mem_fragment_written(3) [OF less.prems(4) o32, of header src srcOffset len maxPL f
          termID b flags remaining] fl
      by simp
    have g': "map (\<lambda>p. frame_flags (mem b') (fst p)) (published (?fc @ new))
        = expected_flags flags (fragment_count remaining maxPL)"
      using g g0 fragment_count_one [OF less.prems(1) True]
      by (simp add: observe_fragment_calls fragment_count_step [OF less.prems(1) True]
          fragment_count_zero)
    have d': "map (\<lambda>p. frame_length (mem b') (fst p)) (published (?fc @ new))
        = map snd (published (?fc @ new))"
      using d d0 by (simp add: observe_fragment_calls fl)
    have t': "frames_end offset (published (?fc @ new))
        = Some (offset + frames_span remaining maxPL)"
      using t by (simp add: observe_fragment_calls fl al split)
    show ?thesis
      by (intro exI [of _ b'] exI [of _ "?fc @ new"] conjI l' c' m' g' d' t')
  qed
qed

section \<open>The end of the term\<close>

text \<open>
  C1. When the reservation began after the end of the term (\<open>termOffset > termLength\<close>) the
  resolver returns \<open>AppenderFailed\<close> (-2) and leaves the term buffer as it was; when it began
  at the end it returns \<open>AppenderTripped\<close> (-1) and leaves the buffer as it was; when it
  began before the end it returns \<open>AppenderTripped\<close> after exactly these calls: the header
  write at \<open>termOffset\<close>, the frame type set to pad, and the padding length published,
  which is \<open>termLength - termOffset\<close> for an offset that is not negative.
\<close>

theorem handleEndOfLogCondition_cases:
  "(termLength < termOffset \<longrightarrow>
      handleEndOfLogCondition termID tb termOffset header termLength = (tb, AppenderFailed)
      \<and> AppenderFailed = - 2)
   \<and> (termOffset = termLength \<longrightarrow>
      handleEndOfLogCondition termID tb termOffset header termLength = (tb, AppenderTripped)
      \<and> AppenderTripped = - 1)
   \<and> (termOffset < termLength \<longrightarrow>
      (\<exists>tb'. handleEndOfLogCondition termID tb termOffset header termLength = (tb', AppenderTripped)
         \<and> calls tb' = calls tb @ header_calls header termOffset (i32 (termLength - termOffset)) termID
              @ [Call_SetFrameType termOffset TypePad,
                 Call_FrameLengthOrdered termOffset (i32 (termLength - termOffset))]
         \<and> frame_type (mem tb') termOffset = TypePad
         \<and> frame_length (mem tb') termOffset = i32 (termLength - termOffset)
         \<and> (0 \<le> termOffset \<and> in_i32 termLength \<longrightarrow>
              i32 (termLength - termOffset) = termLength - termOffset)))"
proof (intro conjI impI)
  assume "termLength < termOffset"
  then show "handleEndOfLogCondition termID tb termOffset header termLength = (tb, AppenderFailed)"
    by (simp add: handleEndOfLogCondition_def)
next
  show "AppenderFailed = - 2" by (simp add: AppenderFailed_def)
next
  assume "termOffset = termLength"
  then show "handleEndOfLogCondition termID tb termOffset header termLength = (tb, AppenderTripped)"
    by (simp add: handleEndOfLogCondition_def)
next
  show "AppenderTripped = - 1" by (simp add: AppenderTripped_def)
next
  assume lt: "termOffset < termLength"
  let ?pl = "i32 (termLength - termOffset)"
  let ?b1 = "headerWriter_write header tb termOffset ?pl termID"
  let ?tb' = "FrameLengthOrdered (SetFrameType ?b1 termOffset TypePad) termOffset ?pl"
  have r: "handleEndOfLogCondition termID tb termOffset header termLength = (?tb', AppenderTripped)"
    using lt by (simp add: handleEndOfLogCondition_def Let_def)
  have c: "calls ?tb' = calls tb @ header_calls header termOffset ?pl termID
      @ [Call_SetFrameType termOffset TypePad, Call_FrameLengthOrdered termOffset ?pl]"
    by (simp add: FrameLengthOrdered_def SetFrameType_def put_simps calls_headerWriter_write)
  have t: "frame_type (mem ?tb') termOffset = TypePad"
    by (simp add: mem_SetFrameType_FrameLengthOrdered TypePad_def)
  have l: "frame_length (mem ?tb') termOffset = ?pl"
    by (simp add: mem_SetFrameType_FrameLengthOrdered i32_idem)
  have n: "0 \<le> termOffset \<and> in_i32 termLength \<longrightarrow> ?pl = termLength - termOffset"
    using lt by (auto intro!: i32_id simp: in_i32_def)
  from r c t l n
  show "\<exists>tb'. handleEndOfLogCondition termID tb termOffset header termLength = (tb', AppenderTripped)
         \<and> calls tb' = calls tb @ header_calls header termOffset ?pl termID
              @ [Call_SetFrameType termOffset TypePad, Call_FrameLengthOrdered termOffset ?pl]
         \<and> frame_type (mem tb') termOffset = TypePad
         \<and> frame_length (mem tb') termOffset = ?pl
         \<and> (0 \<le> termOffset \<and> in_i32 termLength \<longrightarrow> ?pl = termLength - termOffset)"
    by blast
qed

theorem handleEndOfLogCondition_cases_witness:
  "handleEndOfLogCondition 7 \<lparr>capacity = 128, mem = (\<lambda>a. 0), calls = []\<rparr> 160
       \<lparr>sessionID = 11, streamID = 22\<rparr> 128
     = (\<lparr>capacity = 128, mem = (\<lambda>a. 0), calls = []\<rparr>, - 2)
   \<and> handleEndOfLogCondition 7 \<lparr>capacity = 128, mem = (\<lambda>a. 0), calls = []\<rparr> 128
       \<lparr>sessionID = 11, streamID = 22\<rparr> 128
     = (\<lparr>capacity = 128, mem = (\<lambda>a. 0), calls = []\<rparr>, - 1)
   \<and> (\<exists>tb'. handleEndOfLogCondition 7 \<lparr>capacity = 128, mem = (\<lambda>a. 0), calls = []\<rparr> 64
         \<lparr>sessionID = 11, streamID = 22\<rparr> 128 = (tb', - 1)
       \<and> calls tb' =
           [Call_PutInt32Ordered 64 (- 64), Call_PutInt8 68 0, Call_PutUInt8 69 192,
            Call_PutUInt16 70 1, Call_PutInt32 72 64, Call_PutInt32 76 11,
            Call_PutInt32 80 22, Call_PutInt32 84 7, Call_SetFrameType 64 0,
            Call_FrameLengthOrdered 64 64]
       \<and> frame_type (mem tb') 64 = 0
       \<and> frame_length (mem tb') 64 = 64)"
proof -
  let ?tb = "\<lparr>capacity = 128, mem = (\<lambda>a. 0), calls = []\<rparr>"
  let ?hw = "\<lparr>sessionID = 11, streamID = 22\<rparr>"
  have a: "handleEndOfLogCondition 7 ?tb 160 ?hw 128 = (?tb, - 2)"
    using handleEndOfLogCondition_cases [of 128 160 7 ?tb ?hw] by simp
  have b: "handleEndOfLogCondition 7 ?tb 128 ?hw 128 = (?tb, - 1)"
    using handleEndOfLogCondition_cases [of 128 128 7 ?tb ?hw] by simp
  have "\<exists>tb'. handleEndOfLogCondition 7 ?tb 64 ?hw 128 = (tb', AppenderTripped)
         \<and> calls tb' = calls ?tb @ header_calls ?hw 64 (i32 (128 - 64)) 7
              @ [Call_SetFrameType 64 TypePad, Call_FrameLengthOrdered 64 (i32 (128 - 64))]
         \<and> frame_type (mem tb') 64 = TypePad
         \<and> frame_length (mem tb') 64 = i32 (128 - 64)
         \<and> (0 \<le> (64::int) \<and> in_i32 128 \<longrightarrow> i32 (128 - 64) = 128 - 64)"
    using handleEndOfLogCondition_cases [of 128 64 7 ?tb ?hw] by simp
  then obtain tb' where c: "handleEndOfLogCondition 7 ?tb 64 ?hw 128 = (tb', AppenderTripped)"
      "calls tb' = calls ?tb @ header_calls ?hw 64 (i32 (128 - 64)) 7
              @ [Call_SetFrameType 64 TypePad, Call_FrameLengthOrdered 64 (i32 (128 - 64))]"
      "frame_type (mem tb') 64 = TypePad" "frame_length (mem tb') 64 = i32 (128 - 64)"
    by blast
  have v: "i32 64 = 64" "i32 (- 64) = - 64" by (simp_all add: i32_def)
  from c have "handleEndOfLogCondition 7 ?tb 64 ?hw 128 = (tb', - 1)
       \<and> calls tb' =
           [Call_PutInt32Ordered 64 (- 64), Call_PutInt8 68 0, Call_PutUInt8 69 192,
            Call_PutUInt16 70 1, Call_PutInt32 72 64, Call_PutInt32 76 11,
            Call_PutInt32 80 22, Call_PutInt32 84 7, Call_SetFrameType 64 0,
            Call_FrameLengthOrdered 64 64]
       \<and> frame_type (mem tb') 64 = 0
       \<and> frame_length (mem tb') 64 = 64"
    by (simp add: v AppenderTripped_def header_calls_def field_offsets
      CurrentVersion_def unfragmented_def TypeData_def TypePad_def)
  with a b show ?thesis by blast
qed

section \<open>The result of a fitting append\<close>

text \<open>
  C2 (counterexample). With \<open>maxPayloadLength = 40\<close> a message of 100 bytes at the start
  of a term of 1024 bytes fits: 208 bytes are reserved and 208 is the term offset returned.
  Its three frames, 72, 72 and 52 bytes long, are written at 0, 96 and 192, each taking its
  aligned length, so the offset after the last frame is 256, not 208.
\<close>

theorem fragmented_result_counterexample:
  "tailCounter (scenario_appender 1024 0) mod 4294967296 + fragmented_requiredLength 100 40
      \<le> capacity (termBuffer (scenario_appender 1024 0))
   \<and> (case AppendFragmentedMessage (scenario_appender 1024 0) (\<lambda>a. 1) 0 100 40
              (Some DefaultReservedValueSupplier) of
         Some (Inr (ap', r)) \<Rightarrow> (result_termOffset r, published (calls (termBuffer ap')))
       | _ \<Rightarrow> (0, []))
       = (208, [(0, 72), (96, 72), (192, 52)])
   \<and> frames_end 0 [(0, 72), (96, 72), (192, 52)] = Some 256"
proof -
  let ?ap = "scenario_appender 1024 0"
  have R: "fragmented_requiredLength 100 40 = 208"
    by (simp add: fragmented_requiredLength_def quo32_def rem32_def scenario_simps)
  have fits: "tailCounter ?ap mod 4294967296 + fragmented_requiredLength 100 40
      \<le> capacity (termBuffer ?ap)"
    by (simp add: R scenario_appender_def)
  have v: "tailCounter ?ap mod 4294967296 = 0" "calls (termBuffer ?ap) = []"
    by (simp_all add: scenario_appender_def)
  have a: "AlignInt32 (i32 (40 + Header_Length)) FrameAlignment = 96"
    "AlignInt32 (i32 (20 + Header_Length)) FrameAlignment = 64"
    "AlignInt32 72 FrameAlignment = 96" "AlignInt32 52 FrameAlignment = 64"
    "i32 (40 + Header_Length) = 72" "i32 (20 + Header_Length) = 52"
    "i32 60 = 60" "i32 20 = 20" "i32 96 = 96" "i32 192 = 192" "i32 256 = 256"
    by (simp_all add: scenario_simps)
  define b1 where "b1 = fragment_written (headerWriter ?ap) (\<lambda>a. 1) 0 100 40
      DefaultReservedValueSupplier (TermID (tailCounter ?ap)) (termBuffer ?ap) beginFrag 100 0"
  define b2 where "b2 = fragment_written (headerWriter ?ap) (\<lambda>a. 1) 0 100 40
      DefaultReservedValueSupplier (TermID (tailCounter ?ap)) b1 0 60 96"
  define b3 where "b3 = fragment_written (headerWriter ?ap) (\<lambda>a. 1) 0 100 40
      DefaultReservedValueSupplier (TermID (tailCounter ?ap)) b2 0 20 192"
  have l: "fragment_loop (headerWriter ?ap) (\<lambda>a. 1) 0 100 40 (Some DefaultReservedValueSupplier)
      (TermID (tailCounter ?ap)) (termBuffer ?ap) beginFrag 100 0 = Some (Inr b3)"
    by (simp add: fragment_loop_step fragment_loop_done a i32_zero b1_def b2_def b3_def)
  have p: "published (calls b3) = [(0, 72), (96, 72), (192, 52)]"
    by (simp add: b1_def b2_def b3_def calls_fragment_written published_append
        published_fragment_calls a v)
  have e: "frames_end 0 [(0, 72), (96, 72), (192, 52)] = Some 256"
    by (simp add: a)
  have "AppendFragmentedMessage ?ap (\<lambda>a. 1) 0 100 40 (Some DefaultReservedValueSupplier)
      = Some (Inr (?ap\<lparr>tailCounter := i64 (tailCounter ?ap + 208),
          tailCalls := tailCalls ?ap @ [Call_GetAndAddInt64 208], termBuffer := b3\<rparr>,
           \<lparr>result_termOffset = 208, result_termID = TermID (tailCounter ?ap)\<rparr>))"
    using l by (simp add: AppendFragmentedMessage_fits [OF _ fits] R v i32_zero)
  with p have "(case AppendFragmentedMessage ?ap (\<lambda>a. 1) 0 100 40
              (Some DefaultReservedValueSupplier) of
         Some (Inr (ap', r)) \<Rightarrow> (result_termOffset r, published (calls (termBuffer ap')))
       | _ \<Rightarrow> (0, []))
       = (208, [(0, 72), (96, 72), (192, 52)])"
    by simp
  with fits e show ?thesis by (intro conjI)
qed

text \<open>
  C2 (amended). When the reservation fits, the result carries the term ID held in the high
  32 bits of the raw tail as it was before the addition (the value the fetch-and-add
  returns) and, as term offset, the low 32 bits of that value plus the aligned length (for
  the fragmented append: the required length). For \<open>Claim\<close> and
  \<open>AppendUnfragmentedMessage\<close> with a valid length, and for \<open>AppendFragmentedMessage\<close>
  when the frame alignment divides \<open>maxPayloadLength\<close>, this is the offset right after the
  frame or frames written: the frames lie back to back from the start of the reservation,
  each taking its aligned length, and end at the returned term offset.
\<close>

theorem fitting_append_result:
  assumes "in_i64 (tailCounter ap)"
  shows "snd (getAndAddRawTail ap n) = tailCounter ap
   \<and> (tailCounter ap mod 4294967296 + AlignInt32 (i32 (len + Header_Length)) FrameAlignment
          \<le> capacity (termBuffer ap) \<longrightarrow>
        fst (snd (Claim ap len c))
          = \<lparr>result_termOffset = tailCounter ap mod 4294967296
               + AlignInt32 (i32 (len + Header_Length)) FrameAlignment,
             result_termID = tailCounter ap div 4294967296\<rparr>
        \<and> snd (AppendUnfragmentedMessage ap src srcOffset len rvs)
          = \<lparr>result_termOffset = tailCounter ap mod 4294967296
               + AlignInt32 (i32 (len + Header_Length)) FrameAlignment,
             result_termID = tailCounter ap div 4294967296\<rparr>)
   \<and> (0 \<le> len \<and> len \<le> 2147483584 \<and> in_i32 (capacity (termBuffer ap))
        \<and> tailCounter ap mod 4294967296 + AlignInt32 (i32 (len + Header_Length)) FrameAlignment
          \<le> capacity (termBuffer ap) \<longrightarrow>
        claim_offset (snd (snd (Claim ap len c)))
            + AlignInt32 (claim_length (snd (snd (Claim ap len c)))) FrameAlignment
          = result_termOffset (fst (snd (Claim ap len c)))
        \<and> (\<exists>new. calls (termBuffer (fst (AppendUnfragmentedMessage ap src srcOffset len rvs)))
                  = calls (termBuffer ap) @ new
             \<and> frames_end (tailCounter ap mod 4294967296) (published new)
                 = Some (result_termOffset (snd (AppendUnfragmentedMessage ap src srcOffset len rvs)))))
   \<and> (maxPL \<noteq> 0 \<and> in_i32 maxPL \<and> in_i32 len
        \<and> tailCounter ap mod 4294967296 + fragmented_requiredLength len maxPL
          \<le> capacity (termBuffer ap) \<longrightarrow>
        (\<exists>ap'. AppendFragmentedMessage ap src srcOffset len maxPL (Some f)
           = Some (Inr (ap',
               \<lparr>result_termOffset = tailCounter ap mod 4294967296
                    + fragmented_requiredLength len maxPL,
                 result_termID = tailCounter ap div 4294967296\<rparr>))))
   \<and> (0 < maxPL \<and> maxPL mod FrameAlignment = 0 \<and> 0 \<le> len
        \<and> in_i32 (capacity (termBuffer ap)) \<and> requiredLength_spec len maxPL \<le> 2147483647
        \<and> tailCounter ap mod 4294967296 + fragmented_requiredLength len maxPL
          \<le> capacity (termBuffer ap) \<longrightarrow>
        (\<exists>ap' r new.
           AppendFragmentedMessage ap src srcOffset len maxPL (Some f) = Some (Inr (ap', r))
           \<and> calls (termBuffer ap') = calls (termBuffer ap) @ new
           \<and> frames_end (tailCounter ap mod 4294967296) (published new)
               = Some (result_termOffset r)))"
proof (intro conjI impI)
  show "snd (getAndAddRawTail ap n) = tailCounter ap"
    by (simp add: getAndAddRawTail_def)
next
  assume "tailCounter ap mod 4294967296 + AlignInt32 (i32 (len + Header_Length)) FrameAlignment
          \<le> capacity (termBuffer ap)"
  then show "fst (snd (Claim ap len c))
          = \<lparr>result_termOffset = tailCounter ap mod 4294967296
               + AlignInt32 (i32 (len + Header_Length)) FrameAlignment,
             result_termID = tailCounter ap div 4294967296\<rparr>"
    and "snd (AppendUnfragmentedMessage ap src srcOffset len rvs)
          = \<lparr>result_termOffset = tailCounter ap mod 4294967296
               + AlignInt32 (i32 (len + Header_Length)) FrameAlignment,
             result_termID = tailCounter ap div 4294967296\<rparr>"
    using assms by (simp_all add: Claim_fits AppendUnfragmentedMessage_fits TermID_high)
next
  let ?low = "tailCounter ap mod 4294967296"
  let ?A = "AlignInt32 (i32 (len + Header_Length)) FrameAlignment"
  assume a: "0 \<le> len \<and> len \<le> 2147483584 \<and> in_i32 (capacity (termBuffer ap))
        \<and> ?low + ?A \<le> capacity (termBuffer ap)"
  then have fits: "?low + ?A \<le> capacity (termBuffer ap)" by simp
  from a have o: "i32 ?low = ?low"
    by (intro fitting_offsets(1) [of ap len]) simp_all
  show "claim_offset (snd (snd (Claim ap len c)))
            + AlignInt32 (claim_length (snd (snd (Claim ap len c)))) FrameAlignment
          = result_termOffset (fst (snd (Claim ap len c)))"
    by (simp add: Claim_fits [OF fits] Claim_Wrap_def o)
  from published_AppendUnfragmentedMessage_fits [OF fits, of src srcOffset rvs]
  obtain new where
    c: "calls (termBuffer (fst (AppendUnfragmentedMessage ap src srcOffset len rvs)))
          = calls (termBuffer ap) @ new"
    and p: "published new = [(i32 ?low, i32 (len + Header_Length))]"
    by blast
  have "frames_end ?low (published new)
      = Some (result_termOffset (snd (AppendUnfragmentedMessage ap src srcOffset len rvs)))"
    by (simp add: p o AppendUnfragmentedMessage_fits [OF fits])
  with c show "\<exists>new. calls (termBuffer (fst (AppendUnfragmentedMessage ap src srcOffset len rvs)))
                  = calls (termBuffer ap) @ new
             \<and> frames_end ?low (published new)
                 = Some (result_termOffset (snd (AppendUnfragmentedMessage ap src srcOffset len rvs)))"
    by blast
next
  assume a: "maxPL \<noteq> 0 \<and> in_i32 maxPL \<and> in_i32 len
        \<and> tailCounter ap mod 4294967296 + fragmented_requiredLength len maxPL
          \<le> capacity (termBuffer ap)"
  then obtain res where r:
    "fragment_loop (headerWriter ap) src srcOffset len maxPL (Some f) (TermID (tailCounter ap))
       (termBuffer ap) beginFrag len (i32 (tailCounter ap mod 4294967296)) = Some (Inr res)"
    using fragment_loop_returns [of maxPL len] by blast
  with a assms show "\<exists>ap'. AppendFragmentedMessage ap src srcOffset len maxPL (Some f)
           = Some (Inr (ap',
               \<lparr>result_termOffset = tailCounter ap mod 4294967296
                    + fragmented_requiredLength len maxPL,
                 result_termID = tailCounter ap div 4294967296\<rparr>))"
    by (simp add: AppendFragmentedMessage_fits TermID_high)
next
  assume a: "0 < maxPL \<and> maxPL mod FrameAlignment = 0 \<and> 0 \<le> len
        \<and> in_i32 (capacity (termBuffer ap)) \<and> requiredLength_spec len maxPL \<le> 2147483647
        \<and> tailCounter ap mod 4294967296 + fragmented_requiredLength len maxPL
          \<le> capacity (termBuffer ap)"
  then have "0 < maxPL" "maxPL mod 32 = 0" "0 \<le> len" "in_i32 (capacity (termBuffer ap))"
    "requiredLength_spec len maxPL \<le> 2147483647"
    "tailCounter ap mod 4294967296 + fragmented_requiredLength len maxPL
       \<le> capacity (termBuffer ap)"
    by (simp_all add: FrameAlignment_def)
  from fragments_fill_reservation [OF this, of src srcOffset f]
  show "\<exists>ap' r new.
           AppendFragmentedMessage ap src srcOffset len maxPL (Some f) = Some (Inr (ap', r))
           \<and> calls (termBuffer ap') = calls (termBuffer ap) @ new
           \<and> frames_end (tailCounter ap mod 4294967296) (published new)
               = Some (result_termOffset r)"
    by blast
qed

theorem fitting_append_result_witness:
  "in_i64 30064771136
   \<and> fst (snd (Claim (scenario_appender 128 30064771136) 10 (Claim_Wrap 0 0)))
       = \<lparr>result_termOffset = 128, result_termID = 7\<rparr>
   \<and> snd (AppendUnfragmentedMessage (scenario_appender 128 30064771136) (\<lambda>a. 1) 0 10 None)
       = \<lparr>result_termOffset = 128, result_termID = 7\<rparr>
   \<and> (\<exists>new. calls (termBuffer (fst (AppendUnfragmentedMessage (scenario_appender 128 30064771136)
                 (\<lambda>a. 1) 0 10 None))) = new
         \<and> frames_end 64 (published new) = Some 128)
   \<and> (\<exists>ap'. AppendFragmentedMessage (scenario_appender 1024 30064771072) (\<lambda>a. 1) 0 100 32
                (Some DefaultReservedValueSupplier)
           = Some (Inr (ap', \<lparr>result_termOffset = 256, result_termID = 7\<rparr>)))
   \<and> (\<exists>ap' r new. AppendFragmentedMessage (scenario_appender 1024 30064771072) (\<lambda>a. 1) 0 100 32
                (Some DefaultReservedValueSupplier) = Some (Inr (ap', r))
         \<and> calls (termBuffer ap') = new
         \<and> frames_end 0 (published new) = Some (result_termOffset r))"
proof -
  let ?ap = "scenario_appender 128 30064771136"
  let ?ap2 = "scenario_appender 1024 30064771072"
  have A: "AlignInt32 (i32 (10 + Header_Length)) FrameAlignment = 64"
    by (simp add: scenario_simps)
  have R: "fragmented_requiredLength 100 32 = 256"
    by (simp add: fragmented_requiredLength_def quo32_def rem32_def scenario_simps)
  have S: "requiredLength_spec 100 32 = 256"
    by (simp add: requiredLength_spec_def align_up_def Header_Length_def FrameAlignment_def)
  have h: "in_i64 (tailCounter ?ap)" "in_i64 (tailCounter ?ap2)"
    by (simp_all add: scenario_appender_def in_i64_def)
  have i: "in_i64 30064771136" by (simp add: in_i64_def)
  have v: "tailCounter ?ap mod 4294967296 = 64" "tailCounter ?ap2 mod 4294967296 = 0"
    "calls (termBuffer ?ap) = []" "calls (termBuffer ?ap2) = []"
    by (simp_all add: scenario_appender_def)
  have e1: "tailCounter ?ap mod 4294967296 + AlignInt32 (i32 (10 + Header_Length)) FrameAlignment
      \<le> capacity (termBuffer ?ap)"
    by (simp add: A scenario_appender_def)
  have e2: "0 \<le> (10::int) \<and> (10::int) \<le> 2147483584 \<and> in_i32 (capacity (termBuffer ?ap))
      \<and> tailCounter ?ap mod 4294967296 + AlignInt32 (i32 (10 + Header_Length)) FrameAlignment
          \<le> capacity (termBuffer ?ap)"
    by (simp add: A scenario_appender_def in_i32_def)
  have e3: "32 \<noteq> (0::int) \<and> in_i32 32 \<and> in_i32 100
      \<and> tailCounter ?ap2 mod 4294967296 + fragmented_requiredLength 100 32
          \<le> capacity (termBuffer ?ap2)"
    by (simp add: R scenario_appender_def in_i32_def)
  have e4: "(0::int) < 32 \<and> (32::int) mod FrameAlignment = 0 \<and> (0::int) \<le> 100
      \<and> in_i32 (capacity (termBuffer ?ap2)) \<and> requiredLength_spec 100 32 \<le> 2147483647
      \<and> tailCounter ?ap2 mod 4294967296 + fragmented_requiredLength 100 32
          \<le> capacity (termBuffer ?ap2)"
    by (simp add: R S scenario_appender_def in_i32_def FrameAlignment_def)
  note T = fitting_append_result [OF h(1), where len = 10 and c = "Claim_Wrap 0 0"
      and src = "\<lambda>a. 1" and srcOffset = 0 and rvs = None]
  note T2 = fitting_append_result [OF h(2), where len = 100 and maxPL = 32
      and src = "\<lambda>a. 1" and srcOffset = 0 and f = DefaultReservedValueSupplier]
  note T_eq = T [THEN conjunct2, THEN conjunct1, THEN mp, OF e1]
  note T_end = T [THEN conjunct2, THEN conjunct2, THEN conjunct1, THEN mp, OF e2, THEN conjunct2]
  note T2_eq = T2 [THEN conjunct2, THEN conjunct2, THEN conjunct2, THEN conjunct1, THEN mp, OF e3]
  note T2_end = T2 [THEN conjunct2, THEN conjunct2, THEN conjunct2, THEN conjunct2, THEN mp, OF e4]
  have c: "fst (snd (Claim ?ap 10 (Claim_Wrap 0 0)))
       = \<lparr>result_termOffset = 128, result_termID = 7\<rparr>"
    and u: "snd (AppendUnfragmentedMessage ?ap (\<lambda>a. 1) 0 10 None)
       = \<lparr>result_termOffset = 128, result_termID = 7\<rparr>"
    using T_eq by (simp_all add: A scenario_appender_def)
  have w: "\<exists>new. calls (termBuffer (fst (AppendUnfragmentedMessage ?ap (\<lambda>a. 1) 0 10 None))) = new
         \<and> frames_end 64 (published new) = Some 128"
    using T_end unfolding u v by simp
  have g: "\<exists>ap'. AppendFragmentedMessage ?ap2 (\<lambda>a. 1) 0 100 32 (Some DefaultReservedValueSupplier)
           = Some (Inr (ap', \<lparr>result_termOffset = 256, result_termID = 7\<rparr>))"
    using T2_eq by (simp add: R scenario_appender_def)
  have t: "\<exists>ap' r new. AppendFragmentedMessage ?ap2 (\<lambda>a. 1) 0 100 32
                (Some DefaultReservedValueSupplier) = Some (Inr (ap', r))
         \<and> calls (termBuffer ap') = new
         \<and> frames_end 0 (published new) = Some (result_termOffset r)"
    using T2_end unfolding v by simp
  show ?thesis by (rule conjI [OF i conjI [OF c conjI [OF u conjI [OF w conjI [OF g t]]]]])
qed

section \<open>An append that fills the term\<close>

text \<open>
  C3. An append whose aligned (required) length is exactly the space left in the term
  succeeds: the returned term offset is the term capacity, not a sentinel; \<open>Claim\<close> writes the
  frame header and wraps the claim, \<open>AppendUnfragmentedMessage\<close> writes the frame and
  publishes its length, \<open>AppendFragmentedMessage\<close> runs its loop to the end and publishes
  one frame per fragment. When \<open>maxPayloadLength\<close> is a multiple of the alignment, the
  frames of the fragmented message end at the term capacity.
\<close>

theorem exact_fill_succeeds:
  assumes "0 \<le> capacity (termBuffer ap)"
  shows "(tailCounter ap mod 4294967296 + AlignInt32 (i32 (len + Header_Length)) FrameAlignment
            = capacity (termBuffer ap) \<longrightarrow>
        (\<exists>ap' r. Claim ap len c
             = (ap', r, Claim_Wrap (i32 (tailCounter ap mod 4294967296)) (i32 (len + Header_Length)))
           \<and> result_termOffset r = capacity (termBuffer ap)
           \<and> result_termOffset r \<noteq> AppenderTripped \<and> result_termOffset r \<noteq> AppenderFailed
           \<and> calls (termBuffer ap') = calls (termBuffer ap)
               @ header_calls (headerWriter ap) (i32 (tailCounter ap mod 4294967296))
                   (i32 (len + Header_Length)) (TermID (tailCounter ap)))
        \<and> (\<exists>ap' r cs. AppendUnfragmentedMessage ap src srcOffset len rvs = (ap', r)
           \<and> result_termOffset r = capacity (termBuffer ap)
           \<and> result_termOffset r \<noteq> AppenderTripped \<and> result_termOffset r \<noteq> AppenderFailed
           \<and> calls (termBuffer ap') = calls (termBuffer ap)
               @ header_calls (headerWriter ap) (i32 (tailCounter ap mod 4294967296))
                   (i32 (len + Header_Length)) (TermID (tailCounter ap))
               @ cs
               @ [Call_FrameLengthOrdered (i32 (tailCounter ap mod 4294967296))
                    (i32 (len + Header_Length))]
           \<and> frame_length (mem (termBuffer ap')) (i32 (tailCounter ap mod 4294967296))
               = i32 (len + Header_Length)))
   \<and> (0 < maxPL \<and> in_i32 len
        \<and> tailCounter ap mod 4294967296 + fragmented_requiredLength len maxPL
            = capacity (termBuffer ap) \<longrightarrow>
        (\<exists>ap' r new.
           AppendFragmentedMessage ap src srcOffset len maxPL (Some f) = Some (Inr (ap', r))
           \<and> result_termOffset r = capacity (termBuffer ap)
           \<and> result_termOffset r \<noteq> AppenderTripped \<and> result_termOffset r \<noteq> AppenderFailed
           \<and> calls (termBuffer ap') = calls (termBuffer ap) @ new
           \<and> frames_in_order new
           \<and> length (published new) = fragment_count len maxPL
           \<and> (maxPL mod FrameAlignment = 0 \<and> 0 \<le> len \<and> in_i32 (capacity (termBuffer ap))
                \<and> requiredLength_spec len maxPL \<le> 2147483647 \<longrightarrow>
              frames_end (tailCounter ap mod 4294967296) (published new)
                = Some (capacity (termBuffer ap)))))"
proof (intro conjI impI)
  let ?low = "tailCounter ap mod 4294967296"
  let ?A = "AlignInt32 (i32 (len + Header_Length)) FrameAlignment"
  assume e: "?low + ?A = capacity (termBuffer ap)"
  then have fits: "?low + ?A \<le> capacity (termBuffer ap)" by simp
  show "\<exists>ap' r. Claim ap len c = (ap', r, Claim_Wrap (i32 ?low) (i32 (len + Header_Length)))
           \<and> result_termOffset r = capacity (termBuffer ap)
           \<and> result_termOffset r \<noteq> AppenderTripped \<and> result_termOffset r \<noteq> AppenderFailed
           \<and> calls (termBuffer ap') = calls (termBuffer ap)
               @ header_calls (headerWriter ap) (i32 ?low) (i32 (len + Header_Length))
                   (TermID (tailCounter ap))"
    using assms e
    by (simp add: Claim_fits [OF fits] calls_headerWriter_write AppenderTripped_def
        AppenderFailed_def)
  have u: "AppendUnfragmentedMessage ap src srcOffset len rvs
      = (fst (AppendUnfragmentedMessage ap src srcOffset len rvs),
         \<lparr>result_termOffset = ?low + ?A, result_termID = TermID (tailCounter ap)\<rparr>)"
    by (simp add: AppendUnfragmentedMessage_fits [OF fits])
  have l: "frame_length (mem (termBuffer (fst (AppendUnfragmentedMessage ap src srcOffset len rvs))))
      (i32 ?low) = i32 (len + Header_Length)"
    by (simp add: AppendUnfragmentedMessage_fits_buffer [OF fits] Let_def
        frame_length_FrameLengthOrdered i32_idem)
  from u l calls_AppendUnfragmentedMessage_fits [OF fits, of src srcOffset rvs] assms e
  show "\<exists>ap' r cs. AppendUnfragmentedMessage ap src srcOffset len rvs = (ap', r)
           \<and> result_termOffset r = capacity (termBuffer ap)
           \<and> result_termOffset r \<noteq> AppenderTripped \<and> result_termOffset r \<noteq> AppenderFailed
           \<and> calls (termBuffer ap') = calls (termBuffer ap)
               @ header_calls (headerWriter ap) (i32 ?low) (i32 (len + Header_Length))
                   (TermID (tailCounter ap))
               @ cs
               @ [Call_FrameLengthOrdered (i32 ?low) (i32 (len + Header_Length))]
           \<and> frame_length (mem (termBuffer ap')) (i32 ?low) = i32 (len + Header_Length)"
    by (intro exI [of _ "fst (AppendUnfragmentedMessage ap src srcOffset len rvs)"]
        exI [of _ "\<lparr>result_termOffset = ?low + ?A, result_termID = TermID (tailCounter ap)\<rparr>"]
        exI [of _ "Call_PutBytes (i32 (i32 ?low + Header_Length)) (src_bytes src srcOffset len)
           # (case rvs of None \<Rightarrow> []
              | Some supplier \<Rightarrow>
                [Call_PutInt64 (i32 (i32 ?low + ReservedValueFieldOffset))
                   (i64 (supplier
                      (frame_with_payload (headerWriter ap) (termBuffer ap) src srcOffset len
                         (i32 ?low) (TermID (tailCounter ap)))
                      (i32 ?low) (i32 (len + Header_Length))))])"])
      (simp add: AppenderTripped_def AppenderFailed_def)
next
  let ?low = "tailCounter ap mod 4294967296"
  let ?R = "fragmented_requiredLength len maxPL"
  assume a: "0 < maxPL \<and> in_i32 len \<and> ?low + ?R = capacity (termBuffer ap)"
  then have m: "0 < maxPL" and i: "in_i32 len" and e: "?low + ?R = capacity (termBuffer ap)"
    by simp_all
  from e have fits: "?low + ?R \<le> capacity (termBuffer ap)" by simp
  from fragment_loop_run [OF m i, of "headerWriter ap" src srcOffset len f
      "TermID (tailCounter ap)" "termBuffer ap" beginFrag "i32 ?low"]
  obtain b' new where
    l: "fragment_loop (headerWriter ap) src srcOffset len maxPL (Some f) (TermID (tailCounter ap))
          (termBuffer ap) beginFrag len (i32 ?low) = Some (Inr b')"
    and c: "calls b' = calls (termBuffer ap) @ new"
    and o: "frames_in_order new"
    and n: "length (published new) = fragment_count len maxPL"
    by (elim conjE exE) (rule that)
  let ?ap' = "ap\<lparr>tailCounter := i64 (tailCounter ap + ?R),
      tailCalls := tailCalls ap @ [Call_GetAndAddInt64 ?R], termBuffer := b'\<rparr>"
  let ?r = "\<lparr>result_termOffset = ?low + ?R, result_termID = TermID (tailCounter ap)\<rparr>"
  from m l have g: "AppendFragmentedMessage ap src srcOffset len maxPL (Some f)
      = Some (Inr (?ap', ?r))"
    by (simp add: AppendFragmentedMessage_fits [OF _ fits])
  have t: "maxPL mod FrameAlignment = 0 \<and> 0 \<le> len \<and> in_i32 (capacity (termBuffer ap))
        \<and> requiredLength_spec len maxPL \<le> 2147483647 \<longrightarrow>
      frames_end ?low (published new) = Some (capacity (termBuffer ap))"
  proof
    assume b: "maxPL mod FrameAlignment = 0 \<and> 0 \<le> len \<and> in_i32 (capacity (termBuffer ap))
        \<and> requiredLength_spec len maxPL \<le> 2147483647"
    then have b1: "maxPL mod 32 = 0" and b2: "0 \<le> len"
      and b3: "in_i32 (capacity (termBuffer ap))"
      and b4: "requiredLength_spec len maxPL \<le> 2147483647"
      by (simp_all add: FrameAlignment_def)
    from fragments_fill_reservation [OF m b1 b2 b3 b4 fits, of src srcOffset f]
    obtain ap2 r2 new2 where
      g2: "AppendFragmentedMessage ap src srcOffset len maxPL (Some f) = Some (Inr (ap2, r2))"
      and c2: "calls (termBuffer ap2) = calls (termBuffer ap) @ new2"
      and t2: "frames_end ?low (published new2) = Some (result_termOffset r2)"
      by (elim conjE exE) (rule that)
    from g g2 have q: "ap2 = ?ap'" "r2 = ?r" by simp_all
    from c2 c have "new2 = new" unfolding q by simp
    with t2 e show "frames_end ?low (published new) = Some (capacity (termBuffer ap))"
      unfolding q by simp
  qed
  from e assms have s: "result_termOffset ?r = capacity (termBuffer ap)"
    "result_termOffset ?r \<noteq> AppenderTripped" "result_termOffset ?r \<noteq> AppenderFailed"
    by (simp_all add: AppenderTripped_def AppenderFailed_def)
  have c': "calls (termBuffer ?ap') = calls (termBuffer ap) @ new" using c by simp
  show "\<exists>ap' r new.
           AppendFragmentedMessage ap src srcOffset len maxPL (Some f) = Some (Inr (ap', r))
           \<and> result_termOffset r = capacity (termBuffer ap)
           \<and> result_termOffset r \<noteq> AppenderTripped \<and> result_termOffset r \<noteq> AppenderFailed
           \<and> calls (termBuffer ap') = calls (termBuffer ap) @ new
           \<and> frames_in_order new
           \<and> length (published new) = fragment_count len maxPL
           \<and> (maxPL mod FrameAlignment = 0 \<and> 0 \<le> len \<and> in_i32 (capacity (termBuffer ap))
                \<and> requiredLength_spec len maxPL \<le> 2147483647 \<longrightarrow>
              frames_end ?low (published new) = Some (capacity (termBuffer ap)))"
    by (intro exI [of _ ?ap'] exI [of _ ?r] exI [of _ new] conjI g s c' o n t)
qed

theorem exact_fill_succeeds_witness:
  "(0 \<le> capacity (termBuffer (scenario_appender 128 64))
     \<and> tailCounter (scenario_appender 128 64) mod 4294967296
          + AlignInt32 (i32 (10 + Header_Length)) FrameAlignment
          = capacity (termBuffer (scenario_appender 128 64)))
   \<and> (\<exists>ap' r. Claim (scenario_appender 128 64) 10 (Claim_Wrap 0 0) = (ap', r, Claim_Wrap 64 42)
       \<and> result_termOffset r = 128)
   \<and> (\<exists>ap' r. AppendUnfragmentedMessage (scenario_appender 128 64) (\<lambda>a. 1) 0 10 None = (ap', r)
       \<and> result_termOffset r = 128
       \<and> frame_length (mem (termBuffer ap')) 64 = 42)
   \<and> ((0::int) < 32 \<and> in_i32 100
       \<and> tailCounter (scenario_appender 256 0) mod 4294967296 + fragmented_requiredLength 100 32
           = capacity (termBuffer (scenario_appender 256 0)))
   \<and> (\<exists>ap' r new. AppendFragmentedMessage (scenario_appender 256 0) (\<lambda>a. 1) 0 100 32
            (Some DefaultReservedValueSupplier) = Some (Inr (ap', r))
       \<and> result_termOffset r = 256
       \<and> calls (termBuffer ap') = new
       \<and> frames_in_order new
       \<and> length (published new) = 4
       \<and> frames_end 0 (published new) = Some 256)"
proof -
  let ?ap = "scenario_appender 128 64"
  let ?ap2 = "scenario_appender 256 0"
  have A: "AlignInt32 (i32 (10 + Header_Length)) FrameAlignment = 64"
    by (simp add: scenario_simps)
  have R: "fragmented_requiredLength 100 32 = 256"
    by (simp add: fragmented_requiredLength_def quo32_def rem32_def scenario_simps)
  have S: "requiredLength_spec 100 32 = 256"
    by (simp add: requiredLength_spec_def align_up_def Header_Length_def FrameAlignment_def)
  have N: "fragment_count 100 32 = 4"
    by (simp add: fragment_count_def)
  have v: "i32 (tailCounter ?ap mod 4294967296) = 64" "i32 (10 + Header_Length) = 42"
    "capacity (termBuffer ?ap) = 128" "capacity (termBuffer ?ap2) = 256"
    "tailCounter ?ap2 mod 4294967296 = 0" "calls (termBuffer ?ap2) = []"
    by (simp_all add: scenario_simps)
  have h: "0 \<le> capacity (termBuffer ?ap)" "0 \<le> capacity (termBuffer ?ap2)"
    by (simp_all add: scenario_appender_def)
  have e: "tailCounter ?ap mod 4294967296 + AlignInt32 (i32 (10 + Header_Length)) FrameAlignment
      = capacity (termBuffer ?ap)"
    by (simp add: A scenario_appender_def)
  have e2: "(0::int) < 32 \<and> in_i32 100
      \<and> tailCounter ?ap2 mod 4294967296 + fragmented_requiredLength 100 32
          = capacity (termBuffer ?ap2)"
    by (simp add: R scenario_appender_def in_i32_def)
  have e3: "(32::int) mod FrameAlignment = 0 \<and> (0::int) \<le> 100 \<and> in_i32 (capacity (termBuffer ?ap2))
      \<and> requiredLength_spec 100 32 \<le> 2147483647"
    by (simp add: S scenario_appender_def in_i32_def FrameAlignment_def)
  note T = exact_fill_succeeds [OF h(1), where len = 10 and c = "Claim_Wrap 0 0"
      and src = "\<lambda>a. 1" and srcOffset = 0 and rvs = None and maxPL = 32]
  note T2 = exact_fill_succeeds [OF h(2), where len = 100 and maxPL = 32 and src = "\<lambda>a. 1"
      and srcOffset = 0 and f = DefaultReservedValueSupplier]
  from T [THEN conjunct1, THEN mp, OF e]
  obtain ap1 r1 ap3 r3 where
    c: "Claim ?ap 10 (Claim_Wrap 0 0)
          = (ap1, r1, Claim_Wrap (i32 (tailCounter ?ap mod 4294967296)) (i32 (10 + Header_Length)))"
      "result_termOffset r1 = capacity (termBuffer ?ap)"
    and u: "AppendUnfragmentedMessage ?ap (\<lambda>a. 1) 0 10 None = (ap3, r3)"
      "result_termOffset r3 = capacity (termBuffer ?ap)"
      "frame_length (mem (termBuffer ap3)) (i32 (tailCounter ?ap mod 4294967296))
         = i32 (10 + Header_Length)"
    by (elim conjE exE) (rule that)
  from T2 [THEN conjunct2, THEN mp, OF e2]
  obtain ap4 r4 new where
    g: "AppendFragmentedMessage ?ap2 (\<lambda>a. 1) 0 100 32 (Some DefaultReservedValueSupplier)
          = Some (Inr (ap4, r4))"
      "result_termOffset r4 = capacity (termBuffer ?ap2)"
      "calls (termBuffer ap4) = calls (termBuffer ?ap2) @ new"
      "frames_in_order new"
      "length (published new) = fragment_count 100 32"
    and t: "(32::int) mod FrameAlignment = 0 \<and> (0::int) \<le> 100 \<and> in_i32 (capacity (termBuffer ?ap2))
        \<and> requiredLength_spec 100 32 \<le> 2147483647 \<longrightarrow>
      frames_end (tailCounter ?ap2 mod 4294967296) (published new)
        = Some (capacity (termBuffer ?ap2))"
    by (elim conjE exE) (rule that)
  from t [THEN mp, OF e3] have t': "frames_end 0 (published new) = Some 256"
    unfolding v .
  have p1: "\<exists>ap' r. Claim ?ap 10 (Claim_Wrap 0 0) = (ap', r, Claim_Wrap 64 42)
       \<and> result_termOffset r = 128"
    using c unfolding v by (intro exI [of _ ap1] exI [of _ r1]) simp
  have p2: "\<exists>ap' r. AppendUnfragmentedMessage ?ap (\<lambda>a. 1) 0 10 None = (ap', r)
       \<and> result_termOffset r = 128
       \<and> frame_length (mem (termBuffer ap')) 64 = 42"
    using u unfolding v by (intro exI [of _ ap3] exI [of _ r3]) simp
  have p3: "\<exists>ap' r new. AppendFragmentedMessage ?ap2 (\<lambda>a. 1) 0 100 32
            (Some DefaultReservedValueSupplier) = Some (Inr (ap', r))
       \<and> result_termOffset r = 256
       \<and> calls (termBuffer ap') = new
       \<and> frames_in_order new
       \<and> length (published new) = 4
       \<and> frames_end 0 (published new) = Some 256"
    using g t' unfolding v N by (intro exI [of _ ap4] exI [of _ r4] exI [of _ new]) simp
  show ?thesis by (rule conjI [OF conjI [OF h(1) e] conjI [OF p1 conjI [OF p2 conjI [OF e2 p3]]]])
qed

section \<open>The fragments of a message\<close>

text \<open>
  C4. For a message longer than one payload (\<open>0 < maxPayloadLength < length\<close>) whose
  reservation fits and whose supplier is not nil, \<open>AppendFragmentedMessage\<close> publishes
  exactly \<open>n\<close> frames, \<open>n\<close> the least number with \<open>length \<le> n * maxPayloadLength\<close>; every
  frame has one payload copy at its offset plus the header length, its length is the
  header length plus the length copied, and the copied lengths add up to \<open>length\<close>. Every
  frame has its flags set once, after the header write of that frame, the first to
  \<open>beginFrag\<close> (0x80, without the 0x40 bit), the last to \<open>endFrag\<close> (0x40), all between
  to 0. Read back from the term buffer after the append, the flags byte of the first frame
  is 0x80, of the last 0x40 and of every frame between 0, and the length field of every
  frame holds its published length; this is for frames that, at their aligned lengths,
  stay within the 32-bit offsets (\<open>frames_span\<close> is the length they take, from the start of
  the reservation to the end of the last frame).
\<close>

theorem fragmented_message_frames:
  assumes "0 < maxPL" "maxPL < len" "in_i32 len"
    and "tailCounter ap mod 4294967296 + fragmented_requiredLength len maxPL
           \<le> capacity (termBuffer ap)"
  shows "\<exists>ap' r new.
      AppendFragmentedMessage ap src srcOffset len maxPL (Some f) = Some (Inr (ap', r))
      \<and> calls (termBuffer ap') = calls (termBuffer ap) @ new
      \<and> int (length (published new)) = (len + maxPL - 1) div maxPL
      \<and> (int (length (published new)) - 1) * maxPL < len
      \<and> len \<le> int (length (published new)) * maxPL
      \<and> map fst (payload_calls new) = map (\<lambda>p. i32 (fst p + Header_Length)) (published new)
      \<and> (\<Sum>p\<leftarrow>payload_calls new. int (length (snd p))) = len
      \<and> map fst (flag_calls new) = map fst (published new)
      \<and> map snd (flag_calls new)
          = beginFrag # replicate (length (published new) - 2) 0 @ [endFrag]
      \<and> beginFrag = 128 \<and> endFrag = 64 \<and> beginFrag AND endFrag = 0
      \<and> frames_in_order new
      \<and> map snd (published new)
          = map (\<lambda>p. i32 (int (length (snd p)) + Header_Length)) (payload_calls new)
      \<and> (tailCounter ap mod 4294967296 + frames_span len maxPL \<le> 2147483647 \<longrightarrow>
           map (\<lambda>p. frame_flags (mem (termBuffer ap')) (fst p)) (published new)
             = beginFrag # replicate (length (published new) - 2) 0 @ [endFrag]
           \<and> map (\<lambda>p. frame_length (mem (termBuffer ap')) (fst p)) (published new)
             = map snd (published new)
           \<and> frames_end (tailCounter ap mod 4294967296) (published new)
             = Some (tailCounter ap mod 4294967296 + frames_span len maxPL))"
proof -
  let ?low = "tailCounter ap mod 4294967296"
  let ?R = "fragmented_requiredLength len maxPL"
  from fragment_loop_run [OF assms(1,3), of "headerWriter ap" src srcOffset len f
      "TermID (tailCounter ap)" "termBuffer ap" beginFrag "i32 ?low"]
  obtain b' new where
    l: "fragment_loop (headerWriter ap) src srcOffset len maxPL (Some f) (TermID (tailCounter ap))
          (termBuffer ap) beginFrag len (i32 ?low) = Some (Inr b')"
    and c: "calls b' = calls (termBuffer ap) @ new"
    and o: "frames_in_order new"
    and p: "length (published new) = fragment_count len maxPL"
    and q: "map fst (payload_calls new) = map (\<lambda>p. i32 (fst p + Header_Length)) (published new)"
    and u: "map snd (published new)
          = map (\<lambda>p. i32 (int (length (snd p)) + Header_Length)) (payload_calls new)"
    and s: "(\<Sum>p\<leftarrow>payload_calls new. int (length (snd p))) = max len 0"
    and a: "map fst (flag_calls new) = map fst (published new)"
    and g: "map snd (flag_calls new) = expected_flags beginFrag (fragment_count len maxPL)"
    by (elim exE conjE) (rule that)
  note m = fragment_count_many [OF assms(1,2)]
  let ?ap' = "ap\<lparr>tailCounter := i64 (tailCounter ap + ?R),
      tailCalls := tailCalls ap @ [Call_GetAndAddInt64 ?R], termBuffer := b'\<rparr>"
  let ?r = "\<lparr>result_termOffset = ?low + ?R, result_termID = TermID (tailCounter ap)\<rparr>"
  have n: "int (length (published new)) = (len + maxPL - 1) div maxPL"
    using p m(2) by simp
  have r: "AppendFragmentedMessage ap src srcOffset len maxPL (Some f) = Some (Inr (?ap', ?r))"
    using assms(1) l by (simp add: AppendFragmentedMessage_fits [OF _ assms(4)])
  have c': "calls (termBuffer ?ap') = calls (termBuffer ap) @ new"
    using c by simp
  have b: "(int (length (published new)) - 1) * maxPL < len"
    "len \<le> int (length (published new)) * maxPL"
    unfolding n using ceil_div_bounds [OF assms(1), of len] by simp_all
  have s': "(\<Sum>p\<leftarrow>payload_calls new. int (length (snd p))) = len"
    using s assms(1,2) by simp
  have x: "expected_flags beginFrag (fragment_count len maxPL)
      = beginFrag # replicate (length (published new) - 2) 0 @ [endFrag]"
    using p expected_flags_many [OF m(1)] by simp
  have g': "map snd (flag_calls new)
      = beginFrag # replicate (length (published new) - 2) 0 @ [endFrag]"
    using g x by simp
  have k: "beginFrag = 128" "endFrag = 64" "beginFrag AND endFrag = 0"
    by (simp_all add: beginFrag_def endFrag_def)
  have t: "?low + frames_span len maxPL \<le> 2147483647 \<longrightarrow>
      map (\<lambda>p. frame_flags (mem (termBuffer ?ap')) (fst p)) (published new)
        = beginFrag # replicate (length (published new) - 2) 0 @ [endFrag]
      \<and> map (\<lambda>p. frame_length (mem (termBuffer ?ap')) (fst p)) (published new)
        = map snd (published new)
      \<and> frames_end ?low (published new) = Some (?low + frames_span len maxPL)"
  proof
    assume h: "?low + frames_span len maxPL \<le> 2147483647"
    have l0: "0 \<le> ?low" using low32_range [of "tailCounter ap"] by simp
    have "0 \<le> frames_span len maxPL" using assms(1) by (rule frames_span_nonneg)
    with h l0 have "in_i32 ?low" unfolding in_i32_def by linarith
    then have e: "i32 ?low = ?low" by (rule i32_id)
    have len0: "0 \<le> len" using assms(1,2) by simp
    have fb: "beginFrag = beginFrag \<or> beginFrag = 0" by simp
    from fragment_loop_memory [OF assms(1) len0 assms(3) l0 h fb, of "headerWriter ap" src
        srcOffset len f "TermID (tailCounter ap)" "termBuffer ap"]
    obtain b2 new2 where
      l2: "fragment_loop (headerWriter ap) src srcOffset len maxPL (Some f)
            (TermID (tailCounter ap)) (termBuffer ap) beginFrag len ?low = Some (Inr b2)"
      and c2: "calls b2 = calls (termBuffer ap) @ new2"
      and g2: "map (\<lambda>p. frame_flags (mem b2) (fst p)) (published new2)
          = expected_flags beginFrag (fragment_count len maxPL)"
      and d2: "map (\<lambda>p. frame_length (mem b2) (fst p)) (published new2) = map snd (published new2)"
      and e2: "frames_end ?low (published new2) = Some (?low + frames_span len maxPL)"
      by (elim exE conjE) (rule that)
    from l l2 have be: "b2 = b'" unfolding e by simp
    from c c2 have ne: "new2 = new" unfolding be by simp
    from g2 d2 e2 x show "map (\<lambda>p. frame_flags (mem (termBuffer ?ap')) (fst p)) (published new)
        = beginFrag # replicate (length (published new) - 2) 0 @ [endFrag]
      \<and> map (\<lambda>p. frame_length (mem (termBuffer ?ap')) (fst p)) (published new)
        = map snd (published new)
      \<and> frames_end ?low (published new) = Some (?low + frames_span len maxPL)"
      unfolding be ne by simp
  qed
  show ?thesis
    by (intro exI [of _ ?ap'] exI [of _ ?r] exI [of _ new] conjI r c' n b q s' a g' k o u t)
qed

theorem fragmented_message_frames_witness:
  "((0::int) < 32 \<and> (32::int) < 100 \<and> in_i32 100
     \<and> tailCounter (scenario_appender 1024 0) mod 4294967296 + fragmented_requiredLength 100 32
          \<le> capacity (termBuffer (scenario_appender 1024 0)))
   \<and> tailCounter (scenario_appender 1024 0) mod 4294967296 + frames_span 100 32 \<le> 2147483647
   \<and> (\<exists>ap' r new.
        AppendFragmentedMessage (scenario_appender 1024 0) (\<lambda>a. 1) 0 100 32
          (Some DefaultReservedValueSupplier) = Some (Inr (ap', r))
        \<and> calls (termBuffer ap') = new
        \<and> length (published new) = 4
        \<and> (\<Sum>p\<leftarrow>payload_calls new. int (length (snd p))) = 100
        \<and> map snd (flag_calls new) = [128, 0, 0, 64]
        \<and> map (\<lambda>p. frame_flags (mem (termBuffer ap')) (fst p)) (published new)
            = [128, 0, 0, 64])"
proof -
  let ?ap = "scenario_appender 1024 0"
  have R: "fragmented_requiredLength 100 32 = 256"
    by (simp add: fragmented_requiredLength_def quo32_def rem32_def scenario_simps)
  have S: "frames_span 100 32 = 256"
    by (simp add: frames_span_def align_up_def Header_Length_def FrameAlignment_def)
  have h: "(0::int) < 32" "(32::int) < 100" "in_i32 100"
    "tailCounter ?ap mod 4294967296 + fragmented_requiredLength 100 32 \<le> capacity (termBuffer ?ap)"
    by (simp_all add: R scenario_appender_def in_i32_def)
  have h2: "tailCounter ?ap mod 4294967296 + frames_span 100 32 \<le> 2147483647"
    by (simp add: S scenario_appender_def)
  from fragmented_message_frames [OF h, of "\<lambda>a. 1" 0 DefaultReservedValueSupplier]
  obtain ap' r new where
    a: "AppendFragmentedMessage ?ap (\<lambda>a. 1) 0 100 32 (Some DefaultReservedValueSupplier)
          = Some (Inr (ap', r))"
    and c: "calls (termBuffer ap') = calls (termBuffer ?ap) @ new"
    and n: "int (length (published new)) = (100 + 32 - 1) div 32"
    and s: "(\<Sum>p\<leftarrow>payload_calls new. int (length (snd p))) = 100"
    and g: "map snd (flag_calls new)
          = beginFrag # replicate (length (published new) - 2) 0 @ [endFrag]"
    and t: "tailCounter ?ap mod 4294967296 + frames_span 100 32 \<le> 2147483647 \<longrightarrow>
           map (\<lambda>p. frame_flags (mem (termBuffer ap')) (fst p)) (published new)
             = beginFrag # replicate (length (published new) - 2) 0 @ [endFrag]
           \<and> map (\<lambda>p. frame_length (mem (termBuffer ap')) (fst p)) (published new)
             = map snd (published new)
           \<and> frames_end (tailCounter ?ap mod 4294967296) (published new)
             = Some (tailCounter ?ap mod 4294967296 + frames_span 100 32)"
    by (elim exE conjE) (rule that)
  from n have n': "length (published new) = 4" by simp
  have c': "calls (termBuffer ap') = new"
    using c by (simp add: scenario_appender_def)
  have v: "replicate (4 - 2) (0::int) = [0, 0]" by (simp add: numeral_2_eq_2)
  with g n' have g': "map snd (flag_calls new) = [128, 0, 0, 64]"
    by (simp add: beginFrag_def endFrag_def)
  from t [THEN mp, OF h2, THEN conjunct1] n' v
  have t': "map (\<lambda>p. frame_flags (mem (termBuffer ap')) (fst p)) (published new)
      = [128, 0, 0, 64]"
    by (simp add: beginFrag_def endFrag_def)
  from a c' n' s g' t' have "\<exists>ap' r new.
        AppendFragmentedMessage (scenario_appender 1024 0) (\<lambda>a. 1) 0 100 32
          (Some DefaultReservedValueSupplier) = Some (Inr (ap', r))
        \<and> calls (termBuffer ap') = new
        \<and> length (published new) = 4
        \<and> (\<Sum>p\<leftarrow>payload_calls new. int (length (snd p))) = 100
        \<and> map snd (flag_calls new) = [128, 0, 0, 64]
        \<and> map (\<lambda>p. frame_flags (mem (termBuffer ap')) (fst p)) (published new)
            = [128, 0, 0, 64]"
    by (intro exI [of _ ap'] exI [of _ r] exI [of _ new] conjI)
  with h h2 show ?thesis by (intro conjI)
qed

section \<open>The reservation of a fragmented message\<close>

text \<open>
  C5 (counterexample). With \<open>maxPayloadLength = 20\<close> a message of 50 bytes at the start of
  a term of 256 bytes fits: one fetch-and-add reserves 168 bytes, the required length of
  the formula. Its three frames, 52, 52 and 42 bytes long, are written at 0, 64 and 128,
  each taking its aligned length: the last frame ends at 170 and the offset after it is
  192, both beyond the 168 bytes reserved.
\<close>

theorem fragmented_reservation_counterexample:
  "tailCounter (scenario_appender 256 0) mod 4294967296 + fragmented_requiredLength 50 20
      \<le> capacity (termBuffer (scenario_appender 256 0))
   \<and> requiredLength_spec 50 20 = 168
   \<and> (case AppendFragmentedMessage (scenario_appender 256 0) (\<lambda>a. 1) 0 50 20
              (Some DefaultReservedValueSupplier) of
         Some (Inr (ap', r)) \<Rightarrow>
           (tailCalls ap', tailCounter ap', published (calls (termBuffer ap')))
       | _ \<Rightarrow> ([], 0, []))
       = ([Call_GetAndAddInt64 168], 168, [(0, 52), (64, 52), (128, 42)])
   \<and> frames_end 0 [(0, 52), (64, 52), (128, 42)] = Some 192"
proof -
  let ?ap = "scenario_appender 256 0"
  have R: "fragmented_requiredLength 50 20 = 168"
    by (simp add: fragmented_requiredLength_def quo32_def rem32_def scenario_simps)
  have S: "requiredLength_spec 50 20 = 168"
    by (simp add: requiredLength_spec_def align_up_def Header_Length_def FrameAlignment_def)
  have fits: "tailCounter ?ap mod 4294967296 + fragmented_requiredLength 50 20
      \<le> capacity (termBuffer ?ap)"
    by (simp add: R scenario_appender_def)
  have v: "tailCounter ?ap mod 4294967296 = 0" "calls (termBuffer ?ap) = []"
    "tailCalls ?ap = []" "tailCounter ?ap = 0"
    by (simp_all add: scenario_appender_def)
  have a: "AlignInt32 (i32 (20 + Header_Length)) FrameAlignment = 64"
    "AlignInt32 (i32 (10 + Header_Length)) FrameAlignment = 64"
    "AlignInt32 52 FrameAlignment = 64" "AlignInt32 42 FrameAlignment = 64"
    "i32 (20 + Header_Length) = 52" "i32 (10 + Header_Length) = 42"
    "i32 30 = 30" "i32 10 = 10" "i32 64 = 64" "i32 128 = 128" "i32 192 = 192"
    by (simp_all add: scenario_simps)
  define b1 where "b1 = fragment_written (headerWriter ?ap) (\<lambda>a. 1) 0 50 20
      DefaultReservedValueSupplier (TermID (tailCounter ?ap)) (termBuffer ?ap) beginFrag 50 0"
  define b2 where "b2 = fragment_written (headerWriter ?ap) (\<lambda>a. 1) 0 50 20
      DefaultReservedValueSupplier (TermID (tailCounter ?ap)) b1 0 30 64"
  define b3 where "b3 = fragment_written (headerWriter ?ap) (\<lambda>a. 1) 0 50 20
      DefaultReservedValueSupplier (TermID (tailCounter ?ap)) b2 0 10 128"
  have l: "fragment_loop (headerWriter ?ap) (\<lambda>a. 1) 0 50 20 (Some DefaultReservedValueSupplier)
      (TermID (tailCounter ?ap)) (termBuffer ?ap) beginFrag 50 0 = Some (Inr b3)"
    by (simp add: fragment_loop_step fragment_loop_done a i32_zero b1_def b2_def b3_def)
  have p: "published (calls b3) = [(0, 52), (64, 52), (128, 42)]"
    by (simp add: b1_def b2_def b3_def calls_fragment_written published_append
        published_fragment_calls a v)
  have e: "frames_end 0 [(0, 52), (64, 52), (128, 42)] = Some 192"
    by (simp add: a)
  have "AppendFragmentedMessage ?ap (\<lambda>a. 1) 0 50 20 (Some DefaultReservedValueSupplier)
      = Some (Inr (?ap\<lparr>tailCounter := i64 (tailCounter ?ap + 168),
             tailCalls := tailCalls ?ap @ [Call_GetAndAddInt64 168], termBuffer := b3\<rparr>,
           \<lparr>result_termOffset = 168, result_termID = TermID (tailCounter ?ap)\<rparr>))"
    using l by (simp add: AppendFragmentedMessage_fits [OF _ fits] R v i32_zero)
  with p have "(case AppendFragmentedMessage ?ap (\<lambda>a. 1) 0 50 20
              (Some DefaultReservedValueSupplier) of
         Some (Inr (ap', r)) \<Rightarrow>
           (tailCalls ap', tailCounter ap', published (calls (termBuffer ap')))
       | _ \<Rightarrow> ([], 0, []))
       = ([Call_GetAndAddInt64 168], 168, [(0, 52), (64, 52), (128, 42)])"
    by (simp add: v i64_id in_i64_def)
  with fits S e show ?thesis by (intro conjI)
qed

text \<open>
  C5 (amended). For a valid length and payload size (nothing overflows 32 bits) the length
  that \<open>AppendFragmentedMessage\<close> reserves is the one of the specification: the number of
  full payloads \<open>length div maxPayloadLength\<close> times \<open>maxPayloadLength + headerSize\<close>,
  plus, when the remainder \<open>length mod maxPayloadLength\<close> is not zero, the remainder plus
  the header size rounded up to the frame alignment. Whatever its outcome, the operation
  calls the fetch-and-add of the tail counter exactly once, with this length. When the
  frame alignment divides \<open>maxPayloadLength\<close> and the reservation fits, the reserved range
  covers all fragments: one frame per fragment is published, the frames lie back to back
  from the start of the reservation, each taking its aligned length, and end where the
  reservation ends.
\<close>

theorem fragmented_reservation:
  assumes "0 \<le> len" "len \<le> 2147483647" "0 < maxPL" "in_i32 maxPL"
    and "requiredLength_spec len maxPL \<le> 2147483647"
  shows "fragmented_requiredLength len maxPL = requiredLength_spec len maxPL
     \<and> (\<exists>res. AppendFragmentedMessage ap src srcOffset len maxPL rvs = Some res
           \<and> tailCalls (case res of Inl (p, ap') \<Rightarrow> ap' | Inr (ap', r) \<Rightarrow> ap')
               = tailCalls ap @ [Call_GetAndAddInt64 (requiredLength_spec len maxPL)]
           \<and> tailCounter (case res of Inl (p, ap') \<Rightarrow> ap' | Inr (ap', r) \<Rightarrow> ap')
               = i64 (tailCounter ap + requiredLength_spec len maxPL))
     \<and> (maxPL mod FrameAlignment = 0 \<and> in_i32 (capacity (termBuffer ap))
          \<and> tailCounter ap mod 4294967296 + requiredLength_spec len maxPL
              \<le> capacity (termBuffer ap) \<longrightarrow>
         (\<exists>ap' r new.
            AppendFragmentedMessage ap src srcOffset len maxPL (Some f) = Some (Inr (ap', r))
            \<and> calls (termBuffer ap') = calls (termBuffer ap) @ new
            \<and> length (published new) = fragment_count len maxPL
            \<and> frames_end (tailCounter ap mod 4294967296) (published new)
                = Some (tailCounter ap mod 4294967296 + requiredLength_spec len maxPL)))"
proof (intro conjI impI)
  show e: "fragmented_requiredLength len maxPL = requiredLength_spec len maxPL"
    using assms(1,2,3,5) by (rule fragmented_requiredLength_spec)
  let ?low = "tailCounter ap mod 4294967296"
  let ?R = "fragmented_requiredLength len maxPL"
  have m: "maxPL \<noteq> 0" using assms(3) by simp
  have i: "in_i32 len" using assms(1,2) by (simp add: in_i32_def)
  have "\<exists>res. AppendFragmentedMessage ap src srcOffset len maxPL rvs = Some res
           \<and> tailCalls (case res of Inl (p, ap') \<Rightarrow> ap' | Inr (ap', r) \<Rightarrow> ap')
               = tailCalls ap @ [Call_GetAndAddInt64 ?R]
           \<and> tailCounter (case res of Inl (p, ap') \<Rightarrow> ap' | Inr (ap', r) \<Rightarrow> ap')
               = i64 (tailCounter ap + ?R)"
  proof (cases "?low + ?R \<le> capacity (termBuffer ap)")
    case True
    from fragment_loop_total [OF m assms(4) i] obtain res where
      "fragment_loop (headerWriter ap) src srcOffset len maxPL rvs (TermID (tailCounter ap))
         (termBuffer ap) beginFrag len (i32 ?low) = Some res"
      by blast
    then show ?thesis
      using True by (cases res) (auto simp: AppendFragmentedMessage_fits [OF m])
  next
    case False
    then show ?thesis by (simp add: AppendFragmentedMessage_overrun [OF m])
  qed
  then show "\<exists>res. AppendFragmentedMessage ap src srcOffset len maxPL rvs = Some res
           \<and> tailCalls (case res of Inl (p, ap') \<Rightarrow> ap' | Inr (ap', r) \<Rightarrow> ap')
               = tailCalls ap @ [Call_GetAndAddInt64 (requiredLength_spec len maxPL)]
           \<and> tailCounter (case res of Inl (p, ap') \<Rightarrow> ap' | Inr (ap', r) \<Rightarrow> ap')
               = i64 (tailCounter ap + requiredLength_spec len maxPL)"
    unfolding e .
next
  let ?low = "tailCounter ap mod 4294967296"
  let ?R = "fragmented_requiredLength len maxPL"
  assume a: "maxPL mod FrameAlignment = 0 \<and> in_i32 (capacity (termBuffer ap))
      \<and> ?low + requiredLength_spec len maxPL \<le> capacity (termBuffer ap)"
  have e: "?R = requiredLength_spec len maxPL"
    using assms(1,2,3,5) by (rule fragmented_requiredLength_spec)
  from a have a1: "maxPL mod 32 = 0" and a2: "in_i32 (capacity (termBuffer ap))"
    and fits: "?low + ?R \<le> capacity (termBuffer ap)"
    by (simp_all add: FrameAlignment_def e)
  have i: "in_i32 len" using assms(1,2) by (simp add: in_i32_def)
  from fragments_fill_reservation [OF assms(3) a1 assms(1) a2 assms(5) fits, of src srcOffset f]
  obtain ap' r new where
    g: "AppendFragmentedMessage ap src srcOffset len maxPL (Some f) = Some (Inr (ap', r))"
    and c: "calls (termBuffer ap') = calls (termBuffer ap) @ new"
    and t: "frames_end ?low (published new) = Some (result_termOffset r)"
    by (elim conjE exE) (rule that)
  from fragment_loop_run [OF assms(3) i, of "headerWriter ap" src srcOffset len f
      "TermID (tailCounter ap)" "termBuffer ap" beginFrag "i32 ?low"]
  obtain b2 new2 where
    l2: "fragment_loop (headerWriter ap) src srcOffset len maxPL (Some f) (TermID (tailCounter ap))
          (termBuffer ap) beginFrag len (i32 ?low) = Some (Inr b2)"
    and c2: "calls b2 = calls (termBuffer ap) @ new2"
    and n2: "length (published new2) = fragment_count len maxPL"
    by (elim conjE exE) (rule that)
  have m: "maxPL \<noteq> 0" using assms(3) by simp
  from l2 g have q: "termBuffer ap' = b2" "result_termOffset r = ?low + ?R"
    by (auto simp: AppendFragmentedMessage_fits [OF m fits])
  from c c2 have "new2 = new" unfolding q by simp
  with n2 have n: "length (published new) = fragment_count len maxPL" by simp
  from t have t': "frames_end ?low (published new) = Some (?low + requiredLength_spec len maxPL)"
    unfolding q e .
  show "\<exists>ap' r new.
            AppendFragmentedMessage ap src srcOffset len maxPL (Some f) = Some (Inr (ap', r))
            \<and> calls (termBuffer ap') = calls (termBuffer ap) @ new
            \<and> length (published new) = fragment_count len maxPL
            \<and> frames_end ?low (published new)
                = Some (?low + requiredLength_spec len maxPL)"
    by (intro exI [of _ ap'] exI [of _ r] exI [of _ new] conjI g c n t')
qed

theorem fragmented_reservation_witness:
  "((0::int) \<le> 100 \<and> (100::int) \<le> 2147483647 \<and> (0::int) < 32 \<and> in_i32 32
      \<and> requiredLength_spec 100 32 \<le> 2147483647)
   \<and> fragmented_requiredLength 100 32 = 256
   \<and> requiredLength_spec 100 32 = 3 * (32 + 32) + 64
   \<and> (\<exists>res. AppendFragmentedMessage (scenario_appender 1024 0) (\<lambda>a. 1) 0 100 32
               (Some DefaultReservedValueSupplier) = Some res
         \<and> tailCalls (case res of Inl (p, ap') \<Rightarrow> ap' | Inr (ap', r) \<Rightarrow> ap')
             = [Call_GetAndAddInt64 256]
         \<and> tailCounter (case res of Inl (p, ap') \<Rightarrow> ap' | Inr (ap', r) \<Rightarrow> ap') = 256)
   \<and> ((32::int) mod FrameAlignment = 0 \<and> in_i32 (capacity (termBuffer (scenario_appender 1024 0)))
        \<and> tailCounter (scenario_appender 1024 0) mod 4294967296 + requiredLength_spec 100 32
            \<le> capacity (termBuffer (scenario_appender 1024 0)))
   \<and> (\<exists>ap' r new.
         AppendFragmentedMessage (scenario_appender 1024 0) (\<lambda>a. 1) 0 100 32
           (Some DefaultReservedValueSupplier) = Some (Inr (ap', r))
         \<and> calls (termBuffer ap') = new
         \<and> length (published new) = 4
         \<and> frames_end 0 (published new) = Some 256)"
proof -
  let ?ap = "scenario_appender 1024 0"
  have S: "requiredLength_spec 100 32 = 256"
    by (simp add: requiredLength_spec_def align_up_def Header_Length_def FrameAlignment_def)
  have N: "fragment_count 100 32 = 4"
    by (simp add: fragment_count_def)
  have h: "(0::int) \<le> 100" "(100::int) \<le> 2147483647" "(0::int) < 32" "in_i32 32"
    "requiredLength_spec 100 32 \<le> 2147483647"
    by (simp_all add: S in_i32_def)
  have h2: "(32::int) mod FrameAlignment = 0 \<and> in_i32 (capacity (termBuffer ?ap))
        \<and> tailCounter ?ap mod 4294967296 + requiredLength_spec 100 32
            \<le> capacity (termBuffer ?ap)"
    by (simp add: S scenario_appender_def in_i32_def FrameAlignment_def)
  note T = fragmented_reservation [OF h, where ap = ?ap and src = "\<lambda>a. 1"
      and srcOffset = 0 and rvs = "Some DefaultReservedValueSupplier"
      and f = DefaultReservedValueSupplier]
  have a: "fragmented_requiredLength 100 32 = 256"
    using T [THEN conjunct1] S by simp
  have b: "requiredLength_spec 100 32 = 3 * (32 + 32) + 64"
    using S by simp
  from T [THEN conjunct2, THEN conjunct1]
  have c: "\<exists>res. AppendFragmentedMessage ?ap (\<lambda>a. 1) 0 100 32
               (Some DefaultReservedValueSupplier) = Some res
         \<and> tailCalls (case res of Inl (p, ap') \<Rightarrow> ap' | Inr (ap', r) \<Rightarrow> ap')
             = [Call_GetAndAddInt64 256]
         \<and> tailCounter (case res of Inl (p, ap') \<Rightarrow> ap' | Inr (ap', r) \<Rightarrow> ap') = 256"
    by (simp add: S scenario_appender_def i64_id in_i64_def)
  from T [THEN conjunct2, THEN conjunct2, THEN mp, OF h2]
  obtain ap' r new where
    g: "AppendFragmentedMessage ?ap (\<lambda>a. 1) 0 100 32 (Some DefaultReservedValueSupplier)
          = Some (Inr (ap', r))"
    "calls (termBuffer ap') = calls (termBuffer ?ap) @ new"
    "length (published new) = fragment_count 100 32"
    "frames_end (tailCounter ?ap mod 4294967296) (published new)
       = Some (tailCounter ?ap mod 4294967296 + requiredLength_spec 100 32)"
    by (elim conjE exE) (rule that)
  then have d: "\<exists>ap' r new.
         AppendFragmentedMessage ?ap (\<lambda>a. 1) 0 100 32 (Some DefaultReservedValueSupplier)
           = Some (Inr (ap', r))
         \<and> calls (termBuffer ap') = new
         \<and> length (published new) = 4
         \<and> frames_end 0 (published new) = Some 256"
    by (intro exI [of _ ap'] exI [of _ r] exI [of _ new])
      (simp add: S N scenario_appender_def)
  have h': "(0::int) \<le> 100 \<and> (100::int) \<le> 2147483647 \<and> (0::int) < 32 \<and> in_i32 32
      \<and> requiredLength_spec 100 32 \<le> 2147483647"
    using h by (intro conjI)
  show ?thesis
    by (rule conjI [OF h' conjI [OF a conjI [OF b conjI [OF c conjI [OF h2 d]]]]])
qed

section \<open>The reserved value\<close>

text \<open>
  C6. In a fitting \<open>AppendUnfragmentedMessage\<close> with a nil supplier the calls are the header
  write, the payload copy and the publication of the length, and the reserved value field
  of the frame holds what it held before; with a supplier \<open>f\<close>, \<open>f\<close> is applied to the
  term buffer (header and payload written), the frame's offset and the frame length, and
  its value is stored in the reserved value field after the payload copy and before the
  length is published.
\<close>

theorem reserved_value_step:
  assumes "tailCounter ap mod 4294967296 + AlignInt32 (i32 (len + Header_Length)) FrameAlignment
             \<le> capacity (termBuffer ap)"
    and "0 \<le> len" "len \<le> 2147483584" "in_i32 (capacity (termBuffer ap))"
  shows "(let offset = tailCounter ap mod 4294967296;
              frameLength = len + Header_Length;
              tb' = termBuffer (fst (AppendUnfragmentedMessage ap src srcOffset len None))
          in calls tb' = calls (termBuffer ap)
               @ header_calls (headerWriter ap) offset frameLength (TermID (tailCounter ap))
               @ [Call_PutBytes (offset + Header_Length) (src_bytes src srcOffset len),
                  Call_FrameLengthOrdered offset frameLength]
             \<and> GetInt64 (mem tb') (offset + ReservedValueFieldOffset)
                 = GetInt64 (mem (termBuffer ap)) (offset + ReservedValueFieldOffset))
     \<and> (let offset = tailCounter ap mod 4294967296;
              frameLength = len + Header_Length;
              b2 = PutBytes
                     (headerWriter_write (headerWriter ap) (termBuffer ap) offset frameLength
                        (TermID (tailCounter ap)))
                     (offset + Header_Length) src srcOffset len;
              tb' = termBuffer (fst (AppendUnfragmentedMessage ap src srcOffset len (Some f)))
          in calls tb' = calls (termBuffer ap)
               @ header_calls (headerWriter ap) offset frameLength (TermID (tailCounter ap))
               @ [Call_PutBytes (offset + Header_Length) (src_bytes src srcOffset len),
                  Call_PutInt64 (offset + ReservedValueFieldOffset) (i64 (f b2 offset frameLength)),
                  Call_FrameLengthOrdered offset frameLength]
             \<and> GetInt64 (mem tb') (offset + ReservedValueFieldOffset)
                 = i64 (f b2 offset frameLength))"
proof -
  note o = fitting_offsets [OF assms]
  let ?low = "tailCounter ap mod 4294967296"
  let ?fl = "len + Header_Length"
  let ?b2 = "PutBytes
      (headerWriter_write (headerWriter ap) (termBuffer ap) ?low ?fl (TermID (tailCounter ap)))
      (?low + Header_Length) src srcOffset len"
  have b2: "frame_with_payload (headerWriter ap) (termBuffer ap) src srcOffset len ?low
      (TermID (tailCounter ap)) = ?b2"
    by (simp add: frame_with_payload_def o)
  have m2: "load_le 8 (mem ?b2) (?low + ReservedValueFieldOffset)
      = load_le 8 (mem (termBuffer ap)) (?low + ReservedValueFieldOffset)"
    using assms(2)
    by (simp add: PutBytes_def put_simps load_le_store_outside length_src_bytes
        load_le_headerWriter_write_outside field_offsets)
  have cN: "calls (termBuffer (fst (AppendUnfragmentedMessage ap src srcOffset len None)))
      = calls (termBuffer ap)
        @ header_calls (headerWriter ap) ?low ?fl (TermID (tailCounter ap))
        @ [Call_PutBytes (?low + Header_Length) (src_bytes src srcOffset len),
           Call_FrameLengthOrdered ?low ?fl]"
    by (simp add: calls_AppendUnfragmentedMessage_fits [OF assms(1)] o)
  have mN: "GetInt64 (mem (termBuffer (fst (AppendUnfragmentedMessage ap src srcOffset len None))))
        (?low + ReservedValueFieldOffset)
      = GetInt64 (mem (termBuffer ap)) (?low + ReservedValueFieldOffset)"
    using m2
    by (simp add: AppendUnfragmentedMessage_fits_buffer [OF assms(1)] Let_def o b2 GetInt64_def
        FrameLengthOrdered_def put_simps load_le_store_outside length_le_bytes field_offsets
        o [unfolded field_offsets])
  have cS: "calls (termBuffer (fst (AppendUnfragmentedMessage ap src srcOffset len (Some f))))
      = calls (termBuffer ap)
        @ header_calls (headerWriter ap) ?low ?fl (TermID (tailCounter ap))
        @ [Call_PutBytes (?low + Header_Length) (src_bytes src srcOffset len),
           Call_PutInt64 (?low + ReservedValueFieldOffset) (i64 (f ?b2 ?low ?fl)),
           Call_FrameLengthOrdered ?low ?fl]"
    by (simp add: calls_AppendUnfragmentedMessage_fits [OF assms(1)] o b2)
  have mS: "GetInt64 (mem (termBuffer (fst (AppendUnfragmentedMessage ap src srcOffset len (Some f)))))
        (?low + ReservedValueFieldOffset) = i64 (f ?b2 ?low ?fl)"
    by (simp add: AppendUnfragmentedMessage_fits_buffer [OF assms(1)] Let_def o b2 GetInt64_def
        FrameLengthOrdered_def PutInt64_def put_simps load_le_store_outside length_le_bytes
        field_offsets o [unfolded field_offsets] load8 i64_mod i64_idem)
  from cN mN cS mS show ?thesis by (simp add: Let_def)
qed

theorem reserved_value_step_witness:
  "(tailCounter (scenario_appender 128 0) mod 4294967296
       + AlignInt32 (i32 (10 + Header_Length)) FrameAlignment
       \<le> capacity (termBuffer (scenario_appender 128 0))
     \<and> (0::int) \<le> 10 \<and> (10::int) \<le> 2147483584
     \<and> in_i32 (capacity (termBuffer (scenario_appender 128 0))))
   \<and> calls (termBuffer (fst (AppendUnfragmentedMessage (scenario_appender 128 0) (\<lambda>a. 1) 0 10 None)))
       = header_calls \<lparr>sessionID = 11, streamID = 22\<rparr> 0 42 0
         @ [Call_PutBytes 32 (src_bytes (\<lambda>a. 1) 0 10), Call_FrameLengthOrdered 0 42]
   \<and> GetInt64 (mem (termBuffer (fst (AppendUnfragmentedMessage (scenario_appender 128 0) (\<lambda>a. 1) 0 10
          (Some (\<lambda>tb tOff fl. tOff + fl + 57)))))) 24 = 99"
proof -
  let ?ap = "scenario_appender 128 0"
  have A: "AlignInt32 (i32 (10 + Header_Length)) FrameAlignment = 64"
    by (simp add: scenario_simps)
  have h: "tailCounter ?ap mod 4294967296 + AlignInt32 (i32 (10 + Header_Length)) FrameAlignment
       \<le> capacity (termBuffer ?ap)"
    "(0::int) \<le> 10" "(10::int) \<le> 2147483584" "in_i32 (capacity (termBuffer ?ap))"
    by (simp_all add: A scenario_appender_def in_i32_def)
  have v: "tailCounter ?ap mod 4294967296 = 0" "termBuffer ?ap = \<lparr>capacity = 128, mem = (\<lambda>a. 0), calls = []\<rparr>"
    "headerWriter ?ap = \<lparr>sessionID = 11, streamID = 22\<rparr>" "TermID (tailCounter ?ap) = 0"
    by (simp_all add: scenario_appender_def TermID_def i32_zero)
  from reserved_value_step [OF h, where src = "\<lambda>a. 1" and srcOffset = 0
      and f = "\<lambda>tb tOff fl. tOff + fl + 57"]
  have "calls (termBuffer (fst (AppendUnfragmentedMessage ?ap (\<lambda>a. 1) 0 10 None)))
       = header_calls \<lparr>sessionID = 11, streamID = 22\<rparr> 0 42 0
         @ [Call_PutBytes 32 (src_bytes (\<lambda>a. 1) 0 10), Call_FrameLengthOrdered 0 42]"
    and "GetInt64 (mem (termBuffer (fst (AppendUnfragmentedMessage ?ap (\<lambda>a. 1) 0 10
          (Some (\<lambda>tb tOff fl. tOff + fl + 57)))))) 24 = 99"
    unfolding v by (simp_all add: Let_def Header_Length_def ReservedValueFieldOffset_def
        i64_id in_i64_def)
  with h show ?thesis by blast
qed

section \<open>The order of the writes\<close>



section \<open>The tail is only advanced\<close>

text \<open>
  C8. Each of the three append operations leaves the tail counter at its old value plus
  the full aligned (or required) length, whatever the outcome: the reservation is made
  before the term boundary is looked at and no path writes the tail again, so a tripped
  or failed append keeps its range.
\<close>

theorem tail_advanced_by_every_append:
  "tailCounter (fst (Claim ap len c))
     = i64 (tailCounter ap + AlignInt32 (i32 (len + Header_Length)) FrameAlignment)
   \<and> tailCounter (fst (AppendUnfragmentedMessage ap src srcOffset len rvs))
     = i64 (tailCounter ap + AlignInt32 (i32 (len + Header_Length)) FrameAlignment)
   \<and> (maxPL \<noteq> 0 \<and> in_i32 maxPL \<and> in_i32 len \<longrightarrow>
        (\<exists>res. AppendFragmentedMessage ap src srcOffset len maxPL rvs = Some res
           \<and> tailCounter (case res of Inl (p, ap') \<Rightarrow> ap' | Inr (ap', r) \<Rightarrow> ap')
               = i64 (tailCounter ap + fragmented_requiredLength len maxPL)))"
proof (intro conjI impI)
  let ?A = "AlignInt32 (i32 (len + Header_Length)) FrameAlignment"
  let ?low = "tailCounter ap mod 4294967296"
  show "tailCounter (fst (Claim ap len c)) = i64 (tailCounter ap + ?A)"
    by (cases "?low + ?A \<le> capacity (termBuffer ap)")
      (simp_all add: Claim_fits Claim_overrun)
  show "tailCounter (fst (AppendUnfragmentedMessage ap src srcOffset len rvs))
      = i64 (tailCounter ap + ?A)"
    by (cases "?low + ?A \<le> capacity (termBuffer ap)")
      (simp_all add: AppendUnfragmentedMessage_fits AppendUnfragmentedMessage_overrun)
next
  let ?R = "fragmented_requiredLength len maxPL"
  let ?low = "tailCounter ap mod 4294967296"
  assume a: "maxPL \<noteq> 0 \<and> in_i32 maxPL \<and> in_i32 len"
  show "\<exists>res. AppendFragmentedMessage ap src srcOffset len maxPL rvs = Some res
           \<and> tailCounter (case res of Inl (p, ap') \<Rightarrow> ap' | Inr (ap', r) \<Rightarrow> ap')
               = i64 (tailCounter ap + ?R)"
  proof (cases "?low + ?R \<le> capacity (termBuffer ap)")
    case True
    from a obtain res where
      "fragment_loop (headerWriter ap) src srcOffset len maxPL rvs (TermID (tailCounter ap))
         (termBuffer ap) beginFrag len (i32 ?low) = Some res"
      using fragment_loop_total by blast
    then show ?thesis
      using a True by (cases res) (auto simp: AppendFragmentedMessage_fits)
  next
    case False
    then show ?thesis using a by (simp add: AppendFragmentedMessage_overrun)
  qed
qed

theorem tail_advanced_by_every_append_witness:
  "result_termOffset (snd (AppendUnfragmentedMessage (scenario_appender 128 128) (\<lambda>a. 1) 0 10 None))
     = AppenderTripped
   \<and> tailCounter (fst (AppendUnfragmentedMessage (scenario_appender 128 128) (\<lambda>a. 1) 0 10 None)) = 192
   \<and> result_termOffset (snd (AppendUnfragmentedMessage (scenario_appender 128 192) (\<lambda>a. 1) 0 10 None))
     = AppenderFailed
   \<and> tailCounter (fst (AppendUnfragmentedMessage (scenario_appender 128 192) (\<lambda>a. 1) 0 10 None)) = 256
   \<and> tailCounter (fst (Claim (scenario_appender 128 128) 10 (Claim_Wrap 0 0))) = 192
   \<and> (32 \<noteq> (0::int) \<and> in_i32 32 \<and> in_i32 100)
   \<and> (\<exists>res. AppendFragmentedMessage (scenario_appender 128 0) (\<lambda>a. 1) 0 100 32 None = Some res
         \<and> tailCounter (case res of Inl (p, ap') \<Rightarrow> ap' | Inr (ap', r) \<Rightarrow> ap') = 256)"
proof -
  have A: "AlignInt32 (i32 (10 + Header_Length)) FrameAlignment = 64"
    by (simp add: scenario_simps)
  have R: "fragmented_requiredLength 100 32 = 256"
    by (simp add: fragmented_requiredLength_def quo32_def rem32_def scenario_simps)
  have t: "AppendUnfragmentedMessage (scenario_appender 128 128) (\<lambda>a. 1) 0 10 None
      = ((scenario_appender 128 192)\<lparr>tailCalls := [Call_GetAndAddInt64 64]\<rparr>,
          \<lparr>result_termOffset = AppenderTripped, result_termID = 0\<rparr>)"
    by (simp add: AppendUnfragmentedMessage_overrun A handleEndOfLogCondition_def TermID_def
        scenario_appender_def i32_id i64_id in_i32_def in_i64_def)
  have f: "AppendUnfragmentedMessage (scenario_appender 128 192) (\<lambda>a. 1) 0 10 None
      = ((scenario_appender 128 256)\<lparr>tailCalls := [Call_GetAndAddInt64 64]\<rparr>,
          \<lparr>result_termOffset = AppenderFailed, result_termID = 0\<rparr>)"
    by (simp add: AppendUnfragmentedMessage_overrun A handleEndOfLogCondition_def TermID_def
        scenario_appender_def i32_id i64_id in_i32_def in_i64_def)
  have h: "32 \<noteq> (0::int) \<and> in_i32 32 \<and> in_i32 100" by (simp add: in_i32_def)
  from tail_advanced_by_every_append [of "scenario_appender 128 128" 10 "Claim_Wrap 0 0"
       "\<lambda>a. 1" 0 None 32]
  have c: "tailCounter (fst (Claim (scenario_appender 128 128) 10 (Claim_Wrap 0 0))) = 192"
    by (simp add: A scenario_appender_def i64_id in_i64_def)
  from tail_advanced_by_every_append [of "scenario_appender 128 0" 100 "Claim_Wrap 0 0"
       "\<lambda>a. 1" 0 None 32] h
  have g: "\<exists>res. AppendFragmentedMessage (scenario_appender 128 0) (\<lambda>a. 1) 0 100 32 None = Some res
         \<and> tailCounter (case res of Inl (p, ap') \<Rightarrow> ap' | Inr (ap', r) \<Rightarrow> ap') = 256"
    by (simp add: R scenario_appender_def i64_id in_i64_def)
  from t f c h g show ?thesis by (simp add: scenario_appender_def)
qed

section \<open>The supplier of the fragmented append\<close>

text \<open>
  C9. \<open>AppendFragmentedMessage\<close> calls the supplier for every fragment without looking at
  it: with a nil supplier a fitting append of a message that is not empty panics at its
  first fragment, after the header, the payload and the flags are written and before any
  length is published, with the tail already advanced. With a supplier it never panics so.
  \<open>AppendUnfragmentedMessage\<close> guards the call and returns with a nil supplier.
\<close>

theorem fragmented_nil_supplier_panics:
  "(maxPL \<noteq> 0 \<and> 0 < len
      \<and> tailCounter ap mod 4294967296 + fragmented_requiredLength len maxPL
           \<le> capacity (termBuffer ap) \<longrightarrow>
      (\<exists>ap'. AppendFragmentedMessage ap src srcOffset len maxPL None
               = Some (Inl (NilDereference, ap'))
         \<and> tailCounter ap' = i64 (tailCounter ap + fragmented_requiredLength len maxPL)
         \<and> calls (termBuffer ap') = calls (termBuffer ap)
             @ header_calls (headerWriter ap) (i32 (tailCounter ap mod 4294967296))
                 (i32 (min len maxPL + Header_Length)) (TermID (tailCounter ap))
             @ [Call_PutBytes (i32 (i32 (tailCounter ap mod 4294967296) + Header_Length))
                  (src_bytes src (i32 srcOffset) (min len maxPL)),
                Call_FrameFlags (i32 (tailCounter ap mod 4294967296))
                  (if len \<le> maxPL then beginFrag OR endFrag else beginFrag)]))
   \<and> (in_i32 maxPL \<and> in_i32 len \<longrightarrow>
        (\<forall>ap'. AppendFragmentedMessage ap src srcOffset len maxPL (Some f)
               \<noteq> Some (Inl (NilDereference, ap'))))
   \<and> (tailCounter ap mod 4294967296 + AlignInt32 (i32 (len + Header_Length)) FrameAlignment
           \<le> capacity (termBuffer ap) \<longrightarrow>
        snd (AppendUnfragmentedMessage ap src srcOffset len None)
          = \<lparr>result_termOffset = tailCounter ap mod 4294967296
               + AlignInt32 (i32 (len + Header_Length)) FrameAlignment,
             result_termID = TermID (tailCounter ap)\<rparr>)"
proof (intro conjI impI allI)
  let ?low = "tailCounter ap mod 4294967296"
  let ?R = "fragmented_requiredLength len maxPL"
  assume a: "maxPL \<noteq> 0 \<and> 0 < len \<and> ?low + ?R \<le> capacity (termBuffer ap)"
  then have m: "maxPL \<noteq> 0" and l: "0 < len" and fits: "?low + ?R \<le> capacity (termBuffer ap)"
    by simp_all
  let ?b = "fragment_before_supplier (headerWriter ap) src srcOffset len maxPL
      (TermID (tailCounter ap)) (termBuffer ap) beginFrag len (i32 ?low)"
  have "AppendFragmentedMessage ap src srcOffset len maxPL None
      = Some (Inl (NilDereference, ap\<lparr>tailCounter := i64 (tailCounter ap + ?R),
          tailCalls := tailCalls ap @ [Call_GetAndAddInt64 ?R], termBuffer := ?b\<rparr>))"
    by (simp add: AppendFragmentedMessage_fits [OF m fits] fragment_loop_nil [OF l])
  moreover have "calls ?b = calls (termBuffer ap)
             @ header_calls (headerWriter ap) (i32 ?low)
                 (i32 (min len maxPL + Header_Length)) (TermID (tailCounter ap))
             @ [Call_PutBytes (i32 (i32 ?low + Header_Length))
                  (src_bytes src (i32 srcOffset) (min len maxPL)),
                Call_FrameFlags (i32 ?low)
                  (if len \<le> maxPL then beginFrag OR endFrag else beginFrag)]"
    by (simp add: fragment_before_supplier_def FrameFlags_def PutBytes_def put_simps
        calls_headerWriter_write i32_zero)
  ultimately show "\<exists>ap'. AppendFragmentedMessage ap src srcOffset len maxPL None
               = Some (Inl (NilDereference, ap'))
         \<and> tailCounter ap' = i64 (tailCounter ap + ?R)
         \<and> calls (termBuffer ap') = calls (termBuffer ap)
             @ header_calls (headerWriter ap) (i32 ?low)
                 (i32 (min len maxPL + Header_Length)) (TermID (tailCounter ap))
             @ [Call_PutBytes (i32 (i32 ?low + Header_Length))
                  (src_bytes src (i32 srcOffset) (min len maxPL)),
                Call_FrameFlags (i32 ?low)
                  (if len \<le> maxPL then beginFrag OR endFrag else beginFrag)]"
    by simp
next
  fix ap'
  let ?low = "tailCounter ap mod 4294967296"
  let ?R = "fragmented_requiredLength len maxPL"
  assume a: "in_i32 maxPL \<and> in_i32 len"
  show "AppendFragmentedMessage ap src srcOffset len maxPL (Some f)
          \<noteq> Some (Inl (NilDereference, ap'))"
  proof (cases "maxPL = 0")
    case True
    then show ?thesis by (simp add: AppendFragmentedMessage_def)
  next
    case False
    show ?thesis
    proof (cases "?low + ?R \<le> capacity (termBuffer ap)")
      case True
      from a False obtain b' where
        "fragment_loop (headerWriter ap) src srcOffset len maxPL (Some f) (TermID (tailCounter ap))
           (termBuffer ap) beginFrag len (i32 ?low) = Some (Inr b')"
        using fragment_loop_returns [of maxPL len] by blast
      then show ?thesis by (simp add: AppendFragmentedMessage_fits [OF False True])
    next
      case f: False
      then show ?thesis by (simp add: AppendFragmentedMessage_overrun [OF False])
    qed
  qed
next
  assume "tailCounter ap mod 4294967296 + AlignInt32 (i32 (len + Header_Length)) FrameAlignment
           \<le> capacity (termBuffer ap)"
  then show "snd (AppendUnfragmentedMessage ap src srcOffset len None)
          = \<lparr>result_termOffset = tailCounter ap mod 4294967296
               + AlignInt32 (i32 (len + Header_Length)) FrameAlignment,
             result_termID = TermID (tailCounter ap)\<rparr>"
    by (simp add: AppendUnfragmentedMessage_fits)
qed

theorem fragmented_nil_supplier_panics_witness:
  "(32 \<noteq> (0::int) \<and> (0::int) < 100
     \<and> tailCounter (scenario_appender 1024 0) mod 4294967296 + fragmented_requiredLength 100 32
          \<le> capacity (termBuffer (scenario_appender 1024 0)))
   \<and> (\<exists>ap'. AppendFragmentedMessage (scenario_appender 1024 0) (\<lambda>a. 1) 0 100 32 None
              = Some (Inl (NilDereference, ap'))
        \<and> tailCounter ap' = 256)
   \<and> (in_i32 32 \<and> in_i32 100)
   \<and> (\<forall>ap'. AppendFragmentedMessage (scenario_appender 1024 0) (\<lambda>a. 1) 0 100 32
               (Some DefaultReservedValueSupplier) \<noteq> Some (Inl (NilDereference, ap')))
   \<and> tailCounter (scenario_appender 1024 0) mod 4294967296
        + AlignInt32 (i32 (100 + Header_Length)) FrameAlignment
        \<le> capacity (termBuffer (scenario_appender 1024 0))
   \<and> snd (AppendUnfragmentedMessage (scenario_appender 1024 0) (\<lambda>a. 1) 0 100 None)
        = \<lparr>result_termOffset = 160, result_termID = 0\<rparr>"
proof -
  have R: "fragmented_requiredLength 100 32 = 256"
    by (simp add: fragmented_requiredLength_def quo32_def rem32_def scenario_simps)
  have A: "AlignInt32 (i32 (100 + Header_Length)) FrameAlignment = 160"
    by (simp add: scenario_simps)
  have h: "32 \<noteq> (0::int) \<and> (0::int) < 100
     \<and> tailCounter (scenario_appender 1024 0) mod 4294967296 + fragmented_requiredLength 100 32
          \<le> capacity (termBuffer (scenario_appender 1024 0))"
    by (simp add: R scenario_appender_def)
  have i: "in_i32 32 \<and> in_i32 100" by (simp add: in_i32_def)
  have u: "tailCounter (scenario_appender 1024 0) mod 4294967296
        + AlignInt32 (i32 (100 + Header_Length)) FrameAlignment
        \<le> capacity (termBuffer (scenario_appender 1024 0))"
    by (simp add: A scenario_appender_def)
  note T = fragmented_nil_supplier_panics [where ap = "scenario_appender 1024 0" and len = 100
      and maxPL = 32 and src = "\<lambda>a. 1" and srcOffset = 0 and f = DefaultReservedValueSupplier]
  from T [THEN conjunct1, THEN mp, OF h] obtain ap' where
    "AppendFragmentedMessage (scenario_appender 1024 0) (\<lambda>a. 1) 0 100 32 None
       = Some (Inl (NilDereference, ap'))"
    "tailCounter ap' = i64 (tailCounter (scenario_appender 1024 0) + fragmented_requiredLength 100 32)"
    by (elim conjE exE) (rule that)
  then have p: "\<exists>ap'. AppendFragmentedMessage (scenario_appender 1024 0) (\<lambda>a. 1) 0 100 32 None
              = Some (Inl (NilDereference, ap'))
        \<and> tailCounter ap' = 256"
    by (intro exI [of _ ap']) (simp add: R scenario_appender_def i64_id in_i64_def)
  have n: "\<forall>ap'. AppendFragmentedMessage (scenario_appender 1024 0) (\<lambda>a. 1) 0 100 32
               (Some DefaultReservedValueSupplier) \<noteq> Some (Inl (NilDereference, ap'))"
    by (rule T [THEN conjunct2, THEN conjunct1, THEN mp, OF i])
  have "snd (AppendUnfragmentedMessage (scenario_appender 1024 0) (\<lambda>a. 1) 0 100 None)
      = \<lparr>result_termOffset = tailCounter (scenario_appender 1024 0) mod 4294967296
           + AlignInt32 (i32 (100 + Header_Length)) FrameAlignment,
         result_termID = TermID (tailCounter (scenario_appender 1024 0))\<rparr>"
    by (rule T [THEN conjunct2, THEN conjunct2, THEN mp, OF u])
  then have g: "snd (AppendUnfragmentedMessage (scenario_appender 1024 0) (\<lambda>a. 1) 0 100 None)
        = \<lparr>result_termOffset = 160, result_termID = 0\<rparr>"
    by (simp add: A scenario_appender_def TermID_def i32_id in_i32_def)
  show ?thesis by (rule conjI [OF h conjI [OF p conjI [OF i conjI [OF n conjI [OF u g]]]]])
qed

section \<open>The header of the padding frame\<close>

text \<open>
  C10. The padding frame is the frame of the ordinary header write with the type field
  overwritten: in memory its flags byte is 0xC0 (begin and end fragment), its version,
  term offset (the start of the padding), session ID, stream ID and term ID are the ones
  the header write stores for a data frame, and its type is pad; the type is set after the
  header write and before the length is published.
\<close>

theorem padding_frame_header:
  assumes "termOffset < termLength"
    and "in_i32 termOffset" "in_i32 termID"
    and "in_i32 (sessionID header)" "in_i32 (streamID header)"
  shows "\<exists>tb'. handleEndOfLogCondition termID tb termOffset header termLength = (tb', AppenderTripped)
     \<and> tb' = FrameLengthOrdered
          (SetFrameType
             (headerWriter_write header tb termOffset (i32 (termLength - termOffset)) termID)
             termOffset TypePad)
          termOffset (i32 (termLength - termOffset))
     \<and> calls tb' = calls tb
          @ header_calls header termOffset (i32 (termLength - termOffset)) termID
          @ [Call_SetFrameType termOffset TypePad,
             Call_FrameLengthOrdered termOffset (i32 (termLength - termOffset))]
     \<and> frame_flags (mem tb') termOffset = 192
     \<and> beginFrag OR endFrag = 192
     \<and> frame_version (mem tb') termOffset = CurrentVersion
     \<and> frame_term_offset (mem tb') termOffset = termOffset
     \<and> frame_session_id (mem tb') termOffset = sessionID header
     \<and> frame_stream_id (mem tb') termOffset = streamID header
     \<and> frame_term_id (mem tb') termOffset = termID
     \<and> frame_type (mem tb') termOffset = TypePad
     \<and> TypePad \<noteq> TypeData"
proof -
  let ?pl = "i32 (termLength - termOffset)"
  let ?b1 = "headerWriter_write header tb termOffset ?pl termID"
  let ?tb' = "FrameLengthOrdered (SetFrameType ?b1 termOffset TypePad) termOffset ?pl"
  have r: "handleEndOfLogCondition termID tb termOffset header termLength = (?tb', AppenderTripped)"
    using assms(1) by (rule handleEndOfLogCondition_padding)
  have c: "calls ?tb' = calls tb @ header_calls header termOffset ?pl termID
      @ [Call_SetFrameType termOffset TypePad, Call_FrameLengthOrdered termOffset ?pl]"
    by (simp add: FrameLengthOrdered_def SetFrameType_def put_simps calls_headerWriter_write)
  have f: "frame_flags (mem ?tb') termOffset = 192"
    by (simp add: mem_SetFrameType_FrameLengthOrdered mem_headerWriter_write unfragmented_def)
  have o: "beginFrag OR endFrag = 192"
    by (simp add: beginFrag_def endFrag_def)
  have v: "frame_version (mem ?tb') termOffset = CurrentVersion"
    by (simp add: mem_SetFrameType_FrameLengthOrdered mem_headerWriter_write CurrentVersion_def)
  have t: "frame_term_offset (mem ?tb') termOffset = termOffset"
    "frame_session_id (mem ?tb') termOffset = sessionID header"
    "frame_stream_id (mem ?tb') termOffset = streamID header"
    "frame_term_id (mem ?tb') termOffset = termID"
    using assms(2-)
    by (simp_all add: mem_SetFrameType_FrameLengthOrdered mem_headerWriter_write i32_id)
  have p: "frame_type (mem ?tb') termOffset = TypePad" "TypePad \<noteq> TypeData"
    by (simp_all add: mem_SetFrameType_FrameLengthOrdered TypePad_def TypeData_def)
  from r c f o v t p show ?thesis by blast
qed

theorem padding_frame_header_witness:
  "(64::int) < 128 \<and> in_i32 64 \<and> in_i32 7 \<and> in_i32 11 \<and> in_i32 22
   \<and> (\<exists>tb'. handleEndOfLogCondition 7 \<lparr>capacity = 128, mem = (\<lambda>a. 0), calls = []\<rparr> 64
              \<lparr>sessionID = 11, streamID = 22\<rparr> 128 = (tb', - 1)
        \<and> frame_flags (mem tb') 64 = 192
        \<and> frame_term_offset (mem tb') 64 = 64
        \<and> frame_session_id (mem tb') 64 = 11
        \<and> frame_stream_id (mem tb') 64 = 22
        \<and> frame_term_id (mem tb') 64 = 7
        \<and> frame_type (mem tb') 64 = TypePad)"
proof -
  have h: "(64::int) < 128" "in_i32 64" "in_i32 7"
    "in_i32 (sessionID \<lparr>sessionID = 11, streamID = 22\<rparr>)"
    "in_i32 (streamID \<lparr>sessionID = 11, streamID = 22\<rparr>)"
    by (simp_all add: in_i32_def)
  have i: "in_i32 11" "in_i32 22" by (simp_all add: in_i32_def)
  from padding_frame_header [OF h, of "\<lparr>capacity = 128, mem = (\<lambda>a. 0), calls = []\<rparr>"]
  obtain tb' where
    "handleEndOfLogCondition 7 \<lparr>capacity = 128, mem = (\<lambda>a. 0), calls = []\<rparr> 64
       \<lparr>sessionID = 11, streamID = 22\<rparr> 128 = (tb', AppenderTripped)"
    "frame_flags (mem tb') 64 = 192"
    "frame_term_offset (mem tb') 64 = 64"
    "frame_session_id (mem tb') 64 = sessionID \<lparr>sessionID = 11, streamID = 22\<rparr>"
    "frame_stream_id (mem tb') 64 = streamID \<lparr>sessionID = 11, streamID = 22\<rparr>"
    "frame_term_id (mem tb') 64 = 7"
    "frame_type (mem tb') 64 = TypePad"
    by blast
  with h(1-3) i show ?thesis by (simp add: AppenderTripped_def)
qed

end
